theory Spec2Isabelle
  imports Main "HOL-Library.Word"
begin

section \<open>eeprom-fs: a micro EEPROM filesystem\<close>

text \<open>
  A shallow embedding of \<^verbatim>\<open>eeprom-fs/eeprom-fs.c\<close> and \<^verbatim>\<open>eeprom-fs/eeprom-fs.h\<close>.
  The target is an AVR microcontroller (the code includes \<^verbatim>\<open>avr/eeprom.h\<close>):
  \<^verbatim>\<open>int\<close>, \<^verbatim>\<open>size_t\<close> and \<^verbatim>\<open>uintptr_t\<close> are 16 bits wide, structs are not
  padded and multi-byte values are stored little-endian.

  \<^item> \<^verbatim>\<open>lba_t\<close> (\<^verbatim>\<open>int16_t\<close>) is an \<open>int\<close>; every value the code computes itself
    (\<open>i - 1\<close>, \<open>-1\<close>) stays in range, and a value read from the medium is decoded from
    two bytes as two's complement.
  \<^item> \<^verbatim>\<open>size_t\<close>, \<^verbatim>\<open>fname_t\<close> and \<^verbatim>\<open>uint16_t\<close> are \<open>nat\<close>, with \<open>mod 65536\<close>
    written out where the C arithmetic can wrap.
  \<^item> Memory reached through a pointer (the EEPROM, the caller's buffers, a local array)
    is a function from byte offsets to bytes.
  \<^item> The global \<^verbatim>\<open>alloc_table\<close> is a function from indices to entries; the array has
    the indices \<open>0 .. EEPROM_FS_MAX_FILES\<close>.
  \<^item> What the code prints to \<^verbatim>\<open>stderr\<close> is a list of entries: the level (0 for
    \<^verbatim>\<open>_fs_error\<close>), the format string and the arguments.
  \<^item> The two loops that follow block links on the medium may run forever on a cyclic
    chain; they are partial functions into \<open>option\<close>, and \<open>None\<close> is "does not return".
\<close>

subsection \<open>Types and configuration (eeprom-fs.h)\<close>

type_synonym byte = "8 word"
type_synonym mem = "nat \<Rightarrow> byte"
type_synonym lba_t = int
type_synonym fname_t = nat
type_synonym log_entry = "nat \<times> string \<times> int list"

definition EEPROM_FS_START :: nat where
  "EEPROM_FS_START = 0"

definition EEPROM_FS_SIZE :: nat where
  "EEPROM_FS_SIZE = 2048"

definition EEPROM_FS_BLOCK_SIZE :: nat where
  "EEPROM_FS_BLOCK_SIZE = 32"

definition EEPROM_FS_MAX_BLOCKS_PER_FILE :: nat where
  "EEPROM_FS_MAX_BLOCKS_PER_FILE = 8"

definition EEPROM_FS_MAX_FILES :: nat where
  "EEPROM_FS_MAX_FILES = 29"

text \<open>\<^verbatim>\<open>sizeof\<close> on the AVR: \<^verbatim>\<open>lba_t\<close> is two bytes, \<^verbatim>\<open>file_alloc_t\<close> is a
  \<^verbatim>\<open>size_t\<close> and an \<^verbatim>\<open>lba_t\<close>, \<^verbatim>\<open>fs_meta_t\<close> is five 16-bit fields.\<close>

definition sizeof_lba_t :: nat where
  "sizeof_lba_t = 2"

definition sizeof_file_alloc_t :: nat where
  "sizeof_file_alloc_t = 4"

definition sizeof_fs_meta_t :: nat where
  "sizeof_fs_meta_t = 10"

definition sizeof_alloc_table :: nat where
  "sizeof_alloc_table = (EEPROM_FS_MAX_FILES + 1) * sizeof_file_alloc_t"

definition EEPROM_FS_META_OFFSET :: nat where
  "EEPROM_FS_META_OFFSET = 0"

definition EEPROM_FS_ALLOC_TABLE_OFFSET :: nat where
  "EEPROM_FS_ALLOC_TABLE_OFFSET = sizeof_fs_meta_t"

definition EEPROM_FS_DATA_OFFSET :: nat where
  "EEPROM_FS_DATA_OFFSET = EEPROM_FS_ALLOC_TABLE_OFFSET + sizeof_alloc_table"

definition EEPROM_FS_NUM_BLOCKS :: nat where
  "EEPROM_FS_NUM_BLOCKS = (EEPROM_FS_SIZE - EEPROM_FS_DATA_OFFSET) div EEPROM_FS_BLOCK_SIZE"

definition EEPROM_FS_BLOCK_DATA_SIZE :: nat where
  "EEPROM_FS_BLOCK_DATA_SIZE = EEPROM_FS_BLOCK_SIZE - sizeof_lba_t"

definition NULL_PTR :: lba_t where
  "NULL_PTR = - 1"

record block_t =
  next_block :: lba_t
  bdata :: "byte list"

record file_alloc_t =
  fa_filesize :: nat
  fa_data_block :: lba_t

record fs_meta_t =
  m_block_size :: nat
  m_start_address :: nat
  m_fs_size :: nat
  m_max_files :: nat
  m_max_blocks_per_file :: nat

datatype handle_type = FH_READ | FH_WRITE | FH_APPEND

record file_handle_t =
  fh_filename :: fname_t
  fh_filesize :: nat
  fh_type :: handle_type
  fh_first_block :: lba_t
  fh_last_block :: lba_t

datatype format_type_t = FORMAT_FULL | FORMAT_QUICK | FORMAT_WIPE

text \<open>The globals of eeprom-fs.c (\<^verbatim>\<open>alloc_table\<close>, \<^verbatim>\<open>__debug\<close>), the medium and the
  error stream.\<close>

record fs_state =
  alloc_table :: "nat \<Rightarrow> file_alloc_t"
  eeprom :: mem
  debug_level :: nat
  stderr_out :: "log_entry list"

subsection \<open>The storage driver (avr/eeprom.h)\<close>

definition eeprom_read_block :: "mem \<Rightarrow> nat \<Rightarrow> nat \<Rightarrow> byte list" where
  "eeprom_read_block e src n = map (\<lambda>k. e (src + k)) [0..<n]"

definition eeprom_write_block :: "byte list \<Rightarrow> nat \<Rightarrow> mem \<Rightarrow> mem" where
  "eeprom_write_block bs dst e =
     (\<lambda>a. if dst \<le> a \<and> a < dst + length bs then bs ! (a - dst) else e a)"

text \<open>\<^verbatim>\<open>eeprom_update_block\<close> writes only the bytes that differ.\<close>

definition eeprom_update_block :: "byte list \<Rightarrow> nat \<Rightarrow> mem \<Rightarrow> mem" where
  "eeprom_update_block bs dst e =
     (\<lambda>a. if dst \<le> a \<and> a < dst + length bs
          then (if e a = bs ! (a - dst) then e a else bs ! (a - dst))
          else e a)"

definition eeprom_write_dword :: "nat \<Rightarrow> mem \<Rightarrow> mem" where
  "eeprom_write_dword dst e = eeprom_write_block [0, 0, 0, 0] dst e"

subsection \<open>Byte layout of the structs\<close>

definition le16 :: "int \<Rightarrow> byte list" where
  "le16 x = [word_of_int x, word_of_int (x div 256)]"

definition u16_of :: "byte list \<Rightarrow> nat" where
  "u16_of bs = unat (bs ! 0) + 256 * unat (bs ! 1)"

definition s16_of :: "byte list \<Rightarrow> int" where
  "s16_of bs = (if u16_of bs < 32768 then int (u16_of bs) else int (u16_of bs) - 65536)"

definition enc_block :: "block_t \<Rightarrow> byte list" where
  "enc_block b = le16 (next_block b) @ bdata b"

definition dec_block :: "byte list \<Rightarrow> block_t" where
  "dec_block bs = \<lparr>next_block = s16_of (take sizeof_lba_t bs), bdata = drop sizeof_lba_t bs\<rparr>"

definition enc_file_alloc :: "file_alloc_t \<Rightarrow> byte list" where
  "enc_file_alloc fa = le16 (int (fa_filesize fa)) @ le16 (fa_data_block fa)"

definition dec_file_alloc :: "byte list \<Rightarrow> file_alloc_t" where
  "dec_file_alloc bs = \<lparr>fa_filesize = u16_of (take 2 bs), fa_data_block = s16_of (drop 2 bs)\<rparr>"

definition enc_fs_meta :: "fs_meta_t \<Rightarrow> byte list" where
  "enc_fs_meta m =
     le16 (int (m_block_size m)) @ le16 (int (m_start_address m)) @ le16 (int (m_fs_size m)) @
     le16 (int (m_max_files m)) @ le16 (int (m_max_blocks_per_file m))"

definition dec_fs_meta :: "byte list \<Rightarrow> fs_meta_t" where
  "dec_fs_meta bs =
     \<lparr>m_block_size = u16_of (take 2 bs),
      m_start_address = u16_of (take 2 (drop 2 bs)),
      m_fs_size = u16_of (take 2 (drop 4 bs)),
      m_max_files = u16_of (take 2 (drop 6 bs)),
      m_max_blocks_per_file = u16_of (take 2 (drop 8 bs))\<rparr>"

text \<open>The whole of \<^verbatim>\<open>alloc_table\<close> as it lies in memory, and read back from bytes.\<close>

definition enc_alloc_table :: "(nat \<Rightarrow> file_alloc_t) \<Rightarrow> byte list" where
  "enc_alloc_table t = concat (map (\<lambda>i. enc_file_alloc (t i)) [0..<EEPROM_FS_MAX_FILES + 1])"

definition dec_alloc_table :: "byte list \<Rightarrow> (nat \<Rightarrow> file_alloc_t) \<Rightarrow> (nat \<Rightarrow> file_alloc_t)" where
  "dec_alloc_table bs old =
     (\<lambda>i. if i < EEPROM_FS_MAX_FILES + 1
          then dec_file_alloc (take sizeof_file_alloc_t (drop (i * sizeof_file_alloc_t) bs))
          else old i)"

subsection \<open>Debugging output\<close>

definition set_debug :: "nat \<Rightarrow> fs_state \<Rightarrow> fs_state" where
  "set_debug level s = s\<lparr>debug_level := level mod 256\<rparr>"

definition vfprintf_stderr :: "nat \<Rightarrow> string \<Rightarrow> int list \<Rightarrow> fs_state \<Rightarrow> fs_state" where
  "vfprintf_stderr lvl fmt args s = s\<lparr>stderr_out := stderr_out s @ [(lvl, fmt, args)]\<rparr>"

definition fs_error :: "string \<Rightarrow> int list \<Rightarrow> fs_state \<Rightarrow> fs_state" where
  "fs_error fmt args s = vfprintf_stderr 0 fmt args s"

definition fs_debug1 :: "string \<Rightarrow> int list \<Rightarrow> fs_state \<Rightarrow> fs_state" where
  "fs_debug1 fmt args s = (if debug_level s \<ge> 1 then vfprintf_stderr 1 fmt args s else s)"

definition fs_debug2 :: "string \<Rightarrow> int list \<Rightarrow> fs_state \<Rightarrow> fs_state" where
  "fs_debug2 fmt args s = (if debug_level s \<ge> 2 then vfprintf_stderr 2 fmt args s else s)"

definition fs_debug3 :: "string \<Rightarrow> int list \<Rightarrow> fs_state \<Rightarrow> fs_state" where
  "fs_debug3 fmt args s = (if debug_level s \<ge> 3 then vfprintf_stderr 3 fmt args s else s)"

definition fs_debug4 :: "string \<Rightarrow> int list \<Rightarrow> fs_state \<Rightarrow> fs_state" where
  "fs_debug4 fmt args s = (if debug_level s \<ge> 4 then vfprintf_stderr 4 fmt args s else s)"

subsection \<open>Block pool\<close>

text \<open>\<^verbatim>\<open>next_free_block\<close> points at \<^verbatim>\<open>alloc_table[EEPROM_FS_MAX_FILES].data_block\<close>.\<close>

definition next_free_block :: "fs_state \<Rightarrow> lba_t" where
  "next_free_block s = fa_data_block (alloc_table s EEPROM_FS_MAX_FILES)"

definition set_next_free_block :: "lba_t \<Rightarrow> fs_state \<Rightarrow> fs_state" where
  "set_next_free_block v s =
     s\<lparr>alloc_table := (alloc_table s)
          (EEPROM_FS_MAX_FILES := (alloc_table s EEPROM_FS_MAX_FILES)\<lparr>fa_data_block := v\<rparr>)\<rparr>"

text \<open>The range check \<^verbatim>\<open>block >= 0 && block < (lba_t) EEPROM_FS_NUM_BLOCKS\<close>.\<close>

definition in_pool :: "lba_t \<Rightarrow> bool" where
  "in_pool block = (0 \<le> block \<and> block < int EEPROM_FS_NUM_BLOCKS)"

text \<open>C's \<^verbatim>\<open>%\<close> truncates towards zero; a 16-bit \<^verbatim>\<open>int\<close> product wraps (avr-gcc).\<close>

definition c_rem :: "int \<Rightarrow> int \<Rightarrow> int" where
  "c_rem a b = sgn a * (\<bar>a\<bar> mod \<bar>b\<bar>)"

definition wrap_int16 :: "int \<Rightarrow> int" where
  "wrap_int16 x = (x + 32768) mod 65536 - 32768"

text \<open>The sum is unsigned 16-bit arithmetic: the offsets are \<^verbatim>\<open>sizeof\<close> values.\<close>

definition get_block_pointer :: "lba_t \<Rightarrow> nat" where
  "get_block_pointer block =
     nat ((int (EEPROM_FS_START + EEPROM_FS_DATA_OFFSET)
           + c_rem (wrap_int16 (block * int EEPROM_FS_BLOCK_SIZE)) (int EEPROM_FS_SIZE)) mod 65536)"

definition read_block :: "mem \<Rightarrow> lba_t \<Rightarrow> block_t" where
  "read_block e block =
     dec_block (eeprom_read_block e (get_block_pointer block) EEPROM_FS_BLOCK_SIZE)"

partial_function (option) last_block_loop :: "lba_t \<Rightarrow> fs_state \<Rightarrow> (lba_t \<times> fs_state) option" where
  "last_block_loop nxt s =
     (let block = nxt;
          s1 = fs_debug4 ''checking... %d\<newline>'' [block] s;
          current_block = read_block (eeprom s1) block
      in if next_block current_block \<noteq> NULL_PTR
         then last_block_loop (next_block current_block) s1
         else Some (block, s1))"

declare last_block_loop.simps [code]

definition last_block_in_chain :: "lba_t \<Rightarrow> fs_state \<Rightarrow> (lba_t \<times> fs_state) option" where
  "last_block_in_chain block s =
     (if in_pool block then
        (case last_block_loop block (fs_debug3 ''Searching for last block in chain...\<newline>'' [] s) of
           None \<Rightarrow> None
         | Some (b, s1) \<Rightarrow> Some (b, fs_debug3 ''Last block in chain: %d\<newline>'' [b] s1))
      else Some (NULL_PTR, fs_error ''Block %d is not part of a block chain.\<newline>'' [block] s))"

definition write_block_data :: "mem \<Rightarrow> fs_state \<Rightarrow> lba_t \<times> fs_state" where
  "write_block_data data s =
     (let write_to = next_free_block s in
      if in_pool write_to then
        let current_block_data = read_block (eeprom s) write_to;
            s1 = set_next_free_block (next_block current_block_data) s;
            s2 = fs_debug2 ''Overwriting block %d...'' [write_to] s1;
            addr = get_block_pointer write_to + (EEPROM_FS_BLOCK_SIZE - EEPROM_FS_BLOCK_DATA_SIZE);
            s3 = s2\<lparr>eeprom := eeprom_write_block (map data [0..<EEPROM_FS_BLOCK_DATA_SIZE]) addr (eeprom s2)\<rparr>;
            s4 = fs_debug2 ''Done.\<newline>'' [] s3;
            s5 = fs_debug3 ''Next free block: %d\<newline>'' [next_free_block s4] s4
        in (write_to, s5)
      else (NULL_PTR, fs_error ''Attempted to write to invalid block %d.\<newline>'' [write_to] s))"

definition alloc_entry_addr :: "nat \<Rightarrow> nat" where
  "alloc_entry_addr i =
     (EEPROM_FS_START + EEPROM_FS_ALLOC_TABLE_OFFSET + i * sizeof_file_alloc_t) mod 65536"

definition link :: "file_handle_t \<Rightarrow> fs_state \<Rightarrow> fs_state" where
  "link fh s =
     (if in_pool (fh_first_block fh) then
        let s1 = fs_debug1 ''Linking file %d to block %d.\<newline>'' [int (fh_filename fh), fh_first_block fh] s;
            filename = fh_filename fh mod EEPROM_FS_MAX_FILES;
            s2 = s1\<lparr>alloc_table := (alloc_table s1)
                   (filename := \<lparr>fa_filesize = fh_filesize fh, fa_data_block = fh_first_block fh\<rparr>)\<rparr>;
            s3 = s2\<lparr>eeprom := eeprom_update_block (enc_file_alloc (alloc_table s2 filename))
                                 (alloc_entry_addr filename) (eeprom s2)\<rparr>;
            s4 = s3\<lparr>eeprom := eeprom_update_block (enc_file_alloc (alloc_table s3 EEPROM_FS_MAX_FILES))
                                 (alloc_entry_addr EEPROM_FS_MAX_FILES) (eeprom s3)\<rparr>
        in fs_debug1 ''Link successful.\<newline>'' [] s4
      else fs_error ''Cannot link file %d to invalid block %d.\<newline>''
             [int (fh_filename fh), fh_first_block fh] s)"

text \<open>Only the first \<^verbatim>\<open>sizeof(lba_t)\<close> bytes of the block read are written back.\<close>

definition unlink :: "lba_t \<Rightarrow> fs_state \<Rightarrow> fs_state option" where
  "unlink block s =
     (if in_pool block then
        let s0 = fs_debug1 ''Unlinking block %d.\<newline>'' [block] s in
        (case last_block_in_chain (next_free_block s0) s0 of
           None \<Rightarrow> None
         | Some (last_free, s1) \<Rightarrow>
             let last_free_block = (read_block (eeprom s1) last_free)\<lparr>next_block := block\<rparr>;
                 s2 = s1\<lparr>eeprom := eeprom_write_block (take sizeof_lba_t (enc_block last_free_block))
                                      (get_block_pointer last_free) (eeprom s1)\<rparr>
             in Some (fs_debug1 ''Unlink successful.\<newline>'' [] s2))
      else Some (fs_error ''Cannot unlink invalid block %d.\<newline>'' [block] s))"

definition relink :: "lba_t \<Rightarrow> lba_t \<Rightarrow> fs_state \<Rightarrow> fs_state" where
  "relink block target s =
     (if in_pool block then
        if NULL_PTR \<le> target \<and> target < int EEPROM_FS_NUM_BLOCKS then
          let s1 = fs_debug3 ''Relinking block %d -> %d...'' [block, target] s;
              s2 = s1\<lparr>eeprom := eeprom_write_block (le16 target) (get_block_pointer block) (eeprom s1)\<rparr>
          in fs_debug3 ''Done.\<newline>'' [] s2
        else fs_error ''Attempted to relink to invalid block %d.\<newline>'' [target] s
      else fs_error ''Attempted to write to invalid block %d.\<newline>'' [block] s)"

subsection \<open>Opening a file\<close>

text \<open>The name is reduced only when it is larger than \<^verbatim>\<open>EEPROM_FS_MAX_FILES\<close>.\<close>

definition wrap_filename :: "fname_t \<Rightarrow> fs_state \<Rightarrow> fname_t \<times> fs_state" where
  "wrap_filename filename s =
     (if filename > EEPROM_FS_MAX_FILES then
        (filename mod EEPROM_FS_MAX_FILES,
         fs_debug2 ''Filename too large - truncated to %d.\<newline>''
           [int (filename mod EEPROM_FS_MAX_FILES)] s)
      else (filename, s))"

definition open_for_write :: "fname_t \<Rightarrow> fs_state \<Rightarrow> file_handle_t \<times> fs_state" where
  "open_for_write filename0 s =
     (let s1 = fs_debug1 ''Preparing file %d for writing.\<newline>'' [int filename0] s;
          (filename, s2) = wrap_filename filename0 s1;
          fh = \<lparr>fh_filename = filename, fh_filesize = 0, fh_type = FH_WRITE,
                fh_first_block = NULL_PTR, fh_last_block = NULL_PTR\<rparr>
      in (fh, fs_debug1 ''File ready.\<newline>'' [] s2))"

definition open_for_append :: "fname_t \<Rightarrow> fs_state \<Rightarrow> file_handle_t \<times> fs_state" where
  "open_for_append filename0 s =
     (let s1 = fs_debug1 ''Preparing file %d for appending.\<newline>'' [int filename0] s;
          (filename, s2) = wrap_filename filename0 s1;
          fh = \<lparr>fh_filename = filename, fh_filesize = fa_filesize (alloc_table s2 filename),
                fh_type = FH_APPEND, fh_first_block = NULL_PTR, fh_last_block = NULL_PTR\<rparr>
      in (fh, fs_debug1 ''File ready.\<newline>'' [] s2))"

definition open_for_read :: "fname_t \<Rightarrow> fs_state \<Rightarrow> file_handle_t \<times> fs_state" where
  "open_for_read filename0 s =
     (let s1 = fs_debug1 ''Preparing file %d for reading.\<newline>'' [int filename0] s;
          (filename, s2) = wrap_filename filename0 s1;
          fh = \<lparr>fh_filename = filename, fh_filesize = fa_filesize (alloc_table s2 filename),
                fh_type = FH_READ, fh_first_block = fa_data_block (alloc_table s2 filename),
                fh_last_block = NULL_PTR\<rparr>
      in if fh_first_block fh = NULL_PTR
         then (fh, fs_error ''File %d not found.\<newline>'' [int filename] s2)
         else (fh, fs_debug1 ''File ready.\<newline>'' [] s2))"

subsection \<open>Reading\<close>

text \<open>The inner loop of \<^verbatim>\<open>read\<close>: \<open>num_bytes\<close> bytes of the block go to the buffer at
  \<open>i * EEPROM_FS_BLOCK_DATA_SIZE + j\<close> (a \<^verbatim>\<open>size_t\<close>).\<close>

definition read_copy_byte :: "block_t \<Rightarrow> nat \<Rightarrow> nat \<Rightarrow> mem \<times> fs_state \<Rightarrow> mem \<times> fs_state" where
  "read_copy_byte block i j bs =
     (let (buf, s) = bs;
          k = (i * EEPROM_FS_BLOCK_DATA_SIZE + j) mod 65536;
          s1 = fs_debug4 ''buf[%d] = %c\<newline>'' [int k, uint (bdata block ! j)] s
      in (buf(k := bdata block ! j), s1))"

partial_function (option) read_loop ::
  "file_handle_t \<Rightarrow> lba_t \<Rightarrow> nat \<Rightarrow> nat \<Rightarrow> mem \<Rightarrow> fs_state \<Rightarrow> (mem \<times> fs_state) option" where
  "read_loop fh nxt i num_bytes buf s =
     (let s1 = fs_debug3 ''Reading from block %d...'' [nxt] s;
          block = read_block (eeprom s1) nxt;
          s2 = fs_debug3 ''Done.\<newline>'' [next_block block] s1;
          num_bytes1 = (if ((i + 1) * EEPROM_FS_BLOCK_DATA_SIZE) mod 65536 > fh_filesize fh
                        then fh_filesize fh mod EEPROM_FS_BLOCK_DATA_SIZE else num_bytes);
          (buf1, s3) = fold (read_copy_byte block i) [0..<num_bytes1] (buf, s2)
      in if next_block block \<noteq> NULL_PTR
         then read_loop fh (next_block block) ((i + 1) mod 65536) num_bytes1 buf1 s3
         else Some (buf1, s3))"

declare read_loop.simps [code]

definition read :: "file_handle_t \<Rightarrow> mem \<Rightarrow> fs_state \<Rightarrow> (mem \<times> fs_state) option" where
  "read fh buf s =
     (if in_pool (fh_first_block fh)
      then read_loop fh (fh_first_block fh) 0 EEPROM_FS_BLOCK_DATA_SIZE buf s
      else Some (buf, fs_error ''Tried to read from null file handle.\<newline>'' [] s))"

subsection \<open>Writing\<close>

text \<open>A handle opened for appending to a file whose last block is incomplete: the bytes of
  that block are read into the local array \<^verbatim>\<open>to_write\<close> (uninitialised memory
  \<open>to_write0\<close>), the new data is copied behind them, and the write goes on with the
  merged array.\<close>

definition append_merge ::
  "file_handle_t \<Rightarrow> mem \<Rightarrow> nat \<Rightarrow> mem \<Rightarrow> fs_state \<Rightarrow> (mem \<times> nat \<times> fs_state) option" where
  "append_merge fh data sz to_write0 s =
     (if fh_type fh = FH_APPEND \<and> fh_filesize fh mod EEPROM_FS_BLOCK_DATA_SIZE > 0 then
        let overflow = fh_filesize fh mod EEPROM_FS_BLOCK_DATA_SIZE in
        (case last_block_in_chain (fa_data_block (alloc_table s (fh_filename fh))) s of
           None \<Rightarrow> None
         | Some (lb, s1) \<Rightarrow>
             let last_block_fh = fh\<lparr>fh_first_block := lb, fh_filesize := overflow\<rparr> in
             (case read last_block_fh to_write0 s1 of
                None \<Rightarrow> None
              | Some (to_write, s2) \<Rightarrow>
                  Some (\<lambda>k. if overflow \<le> k \<and> k < overflow + sz
                             then data (k - overflow) else to_write k,
                        (overflow + sz) mod 65536, s2)))
      else Some (data, sz, s))"

definition write_copy_byte :: "mem \<Rightarrow> nat \<Rightarrow> nat \<Rightarrow> mem \<times> fs_state \<Rightarrow> mem \<times> fs_state" where
  "write_copy_byte data i j bs =
     (let (blk, s) = bs;
          k = (i * EEPROM_FS_BLOCK_DATA_SIZE + j) mod 65536;
          blk1 = blk(j := data k);
          s1 = fs_debug4 ''data[%d] = %c\<newline>'' [int k, uint (blk1 j)] s
      in (blk1, s1))"

text \<open>One round of the block loop of \<^verbatim>\<open>write\<close>; \<open>blk\<close> is the local \<^verbatim>\<open>block.data\<close>,
  which keeps the bytes of the round before.\<close>

definition write_one_block ::
  "mem \<Rightarrow> nat \<Rightarrow> nat \<Rightarrow> mem \<times> nat \<times> file_handle_t \<times> fs_state
     \<Rightarrow> mem \<times> nat \<times> file_handle_t \<times> fs_state" where
  "write_one_block data sz i st =
     (let (blk, num_bytes, fh, s) = st;
          num_bytes1 = (if ((i + 1) * EEPROM_FS_BLOCK_DATA_SIZE) mod 65536 > sz
                        then sz mod EEPROM_FS_BLOCK_DATA_SIZE else num_bytes);
          (blk1, s1) = fold (write_copy_byte data i) [0..<num_bytes1] (blk, s);
          (lba, s2) = write_block_data blk1 s1
      in (blk1, num_bytes1, fh\<lparr>fh_last_block := lba\<rparr>, s2))"

text \<open>The part of \<^verbatim>\<open>write\<close> after the merge: the capacity check and the block loop.
  \<open>block0\<close> is the uninitialised content of the local \<^verbatim>\<open>block.data\<close>.\<close>

definition write_blocks ::
  "file_handle_t \<Rightarrow> mem \<Rightarrow> nat \<Rightarrow> mem \<Rightarrow> fs_state \<Rightarrow> file_handle_t \<times> fs_state" where
  "write_blocks fh data sz block0 s =
     (let s1 = fs_debug1 ''Writing %d bytes to file %d.\<newline>'' [int sz, int (fh_filename fh)] s;
          blocks_in_use = fa_filesize (alloc_table s1 (fh_filename fh)) div EEPROM_FS_BLOCK_DATA_SIZE;
          too_large = (blocks_in_use + sz div EEPROM_FS_BLOCK_DATA_SIZE) mod 65536
                        > EEPROM_FS_MAX_BLOCKS_PER_FILE;
          num_blocks = (if too_large
                        then (EEPROM_FS_MAX_BLOCKS_PER_FILE + 65536 - blocks_in_use) mod 65536
                        else (sz div EEPROM_FS_BLOCK_DATA_SIZE + 1) mod 65536);
          s2 = (if too_large
                then fs_error ''File too large - write truncated to %d bytes.\<newline>''
                       [int ((num_blocks * EEPROM_FS_BLOCK_DATA_SIZE) mod 65536)] s1
                else s1)
      in if num_blocks > 0 then
           let fh1 = fh\<lparr>fh_first_block := next_free_block s2\<rparr>;
               (blk, num_bytes, fh2, s3) =
                  fold (write_one_block data sz) [0..<num_blocks]
                    (block0, EEPROM_FS_BLOCK_DATA_SIZE, fh1, s2);
               fh3 = fh2\<lparr>fh_filesize :=
                       (if sz > (num_blocks * EEPROM_FS_BLOCK_DATA_SIZE) mod 65536
                        then (num_blocks * EEPROM_FS_BLOCK_DATA_SIZE) mod 65536 else sz)\<rparr>
           in (fh3, fs_debug1 ''File %d successfully written.\<newline>'' [int (fh_filename fh)] s3)
         else (fh, fs_error ''No more space available for file %d.\<newline>''
                     [int (fh_filename fh)] s2))"

text \<open>\<^verbatim>\<open>write(fh, data, size)\<close> (\<open>sz0\<close> is \<^verbatim>\<open>size\<close>); \<open>to_write0\<close> and \<open>block0\<close> are the
  uninitialised contents of the locals \<^verbatim>\<open>to_write\<close> and \<^verbatim>\<open>block.data\<close>.\<close>

definition fs_write ::
  "file_handle_t \<Rightarrow> mem \<Rightarrow> nat \<Rightarrow> mem \<Rightarrow> mem \<Rightarrow> fs_state \<Rightarrow> (file_handle_t \<times> fs_state) option" where
  "fs_write fh data0 sz0 to_write0 block0 s0 =
     (if fh_type fh = FH_WRITE \<or> fh_type fh = FH_APPEND then
        (case append_merge fh data0 sz0 to_write0 s0 of
           None \<Rightarrow> None
         | Some (data, sz, s) \<Rightarrow> Some (write_blocks fh data sz block0 s))
      else Some (fh, fs_error ''Tried to write to read-only file handle '%d'\<newline>''
                       [int (fh_filename fh)] s0))"

subsection \<open>Closing and deleting\<close>

definition close_link :: "file_handle_t \<Rightarrow> fs_state \<Rightarrow> (file_handle_t \<times> fs_state) option" where
  "close_link fh0 s =
     (if fh_type fh0 = FH_APPEND then
        let fh = fh0\<lparr>fh_filesize :=
                   (fh_filesize fh0 + fa_filesize (alloc_table s (fh_filename fh0))) mod 65536\<rparr>
        in if fa_filesize (alloc_table s (fh_filename fh)) > EEPROM_FS_BLOCK_DATA_SIZE then
             (case last_block_in_chain (fa_data_block (alloc_table s (fh_filename fh))) s of
                None \<Rightarrow> None
              | Some (last_blk, s1) \<Rightarrow>
                  let s2 = fs_debug2 ''Appending block %d to block %d...\<newline>'' [fh_first_block fh, last_blk] s1;
                      s3 = relink last_blk (fh_first_block fh) s2
                  in Some (fh, fs_debug2 ''Done.\<newline>'' [] s3))
           else
             (case (if fa_filesize (alloc_table s (fh_filename fh)) > 0
                    then unlink (fa_data_block (alloc_table s (fh_filename fh))) s
                    else Some s) of
                None \<Rightarrow> None
              | Some s1 \<Rightarrow> Some (fh, link fh s1))
      else Some (fh0, link fh0 s))"

definition close :: "file_handle_t \<Rightarrow> fs_state \<Rightarrow> (file_handle_t \<times> fs_state) option" where
  "close fh0 s0 =
     (case close_link fh0 (fs_debug1 ''Finalising file %d.\<newline>'' [int (fh_filename fh0)] s0) of
        None \<Rightarrow> None
      | Some (fh, s1) \<Rightarrow>
          let s2 = fs_debug2 ''Marking end of file %d.\<newline>'' [int (fh_filename fh)] s1;
              s3 = relink (fh_last_block fh) NULL_PTR s2
          in Some (fh, fs_debug1 ''File %d successfully finalised.\<newline>'' [int (fh_filename fh)] s3))"

definition delete :: "fname_t \<Rightarrow> fs_state \<Rightarrow> fs_state option" where
  "delete filename0 s =
     (let s1 = fs_debug1 ''Deleting file %d.\<newline>'' [int filename0] s;
          (filename1, s2) = wrap_filename filename0 s1;
          filename = filename1 mod EEPROM_FS_MAX_FILES
      in (case unlink (fa_data_block (alloc_table s2 filename)) s2 of
            None \<Rightarrow> None
          | Some s3 \<Rightarrow>
              let s4 = s3\<lparr>alloc_table := (alloc_table s3)
                         (filename := \<lparr>fa_filesize = 0, fa_data_block = NULL_PTR\<rparr>)\<rparr>;
                  s5 = s4\<lparr>eeprom := eeprom_update_block (enc_file_alloc (alloc_table s4 filename))
                                       (alloc_entry_addr filename) (eeprom s4)\<rparr>
              in Some (fs_debug1 ''File %d successfully deleted.\<newline>'' [int filename] s5)))"

subsection \<open>Formatting and initialisation\<close>

definition wipe_eeprom :: "fs_state \<Rightarrow> fs_state" where
  "wipe_eeprom s =
     s\<lparr>eeprom := fold (\<lambda>k. eeprom_write_dword (4 * k)) [0..<(EEPROM_FS_SIZE + 3) div 4] (eeprom s)\<rparr>"

text \<open>One round of the block loop of \<^verbatim>\<open>format_eepromfs\<close>; \<open>data\<close> is \<^verbatim>\<open>block.data\<close>,
  written only by a full format.\<close>

definition format_block :: "format_type_t \<Rightarrow> byte list \<Rightarrow> lba_t \<Rightarrow> fs_state \<Rightarrow> fs_state" where
  "format_block f data i s =
     (let block = \<lparr>next_block = i - 1, bdata = data\<rparr> in
      if f = FORMAT_FULL then
        let s1 = fs_debug3 ''Relinking block %d -> %d...'' [i, next_block block] s;
            s2 = s1\<lparr>eeprom := eeprom_update_block (take EEPROM_FS_BLOCK_SIZE (enc_block block))
                                 (get_block_pointer i) (eeprom s1)\<rparr>
        in fs_debug3 ''Done.\<newline>'' [] s2
      else relink i (next_block block) s)"

definition this_meta :: fs_meta_t where
  "this_meta =
     \<lparr>m_block_size = EEPROM_FS_BLOCK_SIZE, m_start_address = EEPROM_FS_START,
      m_fs_size = EEPROM_FS_SIZE, m_max_files = EEPROM_FS_MAX_FILES,
      m_max_blocks_per_file = EEPROM_FS_MAX_BLOCKS_PER_FILE\<rparr>"

definition format_eepromfs :: "format_type_t \<Rightarrow> fs_state \<Rightarrow> fs_state" where
  "format_eepromfs f s0 =
     (let s1 = fs_debug1 ''Formatting filesystem.\<newline>'' [] s0;
          s2 = (if f = FORMAT_WIPE then wipe_eeprom s1 else s1);
          data = replicate EEPROM_FS_BLOCK_DATA_SIZE 0;
          s3 = fold (format_block f data) (map int [0..<EEPROM_FS_NUM_BLOCKS]) s2;
          s4 = fs_debug2 ''Writing file allocation table...'' [] s3;
          null_entry = \<lparr>fa_filesize = 0, fa_data_block = NULL_PTR\<rparr>;
          free_entry = \<lparr>fa_filesize = 0, fa_data_block = int EEPROM_FS_NUM_BLOCKS - 1\<rparr>;
          s5 = s4\<lparr>alloc_table := (\<lambda>i. if i < EEPROM_FS_MAX_FILES then null_entry
                                      else if i = EEPROM_FS_MAX_FILES then free_entry
                                      else alloc_table s4 i)\<rparr>;
          s6 = s5\<lparr>eeprom := eeprom_update_block (enc_alloc_table (alloc_table s5))
                               (EEPROM_FS_START + EEPROM_FS_ALLOC_TABLE_OFFSET) (eeprom s5)\<rparr>;
          s7 = fs_debug2 ''Done.\<newline>'' [] s6;
          s8 = fs_debug2 ''Writing metadata...'' [] s7;
          s9 = s8\<lparr>eeprom := eeprom_write_block (enc_fs_meta this_meta)
                               (EEPROM_FS_START + EEPROM_FS_META_OFFSET) (eeprom s8)\<rparr>;
          s10 = fs_debug2 ''Done.\<newline>'' [] s9
      in fs_debug1 ''Successfully formatted.\<newline>'' [] s10)"

definition init_eepromfs :: "fs_state \<Rightarrow> fs_state" where
  "init_eepromfs s0 =
     (let s1 = fs_debug1 ''Initialising filesystem.\<newline>'' [] s0;
          s2 = fs_debug2 ''Loading metadata...'' [] s1;
          stored_meta = dec_fs_meta (eeprom_read_block (eeprom s2)
                          (EEPROM_FS_START + EEPROM_FS_META_OFFSET) sizeof_fs_meta_t);
          s3 = fs_debug2 ''Done.\<newline>'' [] s2;
          s4 = (if m_block_size stored_meta \<noteq> EEPROM_FS_BLOCK_SIZE
                   \<or> m_start_address stored_meta \<noteq> EEPROM_FS_START
                   \<or> m_fs_size stored_meta \<noteq> EEPROM_FS_SIZE
                   \<or> m_max_files stored_meta \<noteq> EEPROM_FS_MAX_FILES
                   \<or> m_max_blocks_per_file stored_meta \<noteq> EEPROM_FS_MAX_BLOCKS_PER_FILE
                then format_eepromfs FORMAT_QUICK s3 else s3);
          s5 = fs_debug2 ''Loading file allocation table...'' [] s4;
          s6 = s5\<lparr>alloc_table := dec_alloc_table
                    (eeprom_read_block (eeprom s5) (EEPROM_FS_START + EEPROM_FS_ALLOC_TABLE_OFFSET)
                       sizeof_alloc_table) (alloc_table s5)\<rparr>;
          s7 = fs_debug2 ''Done.\<newline>'' [] s6;
          s8 = fs_debug3 ''Next free block: %d\<newline>'' [next_free_block s7] s7
      in fs_debug1 ''Filesystem initialised.\<newline>'' [] s8)"

subsection \<open>The call sequences of example.c\<close>

text \<open>\<^verbatim>\<open>fh = open_for_write(name); write(&fh, data, size); close(&fh);\<close>\<close>

definition write_file :: "fname_t \<Rightarrow> mem \<Rightarrow> nat \<Rightarrow> mem \<Rightarrow> mem \<Rightarrow> fs_state \<Rightarrow> fs_state option" where
  "write_file name data sz to_write0 block0 s =
     (let (fh, s1) = open_for_write name s in
      case fs_write fh data sz to_write0 block0 s1 of
        None \<Rightarrow> None
      | Some (fh2, s2) \<Rightarrow> (case close fh2 s2 of None \<Rightarrow> None | Some (fh3, s3) \<Rightarrow> Some s3))"

text \<open>\<^verbatim>\<open>fh = open_for_append(name); write(&fh, data, size); close(&fh);\<close>\<close>

definition append_file :: "fname_t \<Rightarrow> mem \<Rightarrow> nat \<Rightarrow> mem \<Rightarrow> mem \<Rightarrow> fs_state \<Rightarrow> fs_state option" where
  "append_file name data sz to_write0 block0 s =
     (let (fh, s1) = open_for_append name s in
      case fs_write fh data sz to_write0 block0 s1 of
        None \<Rightarrow> None
      | Some (fh2, s2) \<Rightarrow> (case close fh2 s2 of None \<Rightarrow> None | Some (fh3, s3) \<Rightarrow> Some s3))"

text \<open>\<^verbatim>\<open>fh = open_for_read(name); read(&fh, buf);\<close> gives the handle and the buffer.\<close>

definition read_file :: "fname_t \<Rightarrow> mem \<Rightarrow> fs_state \<Rightarrow> (file_handle_t \<times> mem \<times> fs_state) option" where
  "read_file name buf s =
     (let (fh, s1) = open_for_read name s in
      case read fh buf s1 of
        None \<Rightarrow> None
      | Some (buf1, s2) \<Rightarrow> Some (fh, buf1, s2))"

subsection \<open>Vocabulary of the properties\<close>

text \<open>The entries of level 0 on the error stream: what \<^verbatim>\<open>_fs_error\<close> printed.\<close>

definition errors_of :: "fs_state \<Rightarrow> log_entry list" where
  "errors_of s = filter (\<lambda>e. fst e = 0) (stderr_out s)"

text \<open>The machine at power-on: the globals are zero, the medium is erased (every byte
  \<open>0xFF\<close>), nothing has been printed.\<close>

definition power_on :: fs_state where
  "power_on =
     \<lparr>alloc_table = (\<lambda>_. \<lparr>fa_filesize = 0, fa_data_block = 0\<rparr>), eeprom = (\<lambda>_. 255),
      debug_level = 0, stderr_out = []\<rparr>"

definition blk_next :: "mem \<Rightarrow> lba_t \<Rightarrow> lba_t" where
  "blk_next e b = next_block (read_block e b)"

definition blk_data :: "mem \<Rightarrow> lba_t \<Rightarrow> byte list" where
  "blk_data e b = bdata (read_block e b)"

definition stored_alloc :: "mem \<Rightarrow> nat \<Rightarrow> file_alloc_t" where
  "stored_alloc e i = dec_file_alloc (eeprom_read_block e (alloc_entry_addr i) sizeof_file_alloc_t)"

definition stored_meta :: "mem \<Rightarrow> fs_meta_t" where
  "stored_meta e = dec_fs_meta (eeprom_read_block e (EEPROM_FS_START + EEPROM_FS_META_OFFSET) sizeof_fs_meta_t)"

definition formatted_table :: "(nat \<Rightarrow> file_alloc_t) \<Rightarrow> (nat \<Rightarrow> file_alloc_t)" where
  "formatted_table old =
     (\<lambda>i. if i < EEPROM_FS_MAX_FILES then \<lparr>fa_filesize = 0, fa_data_block = NULL_PTR\<rparr>
          else if i = EEPROM_FS_MAX_FILES
               then \<lparr>fa_filesize = 0, fa_data_block = int EEPROM_FS_NUM_BLOCKS - 1\<rparr>
               else old i)"

text \<open>Following the links from \<open>b\<close> visits exactly the blocks \<open>xs\<close>, all of the pool, and
  ends at the link \<open>c\<close>; a chain is a path that ends at the null sentinel.\<close>

fun is_path :: "mem \<Rightarrow> lba_t \<Rightarrow> lba_t list \<Rightarrow> lba_t \<Rightarrow> bool" where
  "is_path e b [] c = (b = c)"
| "is_path e b (x # xs) c = (b = x \<and> in_pool x \<and> is_path e (blk_next e x) xs c)"

definition is_chain :: "mem \<Rightarrow> lba_t \<Rightarrow> lba_t list \<Rightarrow> bool" where
  "is_chain e b xs = is_path e b xs NULL_PTR"

text \<open>\<open>s'\<close> is \<open>s\<close> after debug output only.\<close>

definition printed_only :: "fs_state \<Rightarrow> fs_state \<Rightarrow> bool" where
  "printed_only s s' =
     (alloc_table s' = alloc_table s \<and> eeprom s' = eeprom s \<and> debug_level s' = debug_level s
      \<and> errors_of s' = errors_of s)"

text \<open>The file system right after a quick format of the erased medium.\<close>

definition fresh :: fs_state where
  "fresh = format_eepromfs FORMAT_QUICK power_on"

text \<open>What \<^verbatim>\<open>read\<close> leaves in the buffer after the blocks \<open>xs\<close>, the first of them being
  round \<open>i\<close> of its loop with \<open>nb\<close> the value of \<^verbatim>\<open>num_bytes\<close> on entry, for a handle of
  size \<open>fsz\<close>.\<close>

fun copied :: "mem \<Rightarrow> nat \<Rightarrow> lba_t list \<Rightarrow> nat \<Rightarrow> nat \<Rightarrow> mem \<Rightarrow> mem" where
  "copied e fsz [] i nb buf = buf"
| "copied e fsz (x # xs) i nb buf =
     (let nb1 = (if (i + 1) * 30 > fsz then fsz mod 30 else nb)
      in copied e fsz xs (i + 1) nb1
           (\<lambda>k. if i * 30 \<le> k \<and> k < i * 30 + nb1 then blk_data e x ! (k - i * 30) else buf k))"

text \<open>Two states that differ at most in the debug level and in the debug messages printed:
  the allocation table in RAM, the medium and the errors printed are the same.\<close>

definition same_core :: "fs_state \<Rightarrow> fs_state \<Rightarrow> bool" where
  "same_core s t = (alloc_table s = alloc_table t \<and> eeprom s = eeprom t \<and> errors_of s = errors_of t)"

text \<open>The number of blocks of a file of \<open>fsz\<close> bytes that \<^verbatim>\<open>write\<close> put under a name that
  held no file: \<^verbatim>\<open>size / BLOCK_DATA_SIZE + 1\<close>, and \<^verbatim>\<open>MAX_BLOCKS_PER_FILE\<close> after a
  truncated write.\<close>

definition chain_blocks :: "nat \<Rightarrow> nat" where
  "chain_blocks fsz = min (fsz div EEPROM_FS_BLOCK_DATA_SIZE + 1) EEPROM_FS_MAX_BLOCKS_PER_FILE"

text \<open>The states between two calls of the interface that are reached from a formatted
  file system by: setting the debug level, opening handles, reading, writing a whole file
  (\<^verbatim>\<open>open_for_write\<close>, \<^verbatim>\<open>write\<close>, \<^verbatim>\<open>close\<close>) of less than
  \<^verbatim>\<open>MAX_BLOCKS_PER_FILE * BLOCK_DATA_SIZE\<close> or of at least
  \<^verbatim>\<open>(MAX_BLOCKS_PER_FILE + 1) * BLOCK_DATA_SIZE\<close> bytes under a name that holds no file
  while the free chain holds the blocks it takes, and deleting a name that holds no file
  or deleting a file while the free chain is not empty.\<close>

inductive quiescent :: "fs_state \<Rightarrow> bool" where
  formatted: "quiescent (format_eepromfs fm s)"
| level: "quiescent s \<Longrightarrow> quiescent (set_debug l s)"
| opened_read: "quiescent s \<Longrightarrow> quiescent (snd (open_for_read name s))"
| opened_write: "quiescent s \<Longrightarrow> quiescent (snd (open_for_write name s))"
| opened_append: "quiescent s \<Longrightarrow> quiescent (snd (open_for_append name s))"
| was_read: "quiescent s \<Longrightarrow> read fh buf s = Some (buf', s') \<Longrightarrow> quiescent s'"
| written: "quiescent s \<Longrightarrow> name < EEPROM_FS_MAX_FILES \<Longrightarrow>
     fa_data_block (alloc_table s name) = NULL_PTR \<Longrightarrow>
     sz < EEPROM_FS_MAX_BLOCKS_PER_FILE * EEPROM_FS_BLOCK_DATA_SIZE
       \<or> (EEPROM_FS_MAX_BLOCKS_PER_FILE + 1) * EEPROM_FS_BLOCK_DATA_SIZE \<le> sz \<and> sz < 65536 \<Longrightarrow>
     is_chain (eeprom s) (next_free_block s) free \<Longrightarrow> chain_blocks sz \<le> length free \<Longrightarrow>
     write_file name data sz tw blk s = Some s' \<Longrightarrow> quiescent s'"
| deleted: "quiescent s \<Longrightarrow> f < EEPROM_FS_MAX_FILES \<Longrightarrow>
     fa_data_block (alloc_table s f) = NULL_PTR \<or> next_free_block s \<noteq> NULL_PTR \<Longrightarrow>
     delete f s = Some s' \<Longrightarrow> quiescent s'"

text \<open>The file \<open>f\<close> has the chain \<open>ch f\<close>, of the length that goes with its size, apart from
  the free chain and from the chains of the other files.\<close>

definition file_ok :: "fs_state \<Rightarrow> (nat \<Rightarrow> lba_t list) \<Rightarrow> lba_t list \<Rightarrow> nat \<Rightarrow> bool" where
  "file_ok s ch free f =
     (is_chain (eeprom s) (fa_data_block (alloc_table s f)) (ch f)
      \<and> fa_filesize (alloc_table s f) \<le> EEPROM_FS_MAX_BLOCKS_PER_FILE * EEPROM_FS_BLOCK_DATA_SIZE
      \<and> (fa_data_block (alloc_table s f) = NULL_PTR \<longrightarrow> fa_filesize (alloc_table s f) = 0)
      \<and> (fa_data_block (alloc_table s f) \<noteq> NULL_PTR \<longrightarrow>
           length (ch f) = chain_blocks (fa_filesize (alloc_table s f)))
      \<and> set (ch f) \<inter> set free = {}
      \<and> (\<forall>g<EEPROM_FS_MAX_FILES. g \<noteq> f \<longrightarrow> set (ch f) \<inter> set (ch g) = {}))"

definition well_formed :: "fs_state \<Rightarrow> bool" where
  "well_formed s =
     (\<exists>free ch. is_chain (eeprom s) (next_free_block s) free
        \<and> (\<forall>f<EEPROM_FS_MAX_FILES. file_ok s ch free f))"

section \<open>Basic facts\<close>

subsection \<open>Configuration values and byte encodings\<close>

lemmas cfg_defs = EEPROM_FS_START_def EEPROM_FS_SIZE_def EEPROM_FS_BLOCK_SIZE_def
  EEPROM_FS_MAX_BLOCKS_PER_FILE_def EEPROM_FS_MAX_FILES_def sizeof_lba_t_def
  sizeof_file_alloc_t_def sizeof_fs_meta_t_def sizeof_alloc_table_def EEPROM_FS_META_OFFSET_def
  EEPROM_FS_ALLOC_TABLE_OFFSET_def EEPROM_FS_DATA_OFFSET_def EEPROM_FS_NUM_BLOCKS_def
  EEPROM_FS_BLOCK_DATA_SIZE_def NULL_PTR_def

lemma num_blocks_59: "EEPROM_FS_NUM_BLOCKS = 59"
  by (simp add: cfg_defs)

lemma block_data_size_30: "EEPROM_FS_BLOCK_DATA_SIZE = 30"
  by (simp add: cfg_defs)

lemma in_pool_NULL_PTR [simp]: "\<not> in_pool NULL_PTR"
  by (simp add: in_pool_def NULL_PTR_def)

lemma in_pool_not_NULL: "in_pool b \<Longrightarrow> b \<noteq> NULL_PTR"
  by (auto simp: in_pool_def NULL_PTR_def)

lemma get_block_pointer_in_pool:
  assumes "in_pool b"
  shows "get_block_pointer b = 130 + 32 * nat b"
proof -
  from assms have b: "0 \<le> b" "b < 59" by (simp_all add: in_pool_def cfg_defs)
  then have w: "wrap_int16 (b * 32) = b * 32" by (simp add: wrap_int16_def)
  have c: "c_rem (b * 32) 2048 = b * 32"
    using b by (cases "b = 0") (simp_all add: c_rem_def)
  show ?thesis using b
    by (simp add: get_block_pointer_def cfg_defs w c nat_add_distrib nat_mult_distrib)
qed

lemma get_block_pointer_NULL_PTR: "get_block_pointer NULL_PTR = 98"
  by (simp add: get_block_pointer_def cfg_defs wrap_int16_def c_rem_def)

lemma unat_byte_of_int: "unat (word_of_int x :: byte) = nat (x mod 256)"
  by (simp add: unat_eq_nat_uint uint_word_of_int take_bit_eq_mod)

lemma u16_of_le16: "u16_of (le16 x) = nat (x mod 65536)"
proof -
  have "x mod (256 * 256) = 256 * (x div 256 mod 256) + x mod 256"
    by (rule zmod_zmult2_eq) simp
  then have "x mod 65536 = x mod 256 + 256 * ((x div 256) mod 256)"
    by simp
  moreover have "0 \<le> x mod 256" "0 \<le> (x div 256) mod 256" by simp_all
  ultimately show ?thesis
    by (simp add: u16_of_def le16_def unat_byte_of_int nat_add_distrib nat_mult_distrib)
qed

lemma s16_of_le16:
  assumes a: "- 32768 \<le> x" "x < 32768"
  shows "s16_of (le16 x) = x"
proof (cases "0 \<le> x")
  case True
  then have "x mod 65536 = x" using a by simp
  then show ?thesis using True a by (simp add: s16_of_def u16_of_le16)
next
  case False
  have "(x + 65536) mod 65536 = x + 65536"
    using a False by (intro mod_pos_pos_trivial) auto
  then have "x mod 65536 = x + 65536" by simp
  then show ?thesis using False a by (simp add: s16_of_def u16_of_le16)
qed

lemma u16_of_le16_small: "n < 65536 \<Longrightarrow> u16_of (le16 (int n)) = n"
  by (simp add: u16_of_le16)

lemma length_le16 [simp]: "length (le16 x) = 2"
  by (simp add: le16_def)

subsection \<open>Printing changes nothing but the error stream\<close>

lemma vfprintf_frame [simp]:
  "alloc_table (vfprintf_stderr l f a s) = alloc_table s"
  "eeprom (vfprintf_stderr l f a s) = eeprom s"
  "debug_level (vfprintf_stderr l f a s) = debug_level s"
  by (simp_all add: vfprintf_stderr_def)

lemma fs_error_frame [simp]:
  "alloc_table (fs_error f a s) = alloc_table s"
  "eeprom (fs_error f a s) = eeprom s"
  "debug_level (fs_error f a s) = debug_level s"
  by (simp_all add: fs_error_def)

lemma fs_debug_frame [simp]:
  "alloc_table (fs_debug1 f a s) = alloc_table s"
  "eeprom (fs_debug1 f a s) = eeprom s"
  "debug_level (fs_debug1 f a s) = debug_level s"
  "alloc_table (fs_debug2 f a s) = alloc_table s"
  "eeprom (fs_debug2 f a s) = eeprom s"
  "debug_level (fs_debug2 f a s) = debug_level s"
  "alloc_table (fs_debug3 f a s) = alloc_table s"
  "eeprom (fs_debug3 f a s) = eeprom s"
  "debug_level (fs_debug3 f a s) = debug_level s"
  "alloc_table (fs_debug4 f a s) = alloc_table s"
  "eeprom (fs_debug4 f a s) = eeprom s"
  "debug_level (fs_debug4 f a s) = debug_level s"
  by (simp_all add: fs_debug1_def fs_debug2_def fs_debug3_def fs_debug4_def)

lemma errors_of_print [simp]:
  "errors_of (fs_error f a s) = errors_of s @ [(0, f, a)]"
  "errors_of (fs_debug1 f a s) = errors_of s"
  "errors_of (fs_debug2 f a s) = errors_of s"
  "errors_of (fs_debug3 f a s) = errors_of s"
  "errors_of (fs_debug4 f a s) = errors_of s"
  by (simp_all add: errors_of_def fs_error_def vfprintf_stderr_def
        fs_debug1_def fs_debug2_def fs_debug3_def fs_debug4_def)

lemma errors_of_update [simp]:
  "errors_of (s\<lparr>eeprom := e\<rparr>) = errors_of s"
  "errors_of (s\<lparr>alloc_table := t\<rparr>) = errors_of s"
  by (simp_all add: errors_of_def)

lemma next_free_block_print [simp]:
  "next_free_block (fs_error f a s) = next_free_block s"
  "next_free_block (fs_debug1 f a s) = next_free_block s"
  "next_free_block (fs_debug2 f a s) = next_free_block s"
  "next_free_block (fs_debug3 f a s) = next_free_block s"
  "next_free_block (fs_debug4 f a s) = next_free_block s"
  "next_free_block (s\<lparr>eeprom := e\<rparr>) = next_free_block s"
  by (simp_all add: next_free_block_def)

lemma power_on_fields [simp]:
  "errors_of power_on = []"
  "stderr_out power_on = []"
  "debug_level power_on = 0"
  by (simp_all add: errors_of_def power_on_def)

lemma debug_level_0_silent:
  assumes "debug_level s = 0"
  shows "fs_debug1 f a s = s" "fs_debug2 f a s = s" "fs_debug3 f a s = s" "fs_debug4 f a s = s"
  using assms by (simp_all add: fs_debug1_def fs_debug2_def fs_debug3_def fs_debug4_def)

section \<open>Names\<close>

lemma wrap_filename_MAX_FILES [simp]:
  "wrap_filename EEPROM_FS_MAX_FILES s = (EEPROM_FS_MAX_FILES, s)"
  by (simp add: wrap_filename_def)

text \<open>
  C5 (name folding). The claim does not hold at the name \<open>EEPROM_FS_MAX_FILES\<close>: the
  open functions reduce a name only when it is larger than \<open>EEPROM_FS_MAX_FILES\<close>, so
  the handle keeps the name 29 where the claim says 0, and \<open>open_for_read\<close> reads the entry
  at index 29, the head of the free chain.
\<close>

theorem open_keeps_name_MAX_FILES:
  "fh_filename (fst (open_for_write EEPROM_FS_MAX_FILES s)) = EEPROM_FS_MAX_FILES
   \<and> fh_filename (fst (open_for_write (EEPROM_FS_MAX_FILES mod EEPROM_FS_MAX_FILES) s)) = 0
   \<and> fh_filename (fst (open_for_append EEPROM_FS_MAX_FILES s)) = EEPROM_FS_MAX_FILES
   \<and> fh_filename (fst (open_for_read EEPROM_FS_MAX_FILES s)) = EEPROM_FS_MAX_FILES
   \<and> fh_first_block (fst (open_for_read EEPROM_FS_MAX_FILES s)) = next_free_block s
   \<and> fst (open_for_write EEPROM_FS_MAX_FILES s)
       \<noteq> fst (open_for_write (EEPROM_FS_MAX_FILES mod EEPROM_FS_MAX_FILES) s)"
  apply (simp add: open_for_write_def open_for_append_def open_for_read_def Let_def next_free_block_def)
  apply (simp add: wrap_filename_def EEPROM_FS_MAX_FILES_def)
  done

section \<open>Closing a handle that holds no block\<close>

lemma link_invalid:
  "\<not> in_pool (fh_first_block fh) \<Longrightarrow>
   link fh s = fs_error ''Cannot link file %d to invalid block %d.\<newline>''
                 [int (fh_filename fh), fh_first_block fh] s"
  by (simp add: link_def)

lemma relink_invalid:
  "\<not> in_pool b \<Longrightarrow> relink b t s = fs_error ''Attempted to write to invalid block %d.\<newline>'' [b] s"
  by (simp add: relink_def)

lemma open_for_write_handle:
  "fst (open_for_write n s) =
     \<lparr>fh_filename = (if n > EEPROM_FS_MAX_FILES then n mod EEPROM_FS_MAX_FILES else n),
      fh_filesize = 0, fh_type = FH_WRITE, fh_first_block = NULL_PTR, fh_last_block = NULL_PTR\<rparr>"
  by (simp add: open_for_write_def wrap_filename_def Let_def)

lemma open_for_write_frame [simp]:
  "alloc_table (snd (open_for_write n s)) = alloc_table s"
  "eeprom (snd (open_for_write n s)) = eeprom s"
  "debug_level (snd (open_for_write n s)) = debug_level s"
  "errors_of (snd (open_for_write n s)) = errors_of s"
  by (simp_all add: open_for_write_def wrap_filename_def Let_def)

text \<open>
  C10 (close on an empty handle). A handle of type \<open>FH_WRITE\<close> whose first and last block
  are still the null sentinel: \<open>close\<close> returns, the allocation table in RAM and every byte
  of the medium (the stored table and the links of all blocks) are as before, and the
  only errors printed are the rejection by \<open>link\<close> and the rejection by \<open>relink\<close>.
\<close>

theorem close_empty_handle_atomic:
  assumes "fh_type fh = FH_WRITE" "fh_first_block fh = NULL_PTR" "fh_last_block fh = NULL_PTR"
  shows "\<exists>s'. close fh s = Some (fh, s')
           \<and> alloc_table s' = alloc_table s
           \<and> eeprom s' = eeprom s
           \<and> errors_of s' = errors_of s @
                [(0, ''Cannot link file %d to invalid block %d.\<newline>'', [int (fh_filename fh), NULL_PTR]),
                 (0, ''Attempted to write to invalid block %d.\<newline>'', [NULL_PTR])]"
  using assms by (simp add: close_def close_link_def link_invalid relink_invalid)

theorem close_empty_handle_atomic_witness:
  "\<exists>s'. close (fst (open_for_write 6 power_on)) (snd (open_for_write 6 power_on))
           = Some (fst (open_for_write 6 power_on), s')
         \<and> alloc_table s' = alloc_table power_on
         \<and> eeprom s' = eeprom power_on
         \<and> errors_of s' =
              [(0, ''Cannot link file %d to invalid block %d.\<newline>'', [6, NULL_PTR]),
               (0, ''Attempted to write to invalid block %d.\<newline>'', [NULL_PTR])]"
  using close_empty_handle_atomic
          [of "fst (open_for_write 6 power_on)" "snd (open_for_write 6 power_on)"]
  by (simp add: open_for_write_handle EEPROM_FS_MAX_FILES_def)

section \<open>The medium: block links, block data and stored entries\<close>

lemma eeprom_update_block_eq_write: "eeprom_update_block bs dst e = eeprom_write_block bs dst e"
  by (rule ext) (simp add: eeprom_update_block_def eeprom_write_block_def)

lemma length_eeprom_read_block [simp]: "length (eeprom_read_block e src n) = n"
  by (simp add: eeprom_read_block_def)

lemma nth_eeprom_read_block [simp]: "k < n \<Longrightarrow> eeprom_read_block e src n ! k = e (src + k)"
  by (simp add: eeprom_read_block_def)

lemma eeprom_read_block_cong:
  "(\<And>k. k < n \<Longrightarrow> e (src + k) = e' (src + k)) \<Longrightarrow> eeprom_read_block e src n = eeprom_read_block e' src n"
  by (simp add: eeprom_read_block_def)

lemma write_outside:
  "a < dst \<or> dst + length bs \<le> a \<Longrightarrow> eeprom_write_block bs dst e a = e a"
  by (auto simp: eeprom_write_block_def)

lemma write_inside:
  "dst \<le> a \<Longrightarrow> a < dst + length bs \<Longrightarrow> eeprom_write_block bs dst e a = bs ! (a - dst)"
  by (simp add: eeprom_write_block_def)

lemma read_write_disjoint:
  "src + n \<le> dst \<or> dst + length bs \<le> src \<Longrightarrow>
   eeprom_read_block (eeprom_write_block bs dst e) src n = eeprom_read_block e src n"
  by (rule eeprom_read_block_cong) (auto simp: eeprom_write_block_def)

lemma read_write_sub:
  "dst \<le> src \<Longrightarrow> src + n \<le> dst + length bs \<Longrightarrow>
   eeprom_read_block (eeprom_write_block bs dst e) src n = take n (drop (src - dst) bs)"
  by (rule nth_equalityI) (auto simp: eeprom_write_block_def)

lemma read_write_same:
  "eeprom_read_block (eeprom_write_block bs dst e) dst (length bs) = bs"
  by (simp add: read_write_sub)

lemma take_eeprom_read_block: "m \<le> n \<Longrightarrow> take m (eeprom_read_block e src n) = eeprom_read_block e src m"
  by (rule nth_equalityI) auto

lemma drop_eeprom_read_block: "m \<le> n \<Longrightarrow> drop m (eeprom_read_block e src n) = eeprom_read_block e (src + m) (n - m)"
  by (rule nth_equalityI) (auto simp: add.assoc)

lemma blk_next_read: "blk_next e b = s16_of (eeprom_read_block e (get_block_pointer b) 2)"
  by (simp add: blk_next_def read_block_def dec_block_def take_eeprom_read_block cfg_defs)

lemma blk_data_read: "blk_data e b = eeprom_read_block e (get_block_pointer b + 2) 30"
  by (simp add: blk_data_def read_block_def dec_block_def drop_eeprom_read_block cfg_defs)

lemma stored_alloc_read:
  "stored_alloc e i = \<lparr>fa_filesize = u16_of (eeprom_read_block e (alloc_entry_addr i) 2),
                        fa_data_block = s16_of (eeprom_read_block e (alloc_entry_addr i + 2) 2)\<rparr>"
  by (simp add: stored_alloc_def dec_file_alloc_def take_eeprom_read_block drop_eeprom_read_block cfg_defs)

lemma alloc_entry_addr_val: "i \<le> EEPROM_FS_MAX_FILES \<Longrightarrow> alloc_entry_addr i = 10 + 4 * i"
  by (simp add: alloc_entry_addr_def cfg_defs)

lemma blk_next_write_same:
  "- 32768 \<le> t \<Longrightarrow> t < 32768 \<Longrightarrow>
   blk_next (eeprom_write_block (le16 t) (get_block_pointer b) e) b = t"
  using read_write_same [of "le16 t" "get_block_pointer b" e]
  by (simp add: blk_next_read s16_of_le16)

lemma blk_next_write_other:
  "get_block_pointer b + 2 \<le> dst \<or> dst + length bs \<le> get_block_pointer b \<Longrightarrow>
   blk_next (eeprom_write_block bs dst e) b = blk_next e b"
  by (simp add: blk_next_read read_write_disjoint)

lemma blk_data_write_other:
  assumes "get_block_pointer b + 32 \<le> dst \<or> dst + length bs \<le> get_block_pointer b + 2"
  shows "blk_data (eeprom_write_block bs dst e) b = blk_data e b"
proof -
  have "get_block_pointer b + 2 + 30 \<le> dst \<or> dst + length bs \<le> get_block_pointer b + 2"
    using assms by linarith
  then show ?thesis
    unfolding blk_data_read by (rule read_write_disjoint)
qed

lemma blk_data_write_same:
  "length d = 30 \<Longrightarrow> blk_data (eeprom_write_block d (get_block_pointer b + 2) e) b = d"
  using read_write_same [of d "get_block_pointer b + 2" e]
  by (simp add: blk_data_read)

lemma stored_alloc_write_other:
  "alloc_entry_addr i + 4 \<le> dst \<or> dst + length bs \<le> alloc_entry_addr i \<Longrightarrow>
   stored_alloc (eeprom_write_block bs dst e) i = stored_alloc e i"
  by (simp add: stored_alloc_def read_write_disjoint cfg_defs)

lemma length_enc_file_alloc [simp]: "length (enc_file_alloc fa) = 4"
  by (simp add: enc_file_alloc_def)

lemma dec_enc_file_alloc:
  "fa_filesize fa < 65536 \<Longrightarrow> - 32768 \<le> fa_data_block fa \<Longrightarrow> fa_data_block fa < 32768 \<Longrightarrow>
   dec_file_alloc (enc_file_alloc fa) = fa"
  by (simp add: dec_file_alloc_def enc_file_alloc_def u16_of_le16_small s16_of_le16)

lemma stored_alloc_write_same:
  "fa_filesize fa < 65536 \<Longrightarrow> - 32768 \<le> fa_data_block fa \<Longrightarrow> fa_data_block fa < 32768 \<Longrightarrow>
   stored_alloc (eeprom_write_block (enc_file_alloc fa) (alloc_entry_addr i) e) i = fa"
  using read_write_same [of "enc_file_alloc fa" "alloc_entry_addr i" e]
  by (simp add: stored_alloc_def dec_enc_file_alloc cfg_defs)

lemma relink_frame [simp]:
  "alloc_table (relink b t s) = alloc_table s"
  "debug_level (relink b t s) = debug_level s"
  "next_free_block (relink b t s) = next_free_block s"
  by (simp_all add: relink_def Let_def next_free_block_def)

lemma relink_eeprom:
  "in_pool b \<Longrightarrow> NULL_PTR \<le> t \<Longrightarrow> t < int EEPROM_FS_NUM_BLOCKS \<Longrightarrow>
   eeprom (relink b t s) = eeprom_write_block (le16 t) (get_block_pointer b) (eeprom s)"
  by (simp add: relink_def Let_def)

lemma relink_errors:
  "in_pool b \<Longrightarrow> NULL_PTR \<le> t \<Longrightarrow> t < int EEPROM_FS_NUM_BLOCKS \<Longrightarrow>
   errors_of (relink b t s) = errors_of s"
  by (simp add: relink_def Let_def)

lemma in_poolD: "in_pool b \<Longrightarrow> 0 \<le> b \<and> b < 59"
  by (simp add: in_pool_def cfg_defs)

lemma in_pool_int [simp]: "in_pool (int n) = (n < 59)"
  by (simp add: in_pool_def cfg_defs)

lemma blk_next_relink_same:
  "in_pool b \<Longrightarrow> NULL_PTR \<le> t \<Longrightarrow> t < int EEPROM_FS_NUM_BLOCKS \<Longrightarrow>
   blk_next (eeprom (relink b t s)) b = t"
  by (simp add: relink_eeprom blk_next_write_same cfg_defs)

lemma block_pointers_apart:
  assumes "in_pool b" "in_pool c" "b \<noteq> c"
  shows "get_block_pointer b + 32 \<le> get_block_pointer c \<or> get_block_pointer c + 32 \<le> get_block_pointer b"
proof -
  from assms have "0 \<le> b" "0 \<le> c" by (simp_all add: in_pool_def)
  with assms(3) have "nat b < nat c \<or> nat c < nat b" by linarith
  then show ?thesis
    using assms by (auto simp: get_block_pointer_in_pool)
qed

lemma blk_next_relink_other:
  assumes "in_pool b" "in_pool c" "b \<noteq> c"
  shows "blk_next (eeprom (relink c t s)) b = blk_next (eeprom s) b"
proof (cases "NULL_PTR \<le> t \<and> t < int EEPROM_FS_NUM_BLOCKS")
  case True
  have "get_block_pointer b + 2 \<le> get_block_pointer c \<or> get_block_pointer c + length (le16 t) \<le> get_block_pointer b"
    using block_pointers_apart [OF assms] by auto
  then show ?thesis
    using True assms by (simp add: relink_eeprom blk_next_write_other)
next
  case False
  then show ?thesis by (auto simp: relink_def)
qed

lemma blk_data_relink:
  assumes "in_pool b"
  shows "blk_data (eeprom (relink c t s)) b = blk_data (eeprom s) b"
proof (cases "in_pool c \<and> NULL_PTR \<le> t \<and> t < int EEPROM_FS_NUM_BLOCKS")
  case True
  have "get_block_pointer b + 32 \<le> get_block_pointer c \<or> get_block_pointer c + length (le16 t) \<le> get_block_pointer b + 2"
  proof (cases "b = c")
    case True then show ?thesis by simp
  next
    case False
    then show ?thesis using block_pointers_apart [OF assms, of c] True by auto
  qed
  then show ?thesis
    using True by (simp add: relink_eeprom blk_data_write_other)
next
  case False
  then show ?thesis by (auto simp: relink_def)
qed

lemma blk_next_write_block:
  assumes "- 32768 \<le> t" "t < 32768"
  shows "blk_next (eeprom_write_block (le16 t @ d) (get_block_pointer b) e) b = t"
proof -
  have "eeprom_read_block (eeprom_write_block (le16 t @ d) (get_block_pointer b) e) (get_block_pointer b) 2
        = take 2 (drop (get_block_pointer b - get_block_pointer b) (le16 t @ d))"
    by (rule read_write_sub) simp_all
  then show ?thesis using assms by (simp add: blk_next_read s16_of_le16)
qed

lemma blk_data_write_block:
  assumes "length d = 30"
  shows "blk_data (eeprom_write_block (le16 t @ d) (get_block_pointer b) e) b = d"
proof -
  have "eeprom_read_block (eeprom_write_block (le16 t @ d) (get_block_pointer b) e) (get_block_pointer b + 2) 30
        = take 30 (drop (get_block_pointer b + 2 - get_block_pointer b) (le16 t @ d))"
    by (rule read_write_sub) (simp_all add: assms)
  then show ?thesis using assms by (simp add: blk_data_read)
qed

section \<open>Formatting\<close>

lemma format_block_not_full:
  "f \<noteq> FORMAT_FULL \<Longrightarrow> format_block f d i s = relink i (i - 1) s"
  by (simp add: format_block_def)

lemma format_block_frame [simp]:
  "alloc_table (format_block f d i s) = alloc_table s"
  "debug_level (format_block f d i s) = debug_level s"
  by (simp_all add: format_block_def Let_def)

lemma format_block_full_eeprom:
  "length d = 30 \<Longrightarrow>
   eeprom (format_block FORMAT_FULL d i s)
     = eeprom_write_block (le16 (i - 1) @ d) (get_block_pointer i) (eeprom s)"
  by (simp add: format_block_def Let_def enc_block_def eeprom_update_block_eq_write cfg_defs)

lemma format_block_errors:
  "in_pool i \<Longrightarrow> errors_of (format_block f d i s) = errors_of s"
  by (cases "f = FORMAT_FULL")
     (simp_all add: format_block_def Let_def relink_errors in_pool_def cfg_defs)

lemma format_block_next_same:
  assumes "in_pool i" "length d = 30"
  shows "blk_next (eeprom (format_block f d i s)) i = i - 1"
proof (cases "f = FORMAT_FULL")
  case True
  then show ?thesis using assms
    by (simp add: format_block_full_eeprom blk_next_write_block in_pool_def cfg_defs)
next
  case False
  then show ?thesis using assms
    by (simp add: format_block_not_full blk_next_relink_same in_pool_def cfg_defs)
qed

lemma format_block_next_other:
  assumes "in_pool i" "in_pool b" "b \<noteq> i" "length d = 30"
  shows "blk_next (eeprom (format_block f d i s)) b = blk_next (eeprom s) b"
proof (cases "f = FORMAT_FULL")
  case True
  have "get_block_pointer b + 2 \<le> get_block_pointer i
        \<or> get_block_pointer i + length (le16 (i - 1) @ d) \<le> get_block_pointer b"
    using block_pointers_apart [OF assms(2,1,3)] assms(4) by auto
  then show ?thesis using True assms
    by (simp add: format_block_full_eeprom blk_next_write_other)
next
  case False
  then show ?thesis using assms
    by (simp add: format_block_not_full blk_next_relink_other)
qed

lemma format_block_data_full:
  "length d = 30 \<Longrightarrow> blk_data (eeprom (format_block FORMAT_FULL d i s)) i = d"
  by (simp add: format_block_full_eeprom blk_data_write_block)

lemma format_block_data_other:
  assumes "in_pool i" "in_pool b" "b \<noteq> i \<or> f \<noteq> FORMAT_FULL" "length d = 30"
  shows "blk_data (eeprom (format_block f d i s)) b = blk_data (eeprom s) b"
proof (cases "f = FORMAT_FULL")
  case True
  with assms have "b \<noteq> i" by simp
  have "get_block_pointer b + 32 \<le> get_block_pointer i
        \<or> get_block_pointer i + length (le16 (i - 1) @ d) \<le> get_block_pointer b + 2"
    using block_pointers_apart [OF assms(2,1) \<open>b \<noteq> i\<close>] assms(4) by auto
  then show ?thesis using True assms
    by (simp add: format_block_full_eeprom blk_data_write_other)
next
  case False
  then show ?thesis using assms
    by (simp add: format_block_not_full blk_data_relink)
qed

lemma format_block_outside:
  assumes "in_pool i" "length d = 30" "a < get_block_pointer i \<or> get_block_pointer i + 32 \<le> a"
  shows "eeprom (format_block f d i s) a = eeprom s a"
proof (cases "f = FORMAT_FULL")
  case True
  then show ?thesis using assms
    by (auto simp: format_block_full_eeprom write_outside)
next
  case False
  have "NULL_PTR \<le> i - 1" "i - 1 < int EEPROM_FS_NUM_BLOCKS"
    using assms(1) by (simp_all add: in_pool_def cfg_defs)
  then show ?thesis using False assms
    by (auto simp: format_block_not_full relink_eeprom write_outside)
qed

lemma format_fold:
  assumes "n \<le> 59" "length d = 30"
  shows "alloc_table (fold (format_block f d) (map int [0..<n]) s) = alloc_table s
       \<and> debug_level (fold (format_block f d) (map int [0..<n]) s) = debug_level s
       \<and> errors_of (fold (format_block f d) (map int [0..<n]) s) = errors_of s
       \<and> (\<forall>i<n. blk_next (eeprom (fold (format_block f d) (map int [0..<n]) s)) (int i) = int i - 1)
       \<and> (f = FORMAT_FULL \<longrightarrow>
            (\<forall>i<n. blk_data (eeprom (fold (format_block f d) (map int [0..<n]) s)) (int i) = d))
       \<and> (f \<noteq> FORMAT_FULL \<longrightarrow>
            (\<forall>i<59. blk_data (eeprom (fold (format_block f d) (map int [0..<n]) s)) (int i)
                       = blk_data (eeprom s) (int i)))
       \<and> (\<forall>a. a < 130 \<or> 130 + 32 * n \<le> a \<longrightarrow>
              eeprom (fold (format_block f d) (map int [0..<n]) s) a = eeprom s a)"
  using assms(1)
proof (induction n)
  case 0
  then show ?case by simp
next
  case (Suc n)
  let ?s1 = "fold (format_block f d) (map int [0..<n]) s"
  have step: "fold (format_block f d) (map int [0..<Suc n]) s = format_block f d (int n) ?s1"
    by simp
  from Suc have n: "n < 59" and IH: "alloc_table ?s1 = alloc_table s" "debug_level ?s1 = debug_level s"
      "errors_of ?s1 = errors_of s"
      "\<forall>i<n. blk_next (eeprom ?s1) (int i) = int i - 1"
      "f = FORMAT_FULL \<longrightarrow> (\<forall>i<n. blk_data (eeprom ?s1) (int i) = d)"
      "f \<noteq> FORMAT_FULL \<longrightarrow> (\<forall>i<59. blk_data (eeprom ?s1) (int i) = blk_data (eeprom s) (int i))"
      "\<forall>a. a < 130 \<or> 130 + 32 * n \<le> a \<longrightarrow> eeprom ?s1 a = eeprom s a"
    by simp_all
  have pool: "in_pool (int n)" using n by simp
  have ptr: "get_block_pointer (int n) = 130 + 32 * n"
    using pool by (simp add: get_block_pointer_in_pool)
  have c4: "\<forall>i<Suc n. blk_next (eeprom (format_block f d (int n) ?s1)) (int i) = int i - 1"
  proof (intro allI impI)
    fix i assume "i < Suc n"
    show "blk_next (eeprom (format_block f d (int n) ?s1)) (int i) = int i - 1"
    proof (cases "i = n")
      case True
      then show ?thesis using format_block_next_same [OF pool assms(2)] by simp
    next
      case False
      with \<open>i < Suc n\<close> have "i < n" by simp
      then have "in_pool (int i)" "int i \<noteq> int n" using n by simp_all
      then show ?thesis using format_block_next_other [OF pool _ _ assms(2)] IH(4) \<open>i < n\<close> by simp
    qed
  qed
  have c5: "f = FORMAT_FULL \<longrightarrow> (\<forall>i<Suc n. blk_data (eeprom (format_block f d (int n) ?s1)) (int i) = d)"
  proof (intro allI impI)
    fix i assume f: "f = FORMAT_FULL" and "i < Suc n"
    show "blk_data (eeprom (format_block f d (int n) ?s1)) (int i) = d"
    proof (cases "i = n")
      case True
      then show ?thesis using f format_block_data_full [OF assms(2)] by simp
    next
      case False
      with \<open>i < Suc n\<close> have "i < n" by simp
      then have "in_pool (int i)" "int i \<noteq> int n" using n by simp_all
      then show ?thesis using format_block_data_other [OF pool _ _ assms(2)] IH(5) f \<open>i < n\<close> by simp
    qed
  qed
  have c6: "f \<noteq> FORMAT_FULL \<longrightarrow>
            (\<forall>i<59. blk_data (eeprom (format_block f d (int n) ?s1)) (int i) = blk_data (eeprom s) (int i))"
  proof (intro allI impI)
    fix i :: nat assume f: "f \<noteq> FORMAT_FULL" and "i < 59"
    then have "in_pool (int i)" by simp
    then show "blk_data (eeprom (format_block f d (int n) ?s1)) (int i) = blk_data (eeprom s) (int i)"
      using format_block_data_other [OF pool _ _ assms(2)] IH(6) f \<open>i < 59\<close> by simp
  qed
  have c7: "\<forall>a. a < 130 \<or> 130 + 32 * Suc n \<le> a \<longrightarrow> eeprom (format_block f d (int n) ?s1) a = eeprom s a"
  proof (intro allI impI)
    fix a assume a: "a < 130 \<or> 130 + 32 * Suc n \<le> a"
    then have "a < get_block_pointer (int n) \<or> get_block_pointer (int n) + 32 \<le> a"
      using ptr by auto
    then have "eeprom (format_block f d (int n) ?s1) a = eeprom ?s1 a"
      by (rule format_block_outside [OF pool assms(2)])
    also have "\<dots> = eeprom s a" using IH(7) a by auto
    finally show "eeprom (format_block f d (int n) ?s1) a = eeprom s a" .
  qed
  show ?case
    unfolding step using IH(1,2,3) c4 c5 c6 c7
    by (simp add: format_block_errors [OF pool])
qed

lemma length_concat_fixed:
  "(\<And>j. j < n \<Longrightarrow> length (g j) = k) \<Longrightarrow> length (concat (map g [0..<n])) = k * n"
  by (induction n) simp_all

lemma take_drop_concat_fixed:
  assumes len: "\<And>j. j < n \<Longrightarrow> length (g j) = k" and i: "i < n"
  shows "take k (drop (k * i) (concat (map g [0..<n]))) = g i"
proof -
  have split: "[0..<n] = [0..<i] @ i # [Suc i..<n]"
    using i by (metis less_imp_le_nat upt_add_eq_append upt_conv_Cons le_add_diff_inverse add_0 zero_le)
  have l1: "length (concat (map g [0..<i])) = k * i"
    using len i by (intro length_concat_fixed) simp
  have "concat (map g [0..<n]) = concat (map g [0..<i]) @ g i @ concat (map g [Suc i..<n])"
    by (subst split) simp
  then show ?thesis using l1 len [OF i] by simp
qed

lemma length_enc_alloc_table [simp]: "length (enc_alloc_table t) = 120"
  unfolding enc_alloc_table_def
  by (subst length_concat_fixed [where k = 4]) (simp_all add: cfg_defs)

lemma enc_alloc_table_entry:
  "i \<le> EEPROM_FS_MAX_FILES \<Longrightarrow> take 4 (drop (4 * i) (enc_alloc_table t)) = enc_file_alloc (t i)"
  unfolding enc_alloc_table_def
  by (rule take_drop_concat_fixed) (simp_all add: cfg_defs)

lemma length_enc_fs_meta [simp]: "length (enc_fs_meta m) = 10"
  by (simp add: enc_fs_meta_def)

lemma dec_enc_fs_meta:
  "m_block_size m < 65536 \<Longrightarrow> m_start_address m < 65536 \<Longrightarrow> m_fs_size m < 65536 \<Longrightarrow>
   m_max_files m < 65536 \<Longrightarrow> m_max_blocks_per_file m < 65536 \<Longrightarrow>
   dec_fs_meta (enc_fs_meta m) = m"
  by (simp add: dec_fs_meta_def enc_fs_meta_def u16_of_le16_small)

lemma dec_enc_this_meta: "dec_fs_meta (enc_fs_meta this_meta) = this_meta"
  by (rule dec_enc_fs_meta) (simp_all add: this_meta_def cfg_defs)

lemma wipe_eeprom_frame [simp]:
  "alloc_table (wipe_eeprom s) = alloc_table s"
  "debug_level (wipe_eeprom s) = debug_level s"
  "errors_of (wipe_eeprom s) = errors_of s"
  by (simp_all add: wipe_eeprom_def errors_of_def)

lemma format_fold_frame [simp]:
  "alloc_table (fold (format_block f d) xs s) = alloc_table s"
  "debug_level (fold (format_block f d) xs s) = debug_level s"
  by (induction xs arbitrary: s) simp_all

lemma format_fold_errors:
  "n \<le> 59 \<Longrightarrow> length d = 30 \<Longrightarrow>
   errors_of (fold (format_block f d) (map int [0..<n]) s) = errors_of s"
  using format_fold [of n d f s] by blast

lemma format_fold_next:
  "n \<le> 59 \<Longrightarrow> length d = 30 \<Longrightarrow> i < n \<Longrightarrow>
   blk_next (eeprom (fold (format_block f d) (map int [0..<n]) s)) (int i) = int i - 1"
  using format_fold [of n d f s] by blast

lemma format_fold_data_full:
  "n \<le> 59 \<Longrightarrow> length d = 30 \<Longrightarrow> i < n \<Longrightarrow>
   blk_data (eeprom (fold (format_block FORMAT_FULL d) (map int [0..<n]) s)) (int i) = d"
  using format_fold [of n d FORMAT_FULL s] by blast

lemma format_fold_data_quick:
  "n \<le> 59 \<Longrightarrow> length d = 30 \<Longrightarrow> f \<noteq> FORMAT_FULL \<Longrightarrow> i < 59 \<Longrightarrow>
   blk_data (eeprom (fold (format_block f d) (map int [0..<n]) s)) (int i) = blk_data (eeprom s) (int i)"
  using format_fold [of n d f s] by blast

lemma format_eepromfs_table:
  "alloc_table (format_eepromfs f s) = formatted_table (alloc_table s)"
  by (simp add: format_eepromfs_def Let_def formatted_table_def [symmetric])

lemma format_eepromfs_eeprom:
  "eeprom (format_eepromfs f s) =
     eeprom_write_block (enc_fs_meta this_meta) 0
       (eeprom_write_block (enc_alloc_table (formatted_table (alloc_table s))) 10
          (eeprom (fold (format_block f (replicate 30 0)) (map int [0..<59])
                     (if f = FORMAT_WIPE then wipe_eeprom (fs_debug1 ''Formatting filesystem.\<newline>'' [] s)
                      else fs_debug1 ''Formatting filesystem.\<newline>'' [] s))))"
  unfolding format_eepromfs_def Let_def formatted_table_def [symmetric]
  by (simp add: num_blocks_59 block_data_size_30 eeprom_update_block_eq_write EEPROM_FS_START_def
        EEPROM_FS_ALLOC_TABLE_OFFSET_def EEPROM_FS_META_OFFSET_def sizeof_fs_meta_t_def)

lemma format_eepromfs_level [simp]:
  "debug_level (format_eepromfs f s) = debug_level s"
  by (simp add: format_eepromfs_def Let_def)

lemma format_eepromfs_errors [simp]:
  "errors_of (format_eepromfs f s) = errors_of s"
  by (simp add: format_eepromfs_def Let_def num_blocks_59 block_data_size_30 format_fold_errors)

lemma in_pool_nat: "in_pool b \<Longrightarrow> \<exists>i<59. b = int i"
  by (rule exI [of _ "nat b"]) (auto simp: in_pool_def cfg_defs)

lemma get_block_pointer_int: "i < 59 \<Longrightarrow> get_block_pointer (int i) = 130 + 32 * i"
  by (simp add: get_block_pointer_in_pool)

lemma format_eepromfs_next:
  assumes "in_pool b"
  shows "blk_next (eeprom (format_eepromfs f s)) b = b - 1"
proof -
  from in_pool_nat [OF assms] obtain i where i: "b = int i" "i < 59" by blast
  show ?thesis
    using i by (simp add: format_eepromfs_eeprom blk_next_write_other get_block_pointer_int
        format_fold_next)
qed

lemma format_eepromfs_data:
  assumes "in_pool b"
  shows "blk_data (eeprom (format_eepromfs f s)) b =
           (if f = FORMAT_FULL then replicate EEPROM_FS_BLOCK_DATA_SIZE 0
            else if f = FORMAT_WIPE then blk_data (eeprom (wipe_eeprom s)) b
            else blk_data (eeprom s) b)"
proof -
  from in_pool_nat [OF assms] obtain i where i: "b = int i" "i < 59" by blast
  show ?thesis
    using i by (simp add: format_eepromfs_eeprom blk_data_write_other get_block_pointer_int
        block_data_size_30 format_fold_data_full format_fold_data_quick wipe_eeprom_def)
qed

lemma format_eepromfs_stored_table:
  "eeprom_read_block (eeprom (format_eepromfs f s)) (EEPROM_FS_START + EEPROM_FS_ALLOC_TABLE_OFFSET)
     sizeof_alloc_table = enc_alloc_table (alloc_table (format_eepromfs f s))"
  using read_write_same [of "enc_alloc_table (formatted_table (alloc_table s))" 10]
  by (simp add: format_eepromfs_eeprom format_eepromfs_table read_write_disjoint cfg_defs)

lemma formatted_table_valid:
  "i \<le> EEPROM_FS_MAX_FILES \<Longrightarrow> dec_file_alloc (enc_file_alloc (formatted_table old i)) = formatted_table old i"
  by (rule dec_enc_file_alloc) (simp_all add: formatted_table_def cfg_defs)

lemma format_eepromfs_stored_alloc:
  assumes "i \<le> EEPROM_FS_MAX_FILES"
  shows "stored_alloc (eeprom (format_eepromfs f s)) i = alloc_table (format_eepromfs f s) i"
proof -
  have a: "alloc_entry_addr i = 10 + 4 * i" using assms by (rule alloc_entry_addr_val)
  have i: "i \<le> 29" using assms by (simp add: cfg_defs)
  have "eeprom_read_block (eeprom (format_eepromfs f s)) (10 + 4 * i) 4
        = take 4 (drop (10 + 4 * i - 10) (enc_alloc_table (formatted_table (alloc_table s))))"
    unfolding format_eepromfs_eeprom
    using i by (subst read_write_disjoint) (simp_all add: read_write_sub)
  then show ?thesis
    using assms by (simp add: stored_alloc_def a enc_alloc_table_entry formatted_table_valid
        format_eepromfs_table cfg_defs)
qed

lemma format_eepromfs_stored_meta:
  "stored_meta (eeprom (format_eepromfs f s)) = this_meta"
  using read_write_same [of "enc_fs_meta this_meta" 0]
  by (simp add: stored_meta_def format_eepromfs_eeprom dec_enc_this_meta cfg_defs)

lemma blk_data_power_on: "blk_data (eeprom power_on) b = replicate 30 255"
  by (simp add: blk_data_read eeprom_read_block_def power_on_def map_replicate_const)



section \<open>Chains, unlinking and deleting\<close>

lemma printed_only_refl [simp]: "printed_only s s"
  by (simp add: printed_only_def)

lemma printed_only_debug [simp]:
  "printed_only s (fs_debug1 f a s')  = printed_only s s'"
  "printed_only s (fs_debug2 f a s')  = printed_only s s'"
  "printed_only s (fs_debug3 f a s')  = printed_only s s'"
  "printed_only s (fs_debug4 f a s')  = printed_only s s'"
  by (simp_all add: printed_only_def)

lemma printed_only_trans: "printed_only s t \<Longrightarrow> printed_only t u \<Longrightarrow> printed_only s u"
  by (simp add: printed_only_def)

lemma printed_onlyD:
  "printed_only s s' \<Longrightarrow> alloc_table s' = alloc_table s"
  "printed_only s s' \<Longrightarrow> eeprom s' = eeprom s"
  "printed_only s s' \<Longrightarrow> debug_level s' = debug_level s"
  "printed_only s s' \<Longrightarrow> errors_of s' = errors_of s"
  "printed_only s s' \<Longrightarrow> next_free_block s' = next_free_block s"
  by (simp_all add: printed_only_def next_free_block_def)

lemma last_block_loop_chain:
  "is_chain (eeprom s) b xs \<Longrightarrow> xs \<noteq> [] \<Longrightarrow>
   \<exists>s'. last_block_loop b s = Some (last xs, s') \<and> printed_only s s'"
proof (induction xs arbitrary: b s)
  case Nil
  then show ?case by simp
next
  case (Cons x xs)
  let ?s1 = "fs_debug4 ''checking... %d\<newline>'' [b] s"
  from Cons.prems have bx: "b = x" "in_pool x" and rest: "is_path (eeprom s) (blk_next (eeprom s) x) xs NULL_PTR"
    by (simp_all add: is_chain_def)
  show ?case
  proof (cases xs)
    case Nil
    with rest have "blk_next (eeprom s) x = NULL_PTR" by simp
    then show ?thesis
      using bx Nil
      by (subst last_block_loop.simps) (simp add: Let_def blk_next_def)
  next
    case (Cons y ys)
    with rest have y: "blk_next (eeprom s) x = y" "in_pool y" by simp_all
    then have nn: "blk_next (eeprom s) x \<noteq> NULL_PTR" by (auto dest: in_pool_not_NULL)
    have "is_chain (eeprom ?s1) (blk_next (eeprom s) x) xs"
      using rest by (simp add: is_chain_def)
    from Cons.IH [OF this] Cons obtain s' where
      s': "last_block_loop (blk_next (eeprom s) x) ?s1 = Some (last xs, s')" "printed_only ?s1 s'"
      by auto
    have "last_block_loop b s = last_block_loop (blk_next (eeprom s) x) ?s1"
      using nn bx by (subst last_block_loop.simps) (simp add: Let_def blk_next_def)
    then show ?thesis
      using s' Cons by (auto simp: printed_only_def)
  qed
qed

lemma last_block_in_chain_chain:
  assumes "is_chain (eeprom s) b xs" "xs \<noteq> []"
  shows "\<exists>s'. last_block_in_chain b s = Some (last xs, s') \<and> printed_only s s'"
proof -
  let ?s0 = "fs_debug3 ''Searching for last block in chain...\<newline>'' [] s"
  from assms have b: "in_pool b" by (cases xs) (simp_all add: is_chain_def)
  have "is_chain (eeprom ?s0) b xs" using assms by simp
  from last_block_loop_chain [OF this assms(2)] obtain s' where
    "last_block_loop b ?s0 = Some (last xs, s')" "printed_only ?s0 s'" by blast
  then show ?thesis using b
    by (auto simp: last_block_in_chain_def printed_only_def)
qed

lemma last_block_in_chain_invalid:
  "\<not> in_pool b \<Longrightarrow>
   last_block_in_chain b s = Some (NULL_PTR, fs_error ''Block %d is not part of a block chain.\<newline>'' [b] s)"
  by (simp add: last_block_in_chain_def)

lemma is_path_in_pool: "is_path e b xs c \<Longrightarrow> x \<in> set xs \<Longrightarrow> in_pool x"
  by (induction xs arbitrary: b) auto

lemma is_chain_last_in_pool: "is_chain e b xs \<Longrightarrow> xs \<noteq> [] \<Longrightarrow> in_pool (last xs)"
  using is_path_in_pool [of e b xs NULL_PTR "last xs"] by (simp add: is_chain_def)

lemma stored_alloc_pool_write:
  "130 \<le> dst \<Longrightarrow> i \<le> EEPROM_FS_MAX_FILES \<Longrightarrow>
   stored_alloc (eeprom_write_block bs dst e) i = stored_alloc e i"
  by (rule stored_alloc_write_other) (simp add: alloc_entry_addr_val cfg_defs)

lemma stored_meta_write:
  "10 \<le> dst \<Longrightarrow> stored_meta (eeprom_write_block bs dst e) = stored_meta e"
  by (simp add: stored_meta_def read_write_disjoint cfg_defs)

lemma blk_next_table_write:
  "in_pool b \<Longrightarrow> dst + length bs \<le> 130 \<Longrightarrow> blk_next (eeprom_write_block bs dst e) b = blk_next e b"
  by (rule blk_next_write_other) (simp add: get_block_pointer_in_pool)

lemma blk_data_table_write:
  "in_pool b \<Longrightarrow> dst + length bs \<le> 130 \<Longrightarrow> blk_data (eeprom_write_block bs dst e) b = blk_data e b"
  by (rule blk_data_write_other) (simp add: get_block_pointer_in_pool)

lemma stored_alloc_entry_write_other:
  "i \<le> EEPROM_FS_MAX_FILES \<Longrightarrow> j \<le> EEPROM_FS_MAX_FILES \<Longrightarrow> i \<noteq> j \<Longrightarrow> length bs = 4 \<Longrightarrow>
   stored_alloc (eeprom_write_block bs (alloc_entry_addr j) e) i = stored_alloc e i"
  by (rule stored_alloc_write_other) (auto simp: alloc_entry_addr_val)

lemma get_block_pointer_ge: "in_pool b \<Longrightarrow> 130 \<le> get_block_pointer b"
  by (simp add: get_block_pointer_in_pool)

lemma unlink_invalid:
  "\<not> in_pool b \<Longrightarrow> unlink b s = Some (fs_error ''Cannot unlink invalid block %d.\<newline>'' [b] s)"
  by (simp add: unlink_def)

lemma unlink_chain:
  assumes "in_pool b" "is_chain (eeprom s) (next_free_block s) fs" "fs \<noteq> []"
  shows "\<exists>s'. unlink b s = Some s'
           \<and> alloc_table s' = alloc_table s \<and> debug_level s' = debug_level s
           \<and> errors_of s' = errors_of s
           \<and> eeprom s' = eeprom_write_block (le16 b) (get_block_pointer (last fs)) (eeprom s)"
proof -
  let ?s0 = "fs_debug1 ''Unlinking block %d.\<newline>'' [b] s"
  have "is_chain (eeprom ?s0) (next_free_block ?s0) fs" using assms(2) by simp
  from last_block_in_chain_chain [OF this assms(3)] obtain s1 where
    s1: "last_block_in_chain (next_free_block ?s0) ?s0 = Some (last fs, s1)" "printed_only ?s0 s1"
    by blast
  show ?thesis
    using assms(1) s1
    by (simp add: unlink_def Let_def enc_block_def printed_only_def cfg_defs)
qed

lemma unlink_empty_free_chain:
  assumes "in_pool b" "\<not> in_pool (next_free_block s)"
  shows "\<exists>s'. unlink b s = Some s'
           \<and> alloc_table s' = alloc_table s \<and> debug_level s' = debug_level s
           \<and> eeprom s' = eeprom_write_block (le16 b) (get_block_pointer NULL_PTR) (eeprom s)"
  using assms
  by (simp add: unlink_def Let_def enc_block_def last_block_in_chain_invalid cfg_defs)

lemma wrap_filename_small [simp]:
  "f < EEPROM_FS_MAX_FILES \<Longrightarrow> wrap_filename f s = (f, s)"
  by (simp add: wrap_filename_def)

lemma null_entry_valid:
  "dec_file_alloc (enc_file_alloc \<lparr>fa_filesize = 0, fa_data_block = NULL_PTR\<rparr>)
     = \<lparr>fa_filesize = 0, fa_data_block = NULL_PTR\<rparr>"
  by (rule dec_enc_file_alloc) (simp_all add: NULL_PTR_def)

lemma delete_absent:
  assumes "f < EEPROM_FS_MAX_FILES" "\<not> in_pool (fa_data_block (alloc_table s f))"
  shows "\<exists>s'. delete f s = Some s'
           \<and> alloc_table s' = (alloc_table s)(f := \<lparr>fa_filesize = 0, fa_data_block = NULL_PTR\<rparr>)
           \<and> debug_level s' = debug_level s
           \<and> errors_of s' = errors_of s @
                [(0, ''Cannot unlink invalid block %d.\<newline>'', [fa_data_block (alloc_table s f)])]
           \<and> eeprom s' = eeprom_write_block (enc_file_alloc \<lparr>fa_filesize = 0, fa_data_block = NULL_PTR\<rparr>)
                            (alloc_entry_addr f) (eeprom s)"
  using assms
  by (simp add: delete_def Let_def unlink_invalid eeprom_update_block_eq_write)

lemma delete_present:
  assumes "f < EEPROM_FS_MAX_FILES" "in_pool (fa_data_block (alloc_table s f))"
    "is_chain (eeprom s) (next_free_block s) fs" "fs \<noteq> []"
  shows "\<exists>s'. delete f s = Some s'
           \<and> alloc_table s' = (alloc_table s)(f := \<lparr>fa_filesize = 0, fa_data_block = NULL_PTR\<rparr>)
           \<and> debug_level s' = debug_level s
           \<and> errors_of s' = errors_of s
           \<and> eeprom s' = eeprom_write_block (enc_file_alloc \<lparr>fa_filesize = 0, fa_data_block = NULL_PTR\<rparr>)
                            (alloc_entry_addr f)
                            (eeprom_write_block (le16 (fa_data_block (alloc_table s f)))
                               (get_block_pointer (last fs)) (eeprom s))"
proof -
  let ?s2 = "fs_debug1 ''Deleting file %d.\<newline>'' [int f] s"
  have "is_chain (eeprom ?s2) (next_free_block ?s2) fs" using assms(3) by simp
  from unlink_chain [OF _ this assms(4), of "fa_data_block (alloc_table s f)"] assms(2)
  obtain s3 where s3: "unlink (fa_data_block (alloc_table s f)) ?s2 = Some s3"
    "alloc_table s3 = alloc_table s" "debug_level s3 = debug_level s" "errors_of s3 = errors_of s"
    "eeprom s3 = eeprom_write_block (le16 (fa_data_block (alloc_table s f)))
                   (get_block_pointer (last fs)) (eeprom s)"
    by auto
  show ?thesis
    using assms(1) s3
    by (simp add: delete_def Let_def eeprom_update_block_eq_write)
qed

lemma open_for_read_small:
  assumes "f < EEPROM_FS_MAX_FILES"
  shows "fst (open_for_read f s) =
           \<lparr>fh_filename = f, fh_filesize = fa_filesize (alloc_table s f), fh_type = FH_READ,
            fh_first_block = fa_data_block (alloc_table s f), fh_last_block = NULL_PTR\<rparr>"
    and "fa_data_block (alloc_table s f) = NULL_PTR \<Longrightarrow>
         errors_of (snd (open_for_read f s)) = errors_of s @ [(0, ''File %d not found.\<newline>'', [int f])]"
    and "fa_data_block (alloc_table s f) \<noteq> NULL_PTR \<Longrightarrow>
         errors_of (snd (open_for_read f s)) = errors_of s"
  using assms by (simp_all add: open_for_read_def Let_def)

lemma open_for_read_frame [simp]:
  "alloc_table (snd (open_for_read n s)) = alloc_table s"
  "eeprom (snd (open_for_read n s)) = eeprom s"
  "debug_level (snd (open_for_read n s)) = debug_level s"
  by (simp_all add: open_for_read_def wrap_filename_def Let_def)

lemma entry_write_effects:
  fixes e :: mem
  assumes "f < EEPROM_FS_MAX_FILES"
  defines "e' \<equiv> eeprom_write_block (enc_file_alloc \<lparr>fa_filesize = 0, fa_data_block = NULL_PTR\<rparr>)
                   (alloc_entry_addr f) e"
  shows "stored_alloc e' f = \<lparr>fa_filesize = 0, fa_data_block = NULL_PTR\<rparr>"
    and "i \<le> EEPROM_FS_MAX_FILES \<Longrightarrow> i \<noteq> f \<Longrightarrow> stored_alloc e' i = stored_alloc e i"
    and "stored_meta e' = stored_meta e"
    and "in_pool b \<Longrightarrow> blk_next e' b = blk_next e b"
    and "in_pool b \<Longrightarrow> blk_data e' b = blk_data e b"
proof -
  have a: "alloc_entry_addr f = 10 + 4 * f" "f < 29"
    using assms(1) by (simp_all add: alloc_entry_addr_val cfg_defs)
  show "stored_alloc e' f = \<lparr>fa_filesize = 0, fa_data_block = NULL_PTR\<rparr>"
    unfolding e'_def by (rule stored_alloc_write_same) (simp_all add: NULL_PTR_def)
  show "i \<le> EEPROM_FS_MAX_FILES \<Longrightarrow> i \<noteq> f \<Longrightarrow> stored_alloc e' i = stored_alloc e i"
    unfolding e'_def using assms(1) by (intro stored_alloc_entry_write_other) simp_all
  show "stored_meta e' = stored_meta e"
    unfolding e'_def by (rule stored_meta_write) (simp add: a)
  show "in_pool b \<Longrightarrow> blk_next e' b = blk_next e b"
    unfolding e'_def using a by (intro blk_next_table_write) simp_all
  show "in_pool b \<Longrightarrow> blk_data e' b = blk_data e b"
    unfolding e'_def using a by (intro blk_data_table_write) simp_all
qed

text \<open>
  What \<open>delete\<close> does for a name \<open>f\<close> below \<open>EEPROM_FS_MAX_FILES\<close> when the name holds
  no file or the free chain is not empty and null-terminated: it returns, entry \<open>f\<close> is
  \<open>{0, null}\<close> in RAM and on the medium, every other stored entry and the stored header
  are as before, and \<open>open_for_read\<close> then prints "File not found". When the name holds
  no file, no link and no payload of any block changes, and \<open>delete\<close> prints exactly one
  error, the rejection by \<open>unlink\<close>. (With a file present and an empty free chain the
  stored table is damaged: section "Deleting when the free chain is empty".)
\<close>

lemma delete_with_free_chain:
  assumes "f < EEPROM_FS_MAX_FILES"
    and "fa_data_block (alloc_table s f) = NULL_PTR
         \<or> (\<exists>fs. fs \<noteq> [] \<and> is_chain (eeprom s) (next_free_block s) fs)"
  shows "\<exists>s'. delete f s = Some s'
     \<and> alloc_table s' = (alloc_table s)(f := \<lparr>fa_filesize = 0, fa_data_block = NULL_PTR\<rparr>)
     \<and> stored_alloc (eeprom s') f = \<lparr>fa_filesize = 0, fa_data_block = NULL_PTR\<rparr>
     \<and> (\<forall>i\<le>EEPROM_FS_MAX_FILES. i \<noteq> f \<longrightarrow> stored_alloc (eeprom s') i = stored_alloc (eeprom s) i)
     \<and> stored_meta (eeprom s') = stored_meta (eeprom s)
     \<and> fh_first_block (fst (open_for_read f s')) = NULL_PTR
     \<and> fh_filesize (fst (open_for_read f s')) = 0
     \<and> errors_of (snd (open_for_read f s')) = errors_of s' @ [(0, ''File %d not found.\<newline>'', [int f])]
     \<and> (fa_data_block (alloc_table s f) = NULL_PTR \<longrightarrow>
           (\<forall>b. in_pool b \<longrightarrow> blk_next (eeprom s') b = blk_next (eeprom s) b
                             \<and> blk_data (eeprom s') b = blk_data (eeprom s) b)
           \<and> errors_of s' = errors_of s @ [(0, ''Cannot unlink invalid block %d.\<newline>'', [NULL_PTR])])"
proof (cases "in_pool (fa_data_block (alloc_table s f))")
  case False
  from delete_absent [OF assms(1) False] obtain s' where s':
    "delete f s = Some s'"
    "alloc_table s' = (alloc_table s)(f := \<lparr>fa_filesize = 0, fa_data_block = NULL_PTR\<rparr>)"
    "errors_of s' = errors_of s @
       [(0, ''Cannot unlink invalid block %d.\<newline>'', [fa_data_block (alloc_table s f)])]"
    "eeprom s' = eeprom_write_block (enc_file_alloc \<lparr>fa_filesize = 0, fa_data_block = NULL_PTR\<rparr>)
                   (alloc_entry_addr f) (eeprom s)"
    by blast
  show ?thesis
    using s' entry_write_effects [OF assms(1), where e = "eeprom s"] open_for_read_small [OF assms(1), of s']
    by (intro exI [of _ s']) simp
next
  case True
  then have "fa_data_block (alloc_table s f) \<noteq> NULL_PTR" by (auto dest: in_pool_not_NULL)
  with assms(2) obtain fs where fs: "fs \<noteq> []" "is_chain (eeprom s) (next_free_block s) fs" by blast
  let ?e1 = "eeprom_write_block (le16 (fa_data_block (alloc_table s f)))
               (get_block_pointer (last fs)) (eeprom s)"
  from delete_present [OF assms(1) True fs(2,1)] obtain s' where s':
    "delete f s = Some s'"
    "alloc_table s' = (alloc_table s)(f := \<lparr>fa_filesize = 0, fa_data_block = NULL_PTR\<rparr>)"
    "errors_of s' = errors_of s"
    "eeprom s' = eeprom_write_block (enc_file_alloc \<lparr>fa_filesize = 0, fa_data_block = NULL_PTR\<rparr>)
                   (alloc_entry_addr f) ?e1"
    by blast
  have pool: "130 \<le> get_block_pointer (last fs)"
    using is_chain_last_in_pool [OF fs(2,1)] by (rule get_block_pointer_ge)
  have other: "\<forall>i\<le>EEPROM_FS_MAX_FILES. i \<noteq> f \<longrightarrow> stored_alloc (eeprom s') i = stored_alloc (eeprom s) i"
    using entry_write_effects(2) [OF assms(1), where e = ?e1] pool
    by (simp add: s'(4) stored_alloc_pool_write)
  have meta: "stored_meta (eeprom s') = stored_meta (eeprom s)"
    using entry_write_effects(3) [OF assms(1), where e = ?e1] pool
    by (simp add: s'(4) stored_meta_write)
  show ?thesis
    using s' entry_write_effects(1) [OF assms(1), where e = ?e1] open_for_read_small [OF assms(1), of s']
      other meta \<open>fa_data_block (alloc_table s f) \<noteq> NULL_PTR\<close>
    by (intro exI [of _ s']) simp
qed

lemma format_null_entry:
  "i < EEPROM_FS_MAX_FILES \<Longrightarrow> alloc_table (format_eepromfs f s) i = \<lparr>fa_filesize = 0, fa_data_block = NULL_PTR\<rparr>"
  by (simp add: format_eepromfs_table formatted_table_def)

lemma delete_absent_on_fresh:
  "\<exists>s'. delete 6 (format_eepromfs FORMAT_QUICK power_on) = Some s'
     \<and> alloc_table s' 6 = \<lparr>fa_filesize = 0, fa_data_block = NULL_PTR\<rparr>
     \<and> stored_alloc (eeprom s') 6 = \<lparr>fa_filesize = 0, fa_data_block = NULL_PTR\<rparr>
     \<and> stored_alloc (eeprom s') 29 = \<lparr>fa_filesize = 0, fa_data_block = 58\<rparr>
     \<and> stored_meta (eeprom s') = this_meta
     \<and> fh_first_block (fst (open_for_read 6 s')) = NULL_PTR
     \<and> errors_of (snd (open_for_read 6 s')) =
          [(0, ''Cannot unlink invalid block %d.\<newline>'', [NULL_PTR]), (0, ''File %d not found.\<newline>'', [6])]
     \<and> blk_next (eeprom s') 58 = 57"
proof -
  let ?s = "format_eepromfs FORMAT_QUICK power_on"
  have six: "(6::nat) < EEPROM_FS_MAX_FILES" by (simp add: cfg_defs)
  have absent: "fa_data_block (alloc_table ?s 6) = NULL_PTR"
    by (simp add: format_null_entry [OF six])
  have p58: "in_pool 58" by (simp add: in_pool_def cfg_defs)
  from delete_with_free_chain [OF six, of ?s] absent obtain s' where s':
    "delete 6 ?s = Some s'"
    "alloc_table s' = (alloc_table ?s)(6 := \<lparr>fa_filesize = 0, fa_data_block = NULL_PTR\<rparr>)"
    "stored_alloc (eeprom s') 6 = \<lparr>fa_filesize = 0, fa_data_block = NULL_PTR\<rparr>"
    "\<forall>i\<le>EEPROM_FS_MAX_FILES. i \<noteq> 6 \<longrightarrow> stored_alloc (eeprom s') i = stored_alloc (eeprom ?s) i"
    "stored_meta (eeprom s') = stored_meta (eeprom ?s)"
    "fh_first_block (fst (open_for_read 6 s')) = NULL_PTR"
    "errors_of (snd (open_for_read 6 s')) = errors_of s' @ [(0, ''File %d not found.\<newline>'', [int 6])]"
    "\<forall>b. in_pool b \<longrightarrow> blk_next (eeprom s') b = blk_next (eeprom ?s) b
                       \<and> blk_data (eeprom s') b = blk_data (eeprom ?s) b"
    "errors_of s' = errors_of ?s @ [(0, ''Cannot unlink invalid block %d.\<newline>'', [NULL_PTR])]"
    by auto
  have "stored_alloc (eeprom s') 29 = \<lparr>fa_filesize = 0, fa_data_block = 58\<rparr>"
    using s'(4) by (simp add: format_eepromfs_stored_alloc format_eepromfs_table formatted_table_def cfg_defs)
  moreover have "blk_next (eeprom s') 58 = 57"
    using s'(8) p58 by (simp add: format_eepromfs_next)
  ultimately show ?thesis
    using s' by (intro exI [of _ s']) (simp add: format_eepromfs_stored_meta)
qed

section \<open>Writing and closing a file\<close>

lemma u16_of_bound: "u16_of bs < 65536"
proof -
  have "unat (bs ! 0) < 256" "unat (bs ! 1) < 256"
    using unsigned_less [of "bs ! 0", where 'a = nat] unsigned_less [of "bs ! 1", where 'a = nat] by simp_all
  then show ?thesis by (simp add: u16_of_def)
qed

lemma s16_of_range: "- 32768 \<le> s16_of bs \<and> s16_of bs < 32768"
  using u16_of_bound [of bs] by (simp add: s16_of_def)

lemma blk_next_range: "- 32768 \<le> blk_next e b \<and> blk_next e b < 32768"
  by (simp add: blk_next_read s16_of_range)

lemma set_next_free_block_fields [simp]:
  "alloc_table (set_next_free_block v s)
     = (alloc_table s)(EEPROM_FS_MAX_FILES := (alloc_table s EEPROM_FS_MAX_FILES)\<lparr>fa_data_block := v\<rparr>)"
  "eeprom (set_next_free_block v s) = eeprom s"
  "debug_level (set_next_free_block v s) = debug_level s"
  "errors_of (set_next_free_block v s) = errors_of s"
  "next_free_block (set_next_free_block v s) = v"
  by (simp_all add: set_next_free_block_def next_free_block_def)

lemma write_block_data_ok:
  assumes "in_pool (next_free_block s)"
  shows "fst (write_block_data data s) = next_free_block s"
    and "alloc_table (snd (write_block_data data s))
           = (alloc_table s)(EEPROM_FS_MAX_FILES :=
                (alloc_table s EEPROM_FS_MAX_FILES)\<lparr>fa_data_block := blk_next (eeprom s) (next_free_block s)\<rparr>)"
    and "next_free_block (snd (write_block_data data s)) = blk_next (eeprom s) (next_free_block s)"
    and "eeprom (snd (write_block_data data s))
           = eeprom_write_block (map data [0..<30]) (get_block_pointer (next_free_block s) + 2) (eeprom s)"
    and "debug_level (snd (write_block_data data s)) = debug_level s"
    and "errors_of (snd (write_block_data data s)) = errors_of s"
  using assms
  by (simp_all add: write_block_data_def Let_def blk_next_def cfg_defs)

lemma write_block_data_invalid:
  "\<not> in_pool (next_free_block s) \<Longrightarrow>
   write_block_data data s
     = (NULL_PTR, fs_error ''Attempted to write to invalid block %d.\<newline>'' [next_free_block s] s)"
  by (simp add: write_block_data_def)

lemma write_copy_fold:
  "fst (fold (write_copy_byte data i) [0..<n] (blk, s))
     = (\<lambda>j. if j < n then data ((i * EEPROM_FS_BLOCK_DATA_SIZE + j) mod 65536) else blk j)
   \<and> printed_only s (snd (fold (write_copy_byte data i) [0..<n] (blk, s)))"
proof (induction n)
  case 0
  then show ?case by simp
next
  case (Suc n)
  obtain blk1 s1 where f: "fold (write_copy_byte data i) [0..<n] (blk, s) = (blk1, s1)"
    by (cases "fold (write_copy_byte data i) [0..<n] (blk, s)")
  with Suc have IH: "blk1 = (\<lambda>j. if j < n then data ((i * EEPROM_FS_BLOCK_DATA_SIZE + j) mod 65536) else blk j)"
    "printed_only s s1" by simp_all
  have step: "fold (write_copy_byte data i) [0..<Suc n] (blk, s) = write_copy_byte data i n (blk1, s1)"
    by (simp add: f)
  show ?case
    unfolding step using IH by (auto simp: write_copy_byte_def Let_def printed_only_def)
qed

lemma is_path_cong:
  "(\<And>b. b \<in> set xs \<Longrightarrow> blk_next e' b = blk_next e b) \<Longrightarrow> is_path e' b xs c = is_path e b xs c"
  by (induction xs arbitrary: b) auto

lemma blk_next_data_write:
  assumes "in_pool b" "in_pool w" "length d = 30"
  shows "blk_next (eeprom_write_block d (get_block_pointer w + 2) e) b = blk_next e b"
proof (cases "b = w")
  case True
  then show ?thesis by (simp add: blk_next_write_other)
next
  case False
  have "get_block_pointer b + 2 \<le> get_block_pointer w + 2
        \<or> get_block_pointer w + 2 + length d \<le> get_block_pointer b"
    using block_pointers_apart [OF assms(1,2) False] assms(3) by auto
  then show ?thesis by (rule blk_next_write_other)
qed

lemma blk_data_data_write_other:
  assumes "in_pool b" "in_pool w" "b \<noteq> w" "length d = 30"
  shows "blk_data (eeprom_write_block d (get_block_pointer w + 2) e) b = blk_data e b"
proof -
  have "get_block_pointer b + 32 \<le> get_block_pointer w + 2
        \<or> get_block_pointer w + 2 + length d \<le> get_block_pointer b + 2"
    using block_pointers_apart [OF assms(1,2,3)] assms(4) by auto
  then show ?thesis by (rule blk_data_write_other)
qed

lemma write_one_block_ok:
  assumes "in_pool (next_free_block s)"
  shows "\<exists>blk1 nb1 s1. write_one_block data sz i (blk, nb, fh, s)
            = (blk1, nb1, fh\<lparr>fh_last_block := next_free_block s\<rparr>, s1)
          \<and> alloc_table s1 = (alloc_table s)(EEPROM_FS_MAX_FILES :=
                (alloc_table s EEPROM_FS_MAX_FILES)\<lparr>fa_data_block := blk_next (eeprom s) (next_free_block s)\<rparr>)
          \<and> next_free_block s1 = blk_next (eeprom s) (next_free_block s)
          \<and> eeprom s1 = eeprom_write_block (map blk1 [0..<30]) (get_block_pointer (next_free_block s) + 2) (eeprom s)
          \<and> debug_level s1 = debug_level s
          \<and> errors_of s1 = errors_of s"
proof -
  let ?nb1 = "if ((i + 1) * EEPROM_FS_BLOCK_DATA_SIZE) mod 65536 > sz
              then sz mod EEPROM_FS_BLOCK_DATA_SIZE else nb"
  obtain blk1 s0 where c: "fold (write_copy_byte data i) [0..<?nb1] (blk, s) = (blk1, s0)"
    by (cases "fold (write_copy_byte data i) [0..<?nb1] (blk, s)")
  with write_copy_fold [of data i ?nb1 blk s] have p: "printed_only s s0" by simp
  then have pool: "in_pool (next_free_block s0)"
    using assms by (simp add: printed_onlyD)
  obtain w s1 where w: "write_block_data blk1 s0 = (w, s1)"
    by (cases "write_block_data blk1 s0")
  have eq: "write_one_block data sz i (blk, nb, fh, s) = (blk1, ?nb1, fh\<lparr>fh_last_block := w\<rparr>, s1)"
    using c w by (simp add: write_one_block_def Let_def)
  show ?thesis
    using write_block_data_ok [OF pool, of blk1] p
    by (simp add: eq w printed_onlyD)
qed

lemma write_blocks_path:
  assumes "is_path (eeprom s) (next_free_block s) xs c"
  shows "\<exists>blk' nb' s'. fold (write_one_block data sz) [k..<k + length xs] (blk, nb, fh, s)
            = (blk', nb', (if xs = [] then fh else fh\<lparr>fh_last_block := last xs\<rparr>), s')
          \<and> alloc_table s' = (alloc_table s)(EEPROM_FS_MAX_FILES :=
                (alloc_table s EEPROM_FS_MAX_FILES)\<lparr>fa_data_block := c\<rparr>)
          \<and> next_free_block s' = c
          \<and> debug_level s' = debug_level s
          \<and> errors_of s' = errors_of s
          \<and> (\<forall>a<130. eeprom s' a = eeprom s a)
          \<and> (\<forall>b. in_pool b \<longrightarrow> blk_next (eeprom s') b = blk_next (eeprom s) b)
          \<and> (\<forall>b. in_pool b \<longrightarrow> b \<notin> set xs \<longrightarrow> blk_data (eeprom s') b = blk_data (eeprom s) b)"
  using assms
proof (induction xs arbitrary: k blk nb fh s)
  case Nil
  then show ?case by (auto simp: next_free_block_def fun_eq_iff)
next
  case (Cons x xs)
  from Cons.prems have x: "next_free_block s = x" "in_pool x"
    and rest: "is_path (eeprom s) (blk_next (eeprom s) x) xs c" by simp_all
  from write_one_block_ok [of s data sz k blk nb fh] x
  obtain blk1 nb1 s1 where s1:
    "write_one_block data sz k (blk, nb, fh, s) = (blk1, nb1, fh\<lparr>fh_last_block := x\<rparr>, s1)"
    "alloc_table s1 = (alloc_table s)(EEPROM_FS_MAX_FILES :=
        (alloc_table s EEPROM_FS_MAX_FILES)\<lparr>fa_data_block := blk_next (eeprom s) x\<rparr>)"
    "next_free_block s1 = blk_next (eeprom s) x"
    "eeprom s1 = eeprom_write_block (map blk1 [0..<30]) (get_block_pointer x + 2) (eeprom s)"
    "debug_level s1 = debug_level s"
    "errors_of s1 = errors_of s"
    by auto
  have nx: "\<And>b. in_pool b \<Longrightarrow> blk_next (eeprom s1) b = blk_next (eeprom s) b"
    unfolding s1(4) using x(2) by (intro blk_next_data_write) simp_all
  have dx: "\<And>b. in_pool b \<Longrightarrow> b \<noteq> x \<Longrightarrow> blk_data (eeprom s1) b = blk_data (eeprom s) b"
    unfolding s1(4) using x(2) by (intro blk_data_data_write_other) simp_all
  have lo: "\<And>a. a < 130 \<Longrightarrow> eeprom s1 a = eeprom s a"
    unfolding s1(4) using get_block_pointer_ge [OF x(2)] by (intro write_outside) simp
  have "is_path (eeprom s1) (next_free_block s1) xs c"
    using rest nx is_path_in_pool [OF rest]
    by (simp add: s1(3) is_path_cong [of xs "eeprom s1" "eeprom s"])
  from Cons.IH [OF this, of "Suc k" blk1 nb1 "fh\<lparr>fh_last_block := x\<rparr>"]
  obtain blk' nb' s' where s':
    "fold (write_one_block data sz) [Suc k..<Suc k + length xs] (blk1, nb1, fh\<lparr>fh_last_block := x\<rparr>, s1)
       = (blk', nb', (if xs = [] then fh\<lparr>fh_last_block := x\<rparr>
                      else fh\<lparr>fh_last_block := x\<rparr>\<lparr>fh_last_block := last xs\<rparr>), s')"
    "alloc_table s' = (alloc_table s1)(EEPROM_FS_MAX_FILES :=
        (alloc_table s1 EEPROM_FS_MAX_FILES)\<lparr>fa_data_block := c\<rparr>)"
    "next_free_block s' = c" "debug_level s' = debug_level s1" "errors_of s' = errors_of s1"
    "\<forall>a<130. eeprom s' a = eeprom s1 a"
    "\<forall>b. in_pool b \<longrightarrow> blk_next (eeprom s') b = blk_next (eeprom s1) b"
    "\<forall>b. in_pool b \<longrightarrow> b \<notin> set xs \<longrightarrow> blk_data (eeprom s') b = blk_data (eeprom s1) b"
    by blast
  have upt: "[k..<k + length (x # xs)] = k # [Suc k..<Suc k + length xs]"
    using upt_conv_Cons [of k "k + length (x # xs)"] by simp
  have "fold (write_one_block data sz) [k..<k + length (x # xs)] (blk, nb, fh, s)
          = (blk', nb', (if x # xs = [] then fh else fh\<lparr>fh_last_block := last (x # xs)\<rparr>), s')"
    unfolding upt using s1(1) s'(1) by simp
  moreover have "alloc_table s' = (alloc_table s)(EEPROM_FS_MAX_FILES :=
        (alloc_table s EEPROM_FS_MAX_FILES)\<lparr>fa_data_block := c\<rparr>)"
    by (simp add: s'(2) s1(2))
  ultimately show ?case
    using s'(3-8) s1(5,6) nx dx lo by (intro exI [of _ blk'] exI [of _ nb'] exI [of _ s']) simp
qed

lemma is_path_append:
  "is_path e b (xs @ ys) c = (\<exists>m. is_path e b xs m \<and> is_path e m ys c)"
  by (induction xs arbitrary: b) auto

lemma is_path_deterministic:
  "is_path e b xs NULL_PTR \<Longrightarrow> is_path e b ys NULL_PTR \<Longrightarrow> xs = ys"
proof (induction xs arbitrary: b ys)
  case Nil
  then show ?case by (cases ys) auto
next
  case (Cons x xs)
  then show ?case by (cases ys) auto
qed

lemma is_path_suffix:
  "is_path e b (as @ x # bs) c \<Longrightarrow> is_path e x (x # bs) c"
  by (induction as arbitrary: b) auto

lemma is_chain_distinct: "is_chain e b xs \<Longrightarrow> distinct xs"
  unfolding is_chain_def
proof (induction xs arbitrary: b)
  case Nil
  then show ?case by simp
next
  case (Cons x xs)
  have "x \<notin> set xs"
  proof
    assume "x \<in> set xs"
    then obtain as bs where xs: "xs = as @ x # bs" by (meson split_list)
    with Cons.prems have "is_path e x (x # bs) NULL_PTR"
      using is_path_suffix [of e b "x # as" x bs NULL_PTR] by simp
    moreover from Cons.prems have "is_path e x (x # xs) NULL_PTR" by simp
    ultimately have "x # bs = x # xs" by (rule is_path_deterministic)
    with xs show False by simp
  qed
  with Cons show ?case by auto
qed

lemma is_chain_take:
  assumes "is_chain e b xs" "n \<le> length xs"
  shows "\<exists>c. is_path e b (take n xs) c \<and> distinct (take n xs)"
proof -
  have "is_path e b (take n xs @ drop n xs) NULL_PTR"
    using assms(1) by (simp add: is_chain_def)
  then obtain c where "is_path e b (take n xs) c"
    unfolding is_path_append by blast
  moreover have "distinct (take n xs)"
    using is_chain_distinct [OF assms(1)] by (rule distinct_take)
  ultimately show ?thesis by blast
qed

lemma is_path_hd: "is_path e b xs c \<Longrightarrow> xs \<noteq> [] \<Longrightarrow> b = hd xs \<and> in_pool (hd xs)"
  by (cases xs) auto

lemma is_path_terminate:
  "is_path e b xs c \<Longrightarrow> xs \<noteq> [] \<Longrightarrow> distinct xs \<Longrightarrow>
   (\<And>x. x \<in> set (butlast xs) \<Longrightarrow> blk_next e' x = blk_next e x) \<Longrightarrow>
   blk_next e' (last xs) = NULL_PTR \<Longrightarrow> is_chain e' b xs"
  unfolding is_chain_def
proof (induction xs arbitrary: b)
  case Nil
  then show ?case by simp
next
  case (Cons x xs)
  show ?case
  proof (cases "xs = []")
    case True
    with Cons.prems show ?thesis by simp
  next
    case False
    with Cons.prems have "blk_next e' x = blk_next e x" by simp
    moreover have "is_path e' (blk_next e x) xs NULL_PTR"
      using Cons.prems False by (intro Cons.IH) auto
    ultimately show ?thesis using Cons.prems by simp
  qed
qed

lemma write_blocks_ok:
  fixes fh :: file_handle_t and s :: fs_state and sz :: nat
  defines "used \<equiv> fa_filesize (alloc_table s (fh_filename fh)) div EEPROM_FS_BLOCK_DATA_SIZE"
  defines "too_large \<equiv> (used + sz div EEPROM_FS_BLOCK_DATA_SIZE) mod 65536 > EEPROM_FS_MAX_BLOCKS_PER_FILE"
  defines "n \<equiv> (if too_large then (EEPROM_FS_MAX_BLOCKS_PER_FILE + 65536 - used) mod 65536
                 else (sz div EEPROM_FS_BLOCK_DATA_SIZE + 1) mod 65536)"
  assumes path: "is_path (eeprom s) (next_free_block s) xs c" and len: "length xs = n" and pos: "n > 0"
  shows "\<exists>s'. write_blocks fh data sz block0 s
            = (fh\<lparr>fh_first_block := hd xs, fh_last_block := last xs,
                  fh_filesize := (if sz > (n * EEPROM_FS_BLOCK_DATA_SIZE) mod 65536
                                  then (n * EEPROM_FS_BLOCK_DATA_SIZE) mod 65536 else sz)\<rparr>, s')
          \<and> alloc_table s' = (alloc_table s)(EEPROM_FS_MAX_FILES :=
                (alloc_table s EEPROM_FS_MAX_FILES)\<lparr>fa_data_block := c\<rparr>)
          \<and> next_free_block s' = c
          \<and> debug_level s' = debug_level s
          \<and> errors_of s' = errors_of s @
                (if too_large then [(0, ''File too large - write truncated to %d bytes.\<newline>'',
                                     [int ((n * EEPROM_FS_BLOCK_DATA_SIZE) mod 65536)])] else [])
          \<and> (\<forall>a<130. eeprom s' a = eeprom s a)
          \<and> (\<forall>b. in_pool b \<longrightarrow> blk_next (eeprom s') b = blk_next (eeprom s) b)
          \<and> (\<forall>b. in_pool b \<longrightarrow> b \<notin> set xs \<longrightarrow> blk_data (eeprom s') b = blk_data (eeprom s) b)"
proof -
  define s2 where "s2 = (if too_large
             then fs_error ''File too large - write truncated to %d bytes.\<newline>''
                    [int ((n * EEPROM_FS_BLOCK_DATA_SIZE) mod 65536)]
                    (fs_debug1 ''Writing %d bytes to file %d.\<newline>'' [int sz, int (fh_filename fh)] s)
             else fs_debug1 ''Writing %d bytes to file %d.\<newline>'' [int sz, int (fh_filename fh)] s)"
  define fh1 where "fh1 = fh\<lparr>fh_first_block := next_free_block s2\<rparr>"
  have unfold: "write_blocks fh data sz block0 s =
     (if n > 0 then
        (case fold (write_one_block data sz) [0..<n] (block0, EEPROM_FS_BLOCK_DATA_SIZE, fh1, s2) of
           (blk, num_bytes, fh2, s3) \<Rightarrow>
             (fh2\<lparr>fh_filesize := (if sz > (n * EEPROM_FS_BLOCK_DATA_SIZE) mod 65536
                                  then (n * EEPROM_FS_BLOCK_DATA_SIZE) mod 65536 else sz)\<rparr>,
              fs_debug1 ''File %d successfully written.\<newline>'' [int (fh_filename fh)] s3))
      else (fh, fs_error ''No more space available for file %d.\<newline>'' [int (fh_filename fh)] s2))"
    unfolding write_blocks_def Let_def fh1_def s2_def n_def too_large_def used_def
    by (simp only: fs_debug_frame)
  have s2: "alloc_table s2 = alloc_table s" "eeprom s2 = eeprom s" "debug_level s2 = debug_level s"
    "next_free_block s2 = next_free_block s"
    "errors_of s2 = errors_of s @
                (if too_large then [(0, ''File too large - write truncated to %d bytes.\<newline>'',
                                     [int ((n * EEPROM_FS_BLOCK_DATA_SIZE) mod 65536)])] else [])"
    by (simp_all add: s2_def)
  have xs: "xs \<noteq> []" using len pos by auto
  have path2: "is_path (eeprom s2) (next_free_block s2) xs c"
    using path by (simp add: s2)
  from write_blocks_path [OF path2, of data sz 0 block0 EEPROM_FS_BLOCK_DATA_SIZE fh1] xs
  obtain blk' nb' s' where s':
    "fold (write_one_block data sz) [0..<length xs] (block0, EEPROM_FS_BLOCK_DATA_SIZE, fh1, s2)
       = (blk', nb', fh1\<lparr>fh_last_block := last xs\<rparr>, s')"
    "alloc_table s' = (alloc_table s2)(EEPROM_FS_MAX_FILES :=
        (alloc_table s2 EEPROM_FS_MAX_FILES)\<lparr>fa_data_block := c\<rparr>)"
    "next_free_block s' = c" "debug_level s' = debug_level s2" "errors_of s' = errors_of s2"
    "\<forall>a<130. eeprom s' a = eeprom s2 a"
    "\<forall>b. in_pool b \<longrightarrow> blk_next (eeprom s') b = blk_next (eeprom s2) b"
    "\<forall>b. in_pool b \<longrightarrow> b \<notin> set xs \<longrightarrow> blk_data (eeprom s') b = blk_data (eeprom s2) b"
    by auto
  have hd: "fh1 = fh\<lparr>fh_first_block := hd xs\<rparr>"
    using is_path_hd [OF path2 xs] by (simp add: fh1_def)
  have "write_blocks fh data sz block0 s
          = (fh\<lparr>fh_first_block := hd xs, fh_last_block := last xs,
                fh_filesize := (if sz > (n * EEPROM_FS_BLOCK_DATA_SIZE) mod 65536
                                then (n * EEPROM_FS_BLOCK_DATA_SIZE) mod 65536 else sz)\<rparr>,
             fs_debug1 ''File %d successfully written.\<newline>'' [int (fh_filename fh)] s')"
    unfolding unfold using pos s'(1) [unfolded len] by (simp add: hd)
  then show ?thesis
    using s'(2-8) by (simp add: s2)
qed

lemma append_merge_WRITE:
  "fh_type fh = FH_WRITE \<Longrightarrow> append_merge fh data sz tw s = Some (data, sz, s)"
  by (simp add: append_merge_def)

lemma fs_write_WRITE:
  "fh_type fh = FH_WRITE \<Longrightarrow> fs_write fh data sz tw blk s = Some (write_blocks fh data sz blk s)"
  by (simp add: fs_write_def append_merge_WRITE)

lemma link_ok:
  assumes "in_pool (fh_first_block fh)"
  shows "alloc_table (link fh s)
           = (alloc_table s)(fh_filename fh mod EEPROM_FS_MAX_FILES :=
                \<lparr>fa_filesize = fh_filesize fh, fa_data_block = fh_first_block fh\<rparr>)"
    and "eeprom (link fh s)
           = eeprom_write_block (enc_file_alloc (alloc_table s EEPROM_FS_MAX_FILES))
               (alloc_entry_addr EEPROM_FS_MAX_FILES)
               (eeprom_write_block
                  (enc_file_alloc \<lparr>fa_filesize = fh_filesize fh, fa_data_block = fh_first_block fh\<rparr>)
                  (alloc_entry_addr (fh_filename fh mod EEPROM_FS_MAX_FILES)) (eeprom s))"
    and "debug_level (link fh s) = debug_level s"
    and "errors_of (link fh s) = errors_of s"
    and "next_free_block (link fh s) = next_free_block s"
proof -
  have ne: "fh_filename fh mod EEPROM_FS_MAX_FILES \<noteq> EEPROM_FS_MAX_FILES"
    using mod_less_divisor [of EEPROM_FS_MAX_FILES "fh_filename fh"]
    by (simp add: EEPROM_FS_MAX_FILES_def)
  show "alloc_table (link fh s)
           = (alloc_table s)(fh_filename fh mod EEPROM_FS_MAX_FILES :=
                \<lparr>fa_filesize = fh_filesize fh, fa_data_block = fh_first_block fh\<rparr>)"
    "eeprom (link fh s)
           = eeprom_write_block (enc_file_alloc (alloc_table s EEPROM_FS_MAX_FILES))
               (alloc_entry_addr EEPROM_FS_MAX_FILES)
               (eeprom_write_block
                  (enc_file_alloc \<lparr>fa_filesize = fh_filesize fh, fa_data_block = fh_first_block fh\<rparr>)
                  (alloc_entry_addr (fh_filename fh mod EEPROM_FS_MAX_FILES)) (eeprom s))"
    "debug_level (link fh s) = debug_level s"
    "errors_of (link fh s) = errors_of s"
    "next_free_block (link fh s) = next_free_block s"
    using assms ne
    by (simp_all add: link_def Let_def eeprom_update_block_eq_write next_free_block_def)
qed

lemma link_pool:
  assumes "in_pool (fh_first_block fh)" "in_pool b"
  shows "blk_next (eeprom (link fh s)) b = blk_next (eeprom s) b"
    and "blk_data (eeprom (link fh s)) b = blk_data (eeprom s) b"
proof -
  have a: "alloc_entry_addr EEPROM_FS_MAX_FILES + 4 \<le> 130"
    "alloc_entry_addr (fh_filename fh mod EEPROM_FS_MAX_FILES) + 4 \<le> 130"
    using mod_less_divisor [of EEPROM_FS_MAX_FILES "fh_filename fh"]
    by (simp_all add: alloc_entry_addr_val cfg_defs)
  show "blk_next (eeprom (link fh s)) b = blk_next (eeprom s) b"
    using a assms by (simp add: link_ok(2) blk_next_table_write)
  show "blk_data (eeprom (link fh s)) b = blk_data (eeprom s) b"
    using a assms by (simp add: link_ok(2) blk_data_table_write)
qed

lemma close_not_append:
  assumes "fh_type fh \<noteq> FH_APPEND" "in_pool (fh_first_block fh)" "in_pool (fh_last_block fh)"
  shows "\<exists>s'. close fh s = Some (fh, s')
          \<and> alloc_table s' = (alloc_table s)(fh_filename fh mod EEPROM_FS_MAX_FILES :=
                \<lparr>fa_filesize = fh_filesize fh, fa_data_block = fh_first_block fh\<rparr>)
          \<and> next_free_block s' = next_free_block s
          \<and> debug_level s' = debug_level s
          \<and> errors_of s' = errors_of s
          \<and> blk_next (eeprom s') (fh_last_block fh) = NULL_PTR
          \<and> (\<forall>b. in_pool b \<longrightarrow> b \<noteq> fh_last_block fh \<longrightarrow> blk_next (eeprom s') b = blk_next (eeprom s) b)
          \<and> (\<forall>b. in_pool b \<longrightarrow> blk_data (eeprom s') b = blk_data (eeprom s) b)"
proof -
  let ?s0 = "fs_debug1 ''Finalising file %d.\<newline>'' [int (fh_filename fh)] s"
  let ?s2 = "fs_debug2 ''Marking end of file %d.\<newline>'' [int (fh_filename fh)] (link fh ?s0)"
  let ?s3 = "relink (fh_last_block fh) NULL_PTR ?s2"
  have c: "close fh s = Some (fh, fs_debug1 ''File %d successfully finalised.\<newline>'' [int (fh_filename fh)] ?s3)"
    using assms(1) by (simp add: close_def close_link_def Let_def)
  have nul: "NULL_PTR \<le> NULL_PTR" "NULL_PTR < int EEPROM_FS_NUM_BLOCKS"
    by (simp_all add: cfg_defs)
  have n1: "blk_next (eeprom ?s3) (fh_last_block fh) = NULL_PTR"
    using assms(3) nul by (rule blk_next_relink_same)
  have n2: "\<And>b. in_pool b \<Longrightarrow> b \<noteq> fh_last_block fh \<Longrightarrow> blk_next (eeprom ?s3) b = blk_next (eeprom s) b"
    using assms by (simp add: blk_next_relink_other link_pool)
  have d: "\<And>b. in_pool b \<Longrightarrow> blk_data (eeprom ?s3) b = blk_data (eeprom s) b"
    using assms by (simp add: blk_data_relink link_pool)
  show ?thesis
    unfolding c using n1 n2 d assms(2,3) nul
    by (simp add: link_ok relink_errors)
qed

lemma link_stored:
  assumes "in_pool (fh_first_block fh)" "fh_filesize fh < 65536"
  shows "stored_alloc (eeprom (link fh s)) (fh_filename fh mod EEPROM_FS_MAX_FILES)
           = \<lparr>fa_filesize = fh_filesize fh, fa_data_block = fh_first_block fh\<rparr>"
proof -
  let ?f = "fh_filename fh mod EEPROM_FS_MAX_FILES"
  have f: "?f < EEPROM_FS_MAX_FILES"
    using mod_less_divisor [of EEPROM_FS_MAX_FILES "fh_filename fh"] by (simp add: cfg_defs)
  have rng: "- 32768 \<le> fh_first_block fh" "fh_first_block fh < 32768"
    using in_poolD [OF assms(1)] by simp_all
  have "stored_alloc (eeprom (link fh s)) ?f
          = stored_alloc (eeprom_write_block
                  (enc_file_alloc \<lparr>fa_filesize = fh_filesize fh, fa_data_block = fh_first_block fh\<rparr>)
                  (alloc_entry_addr ?f) (eeprom s)) ?f"
    unfolding link_ok(2) [OF assms(1)]
    using f by (intro stored_alloc_entry_write_other) simp_all
  also have "\<dots> = \<lparr>fa_filesize = fh_filesize fh, fa_data_block = fh_first_block fh\<rparr>"
    using assms(2) rng by (intro stored_alloc_write_same) simp_all
  finally show ?thesis .
qed

lemma relink_stored:
  "i \<le> EEPROM_FS_MAX_FILES \<Longrightarrow> stored_alloc (eeprom (relink b t s)) i = stored_alloc (eeprom s) i"
  by (cases "in_pool b \<and> NULL_PTR \<le> t \<and> t < int EEPROM_FS_NUM_BLOCKS")
     (auto simp: relink_eeprom stored_alloc_pool_write get_block_pointer_ge relink_def)

lemma close_not_append_stored:
  assumes "fh_type fh \<noteq> FH_APPEND" "in_pool (fh_first_block fh)" "fh_filesize fh < 65536"
    "close fh s = Some (fh', s')"
  shows "stored_alloc (eeprom s') (fh_filename fh mod EEPROM_FS_MAX_FILES)
           = \<lparr>fa_filesize = fh_filesize fh, fa_data_block = fh_first_block fh\<rparr>"
proof -
  have f: "fh_filename fh mod EEPROM_FS_MAX_FILES \<le> EEPROM_FS_MAX_FILES"
    using mod_less_divisor [of EEPROM_FS_MAX_FILES "fh_filename fh"] by (simp add: cfg_defs)
  show ?thesis
    using assms(1,4) link_stored [OF assms(2,3)] f
    by (auto simp: close_def close_link_def Let_def relink_stored)
qed

lemma write_file_ok:
  assumes name: "name < EEPROM_FS_MAX_FILES"
    and used: "used = fa_filesize (alloc_table s name) div EEPROM_FS_BLOCK_DATA_SIZE"
    and large: "too_large = ((used + sz div EEPROM_FS_BLOCK_DATA_SIZE) mod 65536 > EEPROM_FS_MAX_BLOCKS_PER_FILE)"
    and n: "n = (if too_large then (EEPROM_FS_MAX_BLOCKS_PER_FILE + 65536 - used) mod 65536
                 else (sz div EEPROM_FS_BLOCK_DATA_SIZE + 1) mod 65536)"
    and fsz: "fsz = (if sz > (n * EEPROM_FS_BLOCK_DATA_SIZE) mod 65536
                     then (n * EEPROM_FS_BLOCK_DATA_SIZE) mod 65536 else sz)"
    and path: "is_path (eeprom s) (next_free_block s) xs c" and dist: "distinct xs"
    and len: "length xs = n" and pos: "n > 0" and small: "sz < 65536"
  shows "\<exists>s'. write_file name data sz tw blk s = Some s'
          \<and> alloc_table s' = (alloc_table s)
                (EEPROM_FS_MAX_FILES := (alloc_table s EEPROM_FS_MAX_FILES)\<lparr>fa_data_block := c\<rparr>,
                 name := \<lparr>fa_filesize = fsz, fa_data_block = hd xs\<rparr>)
          \<and> next_free_block s' = c
          \<and> debug_level s' = debug_level s
          \<and> errors_of s' = errors_of s @
                (if too_large then [(0, ''File too large - write truncated to %d bytes.\<newline>'',
                                     [int ((n * EEPROM_FS_BLOCK_DATA_SIZE) mod 65536)])] else [])
          \<and> stored_alloc (eeprom s') name = \<lparr>fa_filesize = fsz, fa_data_block = hd xs\<rparr>
          \<and> is_chain (eeprom s') (hd xs) xs
          \<and> (\<forall>b. in_pool b \<longrightarrow> b \<noteq> last xs \<longrightarrow> blk_next (eeprom s') b = blk_next (eeprom s) b)
          \<and> (\<forall>b. in_pool b \<longrightarrow> b \<notin> set xs \<longrightarrow> blk_data (eeprom s') b = blk_data (eeprom s) b)"
proof -
  obtain fh s1 where o: "open_for_write name s = (fh, s1)"
    by (cases "open_for_write name s")
  have fh: "fh = \<lparr>fh_filename = name, fh_filesize = 0, fh_type = FH_WRITE,
                  fh_first_block = NULL_PTR, fh_last_block = NULL_PTR\<rparr>"
    using open_for_write_handle [of name s] name by (simp add: o)
  have s1: "alloc_table s1 = alloc_table s" "eeprom s1 = eeprom s" "debug_level s1 = debug_level s"
    "errors_of s1 = errors_of s" "next_free_block s1 = next_free_block s"
    using open_for_write_frame [of name s] by (simp_all add: o next_free_block_def)
  have xs: "xs \<noteq> []" using len pos by auto
  have path1: "is_path (eeprom s1) (next_free_block s1) xs c" using path by (simp add: s1)
  have len1: "length xs = (if (fa_filesize (alloc_table s1 (fh_filename fh)) div EEPROM_FS_BLOCK_DATA_SIZE
                   + sz div EEPROM_FS_BLOCK_DATA_SIZE) mod 65536 > EEPROM_FS_MAX_BLOCKS_PER_FILE
               then (EEPROM_FS_MAX_BLOCKS_PER_FILE + 65536
                      - fa_filesize (alloc_table s1 (fh_filename fh)) div EEPROM_FS_BLOCK_DATA_SIZE) mod 65536
               else (sz div EEPROM_FS_BLOCK_DATA_SIZE + 1) mod 65536)"
    using len n large used by (simp add: s1 fh)
  from write_blocks_ok [OF path1 len1, of data blk] pos len
  obtain s2 where s2:
    "write_blocks fh data sz blk s1
       = (fh\<lparr>fh_first_block := hd xs, fh_last_block := last xs, fh_filesize := fsz\<rparr>, s2)"
    "alloc_table s2 = (alloc_table s1)(EEPROM_FS_MAX_FILES :=
        (alloc_table s1 EEPROM_FS_MAX_FILES)\<lparr>fa_data_block := c\<rparr>)"
    "next_free_block s2 = c" "debug_level s2 = debug_level s1"
    "errors_of s2 = errors_of s1 @
                (if too_large then [(0, ''File too large - write truncated to %d bytes.\<newline>'',
                                     [int ((n * EEPROM_FS_BLOCK_DATA_SIZE) mod 65536)])] else [])"
    "\<forall>b. in_pool b \<longrightarrow> blk_next (eeprom s2) b = blk_next (eeprom s1) b"
    "\<forall>b. in_pool b \<longrightarrow> b \<notin> set xs \<longrightarrow> blk_data (eeprom s2) b = blk_data (eeprom s1) b"
    unfolding len1 [symmetric] using fsz large used by (auto simp: s1 fh)
  let ?fh2 = "fh\<lparr>fh_first_block := hd xs, fh_last_block := last xs, fh_filesize := fsz\<rparr>"
  have w: "fs_write fh data sz tw blk s1 = Some (?fh2, s2)"
    using s2(1) by (simp add: fs_write_WRITE fh)
  have pools: "in_pool (hd xs)" "in_pool (last xs)"
    using is_path_hd [OF path xs] is_path_in_pool [OF path, of "last xs"] xs by simp_all
  have t2: "fh_type ?fh2 \<noteq> FH_APPEND" "in_pool (fh_first_block ?fh2)" "in_pool (fh_last_block ?fh2)"
    using pools by (simp_all add: fh)
  from close_not_append [OF t2, of s2]
  obtain s3 where s3:
    "close ?fh2 s2 = Some (?fh2, s3)"
    "alloc_table s3 = (alloc_table s2)(name := \<lparr>fa_filesize = fsz, fa_data_block = hd xs\<rparr>)"
    "next_free_block s3 = next_free_block s2" "debug_level s3 = debug_level s2"
    "errors_of s3 = errors_of s2"
    "blk_next (eeprom s3) (last xs) = NULL_PTR"
    "\<forall>b. in_pool b \<longrightarrow> b \<noteq> last xs \<longrightarrow> blk_next (eeprom s3) b = blk_next (eeprom s2) b"
    "\<forall>b. in_pool b \<longrightarrow> blk_data (eeprom s3) b = blk_data (eeprom s2) b"
    using name by (auto simp: fh)
  have fsz_small: "fsz < 65536" using small fsz by auto
  have st: "stored_alloc (eeprom s3) name = \<lparr>fa_filesize = fsz, fa_data_block = hd xs\<rparr>"
    using close_not_append_stored [OF t2(1,2) _ s3(1)] fsz_small name by (simp add: fh)
  have chain: "is_chain (eeprom s3) (hd xs) xs"
  proof (rule is_path_terminate [OF _ xs dist])
    show "is_path (eeprom s) (hd xs) xs c" using path is_path_hd [OF path xs] by simp
    show "blk_next (eeprom s3) (last xs) = NULL_PTR" by (rule s3(6))
    fix x assume x: "x \<in> set (butlast xs)"
    then have "x \<in> set xs" by (rule in_set_butlastD)
    then have "in_pool x" using is_path_in_pool [OF path] by blast
    moreover have "x \<noteq> last xs"
      using x dist xs by (metis append_butlast_last_id distinct_butlast not_distinct_conv_prefix
          distinct_append disjoint_iff list.set_intros(1))
    ultimately show "blk_next (eeprom s3) x = blk_next (eeprom s) x"
      using s3(7) s2(6) by (simp add: s1)
  qed
  have "write_file name data sz tw blk s = Some s3"
    by (simp add: write_file_def o w s3(1))
  then show ?thesis
    using s3(2-5,7,8) s2(2-7) st chain
    by (intro exI [of _ s3]) (simp add: s1)
qed

lemma countdown_path:
  assumes "\<And>x. in_pool x \<Longrightarrow> blk_next e x = x - 1"
  shows "(\<And>i. i < k \<Longrightarrow> in_pool (b - int i)) \<Longrightarrow>
         is_path e b (map (\<lambda>i. b - int i) [0..<k]) (b - int k)"
proof (induction k arbitrary: b)
  case 0
  then show ?case by simp
next
  case (Suc k)
  have b: "in_pool b" using Suc.prems [of 0] by simp
  have nb: "blk_next e b = b - 1" by (rule assms [OF b])
  have "\<And>i. i < k \<Longrightarrow> in_pool (b - 1 - int i)"
    using Suc.prems [of "Suc _"] by (simp add: algebra_simps)
  from Suc.IH [OF this] have IH: "is_path e (b - 1) (map (\<lambda>i. b - 1 - int i) [0..<k]) (b - 1 - int k)" .
  have m: "map (\<lambda>i. b - int i) [0..<Suc k] = b # map (\<lambda>i. b - 1 - int i) [0..<k]"
    by (simp add: upt_conv_Cons map_Suc_upt [symmetric] del: upt_Suc)
  have e: "b - int (Suc k) = b - 1 - int k" by simp
  show ?case
    unfolding m e using b IH by (simp add: nb)
qed

lemma distinct_countdown: "distinct (map (\<lambda>i. b - int i) [0..<k])"
  by (simp add: distinct_map inj_on_def)

lemma formatted_path:
  assumes "k \<le> 59"
  shows "is_path (eeprom (format_eepromfs f s)) 58 (map (\<lambda>i. 58 - int i) [0..<k]) (58 - int k)"
proof (rule countdown_path)
  show "\<And>x. in_pool x \<Longrightarrow> blk_next (eeprom (format_eepromfs f s)) x = x - 1"
    by (rule format_eepromfs_next)
  show "\<And>i. i < k \<Longrightarrow> in_pool (58 - int i)"
    using assms by (simp add: in_pool_def cfg_defs)
qed

lemma formatted_next_free [simp]: "next_free_block (format_eepromfs f s) = 58"
  by (simp add: next_free_block_def format_eepromfs_table formatted_table_def cfg_defs)

lemma formatted_file_size:
  "i < EEPROM_FS_MAX_FILES \<Longrightarrow> fa_filesize (alloc_table (format_eepromfs f s) i) = 0"
  by (simp add: format_null_entry)

lemma fresh_fields [simp]:
  "next_free_block fresh = 58" "errors_of fresh = []" "debug_level fresh = 0"
  by (simp_all add: fresh_def)

lemma fresh_entry:
  "i < EEPROM_FS_MAX_FILES \<Longrightarrow> alloc_table fresh i = \<lparr>fa_filesize = 0, fa_data_block = NULL_PTR\<rparr>"
  by (simp add: fresh_def format_null_entry)

lemma fresh_path:
  "k \<le> 59 \<Longrightarrow> is_path (eeprom fresh) 58 (map (\<lambda>i. 58 - int i) [0..<k]) (58 - int k)"
  unfolding fresh_def by (rule formatted_path)

lemma fresh_next: "in_pool b \<Longrightarrow> blk_next (eeprom fresh) b = b - 1"
  unfolding fresh_def by (rule format_eepromfs_next)

lemma write_file_plain:
  assumes name: "name < EEPROM_FS_MAX_FILES"
    and fits: "fa_filesize (alloc_table s name) div EEPROM_FS_BLOCK_DATA_SIZE
                 + sz div EEPROM_FS_BLOCK_DATA_SIZE \<le> EEPROM_FS_MAX_BLOCKS_PER_FILE"
    and path: "is_path (eeprom s) (next_free_block s) xs c" and dist: "distinct xs"
    and len: "length xs = sz div EEPROM_FS_BLOCK_DATA_SIZE + 1"
  shows "\<exists>s'. write_file name data sz tw blk s = Some s'
          \<and> alloc_table s' = (alloc_table s)
                (EEPROM_FS_MAX_FILES := (alloc_table s EEPROM_FS_MAX_FILES)\<lparr>fa_data_block := c\<rparr>,
                 name := \<lparr>fa_filesize = sz, fa_data_block = hd xs\<rparr>)
          \<and> next_free_block s' = c
          \<and> debug_level s' = debug_level s
          \<and> errors_of s' = errors_of s
          \<and> stored_alloc (eeprom s') name = \<lparr>fa_filesize = sz, fa_data_block = hd xs\<rparr>
          \<and> is_chain (eeprom s') (hd xs) xs
          \<and> (\<forall>b. in_pool b \<longrightarrow> b \<noteq> last xs \<longrightarrow> blk_next (eeprom s') b = blk_next (eeprom s) b)
          \<and> (\<forall>b. in_pool b \<longrightarrow> b \<notin> set xs \<longrightarrow> blk_data (eeprom s') b = blk_data (eeprom s) b)"
proof -
  let ?used = "fa_filesize (alloc_table s name) div EEPROM_FS_BLOCK_DATA_SIZE"
  have d: "sz div 30 \<le> 8" "?used + sz div 30 \<le> 8" using fits by (simp_all add: cfg_defs)
  then have sz: "sz < 270" by linarith
  have l: "False = ((?used + sz div EEPROM_FS_BLOCK_DATA_SIZE) mod 65536 > EEPROM_FS_MAX_BLOCKS_PER_FILE)"
    using d by (simp add: cfg_defs)
  have n: "sz div EEPROM_FS_BLOCK_DATA_SIZE + 1
             = (if False then (EEPROM_FS_MAX_BLOCKS_PER_FILE + 65536 - ?used) mod 65536
                else (sz div EEPROM_FS_BLOCK_DATA_SIZE + 1) mod 65536)"
    using d by (simp add: cfg_defs)
  have "sz < (sz div 30 + 1) * 30"
    using dividend_less_div_times [of 30 sz] by simp
  then have f: "sz = (if sz > ((sz div EEPROM_FS_BLOCK_DATA_SIZE + 1) * EEPROM_FS_BLOCK_DATA_SIZE) mod 65536
                      then ((sz div EEPROM_FS_BLOCK_DATA_SIZE + 1) * EEPROM_FS_BLOCK_DATA_SIZE) mod 65536
                      else sz)"
    using d by (simp add: cfg_defs)
  from write_file_ok [OF name refl l n f path dist len, of data tw blk] sz
  show ?thesis by simp
qed

lemma write_file_truncated:
  assumes name: "name < EEPROM_FS_MAX_FILES"
    and used: "used = fa_filesize (alloc_table s name) div EEPROM_FS_BLOCK_DATA_SIZE"
    and over: "EEPROM_FS_MAX_BLOCKS_PER_FILE < used + sz div EEPROM_FS_BLOCK_DATA_SIZE"
    and room: "used < EEPROM_FS_MAX_BLOCKS_PER_FILE" and small: "sz < 65536"
    and path: "is_path (eeprom s) (next_free_block s) xs c" and dist: "distinct xs"
    and len: "length xs = EEPROM_FS_MAX_BLOCKS_PER_FILE - used"
  shows "\<exists>s'. write_file name data sz tw blk s = Some s'
          \<and> alloc_table s' = (alloc_table s)
                (EEPROM_FS_MAX_FILES := (alloc_table s EEPROM_FS_MAX_FILES)\<lparr>fa_data_block := c\<rparr>,
                 name := \<lparr>fa_filesize = (EEPROM_FS_MAX_BLOCKS_PER_FILE - used) * EEPROM_FS_BLOCK_DATA_SIZE,
                          fa_data_block = hd xs\<rparr>)
          \<and> next_free_block s' = c
          \<and> debug_level s' = debug_level s
          \<and> errors_of s' = errors_of s @
                [(0, ''File too large - write truncated to %d bytes.\<newline>'',
                  [int ((EEPROM_FS_MAX_BLOCKS_PER_FILE - used) * EEPROM_FS_BLOCK_DATA_SIZE)])]
          \<and> stored_alloc (eeprom s') name
               = \<lparr>fa_filesize = (EEPROM_FS_MAX_BLOCKS_PER_FILE - used) * EEPROM_FS_BLOCK_DATA_SIZE,
                  fa_data_block = hd xs\<rparr>
          \<and> is_chain (eeprom s') (hd xs) xs
          \<and> (\<forall>b. in_pool b \<longrightarrow> b \<noteq> last xs \<longrightarrow> blk_next (eeprom s') b = blk_next (eeprom s) b)
          \<and> (\<forall>b. in_pool b \<longrightarrow> b \<notin> set xs \<longrightarrow> blk_data (eeprom s') b = blk_data (eeprom s) b)"
proof -
  have u: "used < 8" "8 < used + sz div 30" using room over by (simp_all add: cfg_defs)
  have "sz div 30 < 2185" using small by simp
  then have l: "True = ((used + sz div EEPROM_FS_BLOCK_DATA_SIZE) mod 65536 > EEPROM_FS_MAX_BLOCKS_PER_FILE)"
    using u by (simp add: cfg_defs)
  have a: "65544 - used = (8 - used) + 65536" using u(1) by linarith
  have "(65544 - used) mod 65536 = 8 - used" unfolding a by simp
  then have n: "EEPROM_FS_MAX_BLOCKS_PER_FILE - used
             = (if True then (EEPROM_FS_MAX_BLOCKS_PER_FILE + 65536 - used) mod 65536
                else (sz div EEPROM_FS_BLOCK_DATA_SIZE + 1) mod 65536)"
    by (simp add: cfg_defs)
  have "(8 - used) * 30 < sz"
  proof -
    define q where "q = sz div 30"
    define r where "r = 8 - used"
    have le: "q * 30 \<le> sz" unfolding q_def by simp
    have "used + r = 8" using u(1) by (simp add: r_def)
    moreover have "8 < used + q" using u(2) by (simp add: q_def)
    ultimately have "r * 30 + 30 \<le> q * 30" by linarith
    then have "r * 30 < sz" using le by linarith
    then show ?thesis by (simp add: r_def)
  qed
  then have f: "(EEPROM_FS_MAX_BLOCKS_PER_FILE - used) * EEPROM_FS_BLOCK_DATA_SIZE
                 = (if sz > ((EEPROM_FS_MAX_BLOCKS_PER_FILE - used) * EEPROM_FS_BLOCK_DATA_SIZE) mod 65536
                    then ((EEPROM_FS_MAX_BLOCKS_PER_FILE - used) * EEPROM_FS_BLOCK_DATA_SIZE) mod 65536
                    else sz)"
    using u by (simp add: cfg_defs)
  have pos: "0 < EEPROM_FS_MAX_BLOCKS_PER_FILE - used" using room by simp
  from write_file_ok [OF name used l n f path dist len pos small, of data tw blk] u
  show ?thesis by (simp add: cfg_defs)
qed

text \<open>
  C4 (capacity check), at the claim's own example. On a freshly formatted file system,
  writing 250 bytes to an unused name prints no error, commits the size 250 (in RAM and on
  the medium) and leaves a chain of nine blocks, one more than
  \<open>EEPROM_FS_MAX_BLOCKS_PER_FILE\<close>: the check compares \<open>0 + 250 div 30 = 8\<close> with 8 and
  then allocates \<open>250 div 30 + 1\<close> blocks. The claim says the write reports a truncation
  and commits 240.
\<close>

theorem write_250_not_truncated:
  "\<exists>s'. write_file 3 data 250 tw blk fresh = Some s'
     \<and> alloc_table s' 3 = \<lparr>fa_filesize = 250, fa_data_block = 58\<rparr>
     \<and> stored_alloc (eeprom s') 3 = \<lparr>fa_filesize = 250, fa_data_block = 58\<rparr>
     \<and> errors_of s' = []
     \<and> is_chain (eeprom s') 58 [58, 57, 56, 55, 54, 53, 52, 51, 50]
     \<and> EEPROM_FS_MAX_BLOCKS_PER_FILE < length [58, 57, 56, 55, 54, 53, 52, 51, 50 :: int]"
proof -
  have three: "(3::nat) < EEPROM_FS_MAX_FILES" by (simp add: cfg_defs)
  have xs: "map (\<lambda>i. 58 - int i) [0..<9] = [58, 57, 56, 55, 54, 53, 52, 51, 50]"
    by (simp add: upt_conv_Cons)
  have path: "is_path (eeprom fresh) (next_free_block fresh) [58, 57, 56, 55, 54, 53, 52, 51, 50] 49"
    using fresh_path [of 9] by (simp add: xs del: upt_Suc)
  have fits: "fa_filesize (alloc_table fresh 3) div EEPROM_FS_BLOCK_DATA_SIZE
                 + 250 div EEPROM_FS_BLOCK_DATA_SIZE \<le> EEPROM_FS_MAX_BLOCKS_PER_FILE"
    by (simp add: fresh_entry [OF three] cfg_defs)
  have "\<exists>s'. write_file 3 data 250 tw blk fresh = Some s'
          \<and> alloc_table s' = (alloc_table fresh)
                (EEPROM_FS_MAX_FILES := (alloc_table fresh EEPROM_FS_MAX_FILES)\<lparr>fa_data_block := 49\<rparr>,
                 3 := \<lparr>fa_filesize = 250, fa_data_block = hd [58, 57, 56, 55, 54, 53, 52, 51, 50]\<rparr>)
          \<and> next_free_block s' = 49
          \<and> debug_level s' = debug_level fresh
          \<and> errors_of s' = errors_of fresh
          \<and> stored_alloc (eeprom s') 3
               = \<lparr>fa_filesize = 250, fa_data_block = hd [58, 57, 56, 55, 54, 53, 52, 51, 50]\<rparr>
          \<and> is_chain (eeprom s') (hd [58, 57, 56, 55, 54, 53, 52, 51, 50]) [58, 57, 56, 55, 54, 53, 52, 51, 50]
          \<and> (\<forall>b. in_pool b \<longrightarrow> b \<noteq> last [58, 57, 56, 55, 54, 53, 52, 51, 50] \<longrightarrow>
                 blk_next (eeprom s') b = blk_next (eeprom fresh) b)
          \<and> (\<forall>b. in_pool b \<longrightarrow> b \<notin> set [58, 57, 56, 55, 54, 53, 52, 51, 50] \<longrightarrow>
                 blk_data (eeprom s') b = blk_data (eeprom fresh) b)"
    by (rule write_file_plain [OF three fits path]) (simp_all add: cfg_defs)
  then obtain s' where "write_file 3 data 250 tw blk fresh = Some s'"
    "alloc_table s' 3 = \<lparr>fa_filesize = 250, fa_data_block = 58\<rparr>"
    "errors_of s' = []"
    "stored_alloc (eeprom s') 3 = \<lparr>fa_filesize = 250, fa_data_block = 58\<rparr>"
    "is_chain (eeprom s') 58 [58, 57, 56, 55, 54, 53, 52, 51, 50]"
    by auto
  then show ?thesis
    by (intro exI [of _ s']) (simp add: cfg_defs)
qed

lemma is_chain_last_next: "is_chain e b xs \<Longrightarrow> xs \<noteq> [] \<Longrightarrow> blk_next e (last xs) = NULL_PTR"
  unfolding is_chain_def by (induction xs arbitrary: b) (auto split: if_splits)

lemma is_chain_deterministic: "is_chain e b xs \<Longrightarrow> is_chain e b ys \<Longrightarrow> xs = ys"
  unfolding is_chain_def by (rule is_path_deterministic)

lemma fresh_chain: "is_chain (eeprom fresh) 58 (map (\<lambda>i. 58 - int i) [0..<59])"
  using fresh_path [of 59] by (simp add: is_chain_def NULL_PTR_def del: upt_Suc)

lemma fresh_write_small:
  assumes "name < EEPROM_FS_MAX_FILES" "sz < 30"
  shows "\<exists>s'. write_file name data sz tw blk fresh = Some s'
           \<and> alloc_table s' name = \<lparr>fa_filesize = sz, fa_data_block = 58\<rparr>
           \<and> is_chain (eeprom s') 58 [58]"
proof -
  have path: "is_path (eeprom fresh) (next_free_block fresh) [58] 57"
    using fresh_path [of 1] by simp
  have fits: "fa_filesize (alloc_table fresh name) div EEPROM_FS_BLOCK_DATA_SIZE
                 + sz div EEPROM_FS_BLOCK_DATA_SIZE \<le> EEPROM_FS_MAX_BLOCKS_PER_FILE"
    using assms by (simp add: fresh_entry cfg_defs)
  have "length [58 :: int] = sz div EEPROM_FS_BLOCK_DATA_SIZE + 1"
    using assms by (simp add: cfg_defs)
  from write_file_plain [OF assms(1) fits path _ this, of data tw blk]
  show ?thesis by auto
qed


text \<open>
  C1 (round trip), at a name that already holds a file. On a freshly formatted file
  system a file of 210 bytes is written to the name 0; then 60 bytes are written to the
  same name through a new \<open>FH_WRITE\<close> handle. The capacity check of \<open>write\<close> counts the
  seven blocks of the old file, allows one block, prints the truncation error and commits
  30 bytes: \<open>open_for_read\<close> then gives the size 30, where the claim says 60.
\<close>

theorem overwrite_is_truncated:
  "\<exists>s1 s2. write_file 0 old_data 210 tw blk fresh = Some s1
     \<and> alloc_table s1 0 = \<lparr>fa_filesize = 210, fa_data_block = 58\<rparr>
     \<and> write_file 0 p 60 tw' blk' s1 = Some s2
     \<and> alloc_table s2 0 = \<lparr>fa_filesize = 30, fa_data_block = 50\<rparr>
     \<and> fh_filesize (fst (open_for_read 0 s2)) = 30
     \<and> errors_of s2 = [(0, ''File too large - write truncated to %d bytes.\<newline>'', [30])]"
proof -
  have zero: "(0::nat) < EEPROM_FS_MAX_FILES" by (simp add: cfg_defs)
  have xs: "map (\<lambda>i. 58 - int i) [0..<8] = [58, 57, 56, 55, 54, 53, 52, 51]"
    by (simp add: upt_conv_Cons)
  have path: "is_path (eeprom fresh) (next_free_block fresh) [58, 57, 56, 55, 54, 53, 52, 51] 50"
    using fresh_path [of 8] by (simp add: xs del: upt_Suc)
  have fits: "fa_filesize (alloc_table fresh 0) div EEPROM_FS_BLOCK_DATA_SIZE
                 + 210 div EEPROM_FS_BLOCK_DATA_SIZE \<le> EEPROM_FS_MAX_BLOCKS_PER_FILE"
    by (simp add: fresh_entry [OF zero] cfg_defs)
  have "\<exists>s'. write_file 0 old_data 210 tw blk fresh = Some s'
          \<and> alloc_table s' = (alloc_table fresh)
                (EEPROM_FS_MAX_FILES := (alloc_table fresh EEPROM_FS_MAX_FILES)\<lparr>fa_data_block := 50\<rparr>,
                 0 := \<lparr>fa_filesize = 210, fa_data_block = hd [58, 57, 56, 55, 54, 53, 52, 51]\<rparr>)
          \<and> next_free_block s' = 50
          \<and> debug_level s' = debug_level fresh
          \<and> errors_of s' = errors_of fresh
          \<and> stored_alloc (eeprom s') 0
               = \<lparr>fa_filesize = 210, fa_data_block = hd [58, 57, 56, 55, 54, 53, 52, 51]\<rparr>
          \<and> is_chain (eeprom s') (hd [58, 57, 56, 55, 54, 53, 52, 51]) [58, 57, 56, 55, 54, 53, 52, 51]
          \<and> (\<forall>b. in_pool b \<longrightarrow> b \<noteq> last [58, 57, 56, 55, 54, 53, 52, 51] \<longrightarrow>
                 blk_next (eeprom s') b = blk_next (eeprom fresh) b)
          \<and> (\<forall>b. in_pool b \<longrightarrow> b \<notin> set [58, 57, 56, 55, 54, 53, 52, 51] \<longrightarrow>
                 blk_data (eeprom s') b = blk_data (eeprom fresh) b)"
    by (rule write_file_plain [OF zero fits path]) (simp_all add: cfg_defs)
  then obtain s1 where s1: "write_file 0 old_data 210 tw blk fresh = Some s1"
    "alloc_table s1 0 = \<lparr>fa_filesize = 210, fa_data_block = 58\<rparr>"
    "next_free_block s1 = 50" "errors_of s1 = []"
    "\<forall>b. in_pool b \<longrightarrow> b \<noteq> 51 \<longrightarrow> blk_next (eeprom s1) b = blk_next (eeprom fresh) b"
    by auto
  have p50: "in_pool 50" by (simp add: in_pool_def cfg_defs)
  have n50: "blk_next (eeprom s1) 50 = 49" using s1(5) p50 by (simp add: fresh_next)
  have path1: "is_path (eeprom s1) (next_free_block s1) [50] 49"
    using p50 n50 by (simp add: s1(3))
  have used: "7 = fa_filesize (alloc_table s1 0) div EEPROM_FS_BLOCK_DATA_SIZE"
    by (simp add: s1(2) cfg_defs)
  have "\<exists>s'. write_file 0 p 60 tw' blk' s1 = Some s'
          \<and> alloc_table s' = (alloc_table s1)
                (EEPROM_FS_MAX_FILES := (alloc_table s1 EEPROM_FS_MAX_FILES)\<lparr>fa_data_block := 49\<rparr>,
                 0 := \<lparr>fa_filesize = (EEPROM_FS_MAX_BLOCKS_PER_FILE - 7) * EEPROM_FS_BLOCK_DATA_SIZE,
                       fa_data_block = hd [50]\<rparr>)
          \<and> next_free_block s' = 49
          \<and> debug_level s' = debug_level s1
          \<and> errors_of s' = errors_of s1 @
                [(0, ''File too large - write truncated to %d bytes.\<newline>'',
                  [int ((EEPROM_FS_MAX_BLOCKS_PER_FILE - 7) * EEPROM_FS_BLOCK_DATA_SIZE)])]
          \<and> stored_alloc (eeprom s') 0
               = \<lparr>fa_filesize = (EEPROM_FS_MAX_BLOCKS_PER_FILE - 7) * EEPROM_FS_BLOCK_DATA_SIZE,
                  fa_data_block = hd [50]\<rparr>
          \<and> is_chain (eeprom s') (hd [50]) [50]
          \<and> (\<forall>b. in_pool b \<longrightarrow> b \<noteq> last [50] \<longrightarrow> blk_next (eeprom s') b = blk_next (eeprom s1) b)
          \<and> (\<forall>b. in_pool b \<longrightarrow> b \<notin> set [50] \<longrightarrow> blk_data (eeprom s') b = blk_data (eeprom s1) b)"
    by (rule write_file_truncated [OF zero used _ _ _ path1]) (simp_all add: cfg_defs)
  then obtain s2 where s2: "write_file 0 p 60 tw' blk' s1 = Some s2"
    "alloc_table s2 0 = \<lparr>fa_filesize = 30, fa_data_block = 50\<rparr>"
    "errors_of s2 = [(0, ''File too large - write truncated to %d bytes.\<newline>'', [30])]"
    by (auto simp: s1(4) cfg_defs)
  show ?thesis
    using s1(1,2) s2 open_for_read_small(1) [OF zero, of s2]
    by (intro exI [of _ s1] exI [of _ s2]) simp
qed

section \<open>Reading a chain\<close>

lemma last_block_loop_frame_aux:
  assumes "last_block_loop b0 s0 = Some y0"
  shows "printed_only s0 (snd y0)"
proof (rule last_block_loop.raw_induct [where P = "\<lambda>b s y. printed_only s (snd y)", OF _ assms], goal_cases)
  case (1 loop nxt s y)
  show ?case
  proof (cases "blk_next (eeprom s) nxt = NULL_PTR")
    case True
    with 1(2) show ?thesis
      by (auto simp: Let_def printed_only_def blk_next_def)
  next
    case False
    with 1(2) have "loop (blk_next (eeprom s) nxt) (fs_debug4 ''checking... %d\<newline>'' [nxt] s) = Some y"
      by (simp add: Let_def blk_next_def)
    from 1(1) [OF this] show ?thesis
      by (simp add: printed_only_def)
  qed
qed

lemma last_block_loop_frame:
  "last_block_loop b s = Some (r, s') \<Longrightarrow> printed_only s s'"
  using last_block_loop_frame_aux [of b s "(r, s')"] by simp

lemma last_block_in_chain_frame:
  assumes "last_block_in_chain b s = Some (r, s')"
  shows "alloc_table s' = alloc_table s" and "eeprom s' = eeprom s"
    and "debug_level s' = debug_level s"
  using assms
  by (auto simp: last_block_in_chain_def printed_only_def split: if_splits option.splits
           dest!: last_block_loop_frame)

lemma read_copy_byte_step:
  "read_copy_byte block i j (buf, s) =
     (buf((i * EEPROM_FS_BLOCK_DATA_SIZE + j) mod 65536 := bdata block ! j),
      fs_debug4 ''buf[%d] = %c\<newline>''
        [int ((i * EEPROM_FS_BLOCK_DATA_SIZE + j) mod 65536), uint (bdata block ! j)] s)"
  by (simp add: read_copy_byte_def Let_def)

lemma read_copy_fold_frame:
  "printed_only s (snd (fold (read_copy_byte block i) js (buf, s)))"
proof (induction js arbitrary: buf s)
  case Nil
  show ?case by (simp add: printed_only_def)
next
  case (Cons j js)
  define s1 where "s1 = fs_debug4 ''buf[%d] = %c\<newline>''
        [int ((i * EEPROM_FS_BLOCK_DATA_SIZE + j) mod 65536), uint (bdata block ! j)] s"
  define buf1 where "buf1 = buf((i * EEPROM_FS_BLOCK_DATA_SIZE + j) mod 65536 := bdata block ! j)"
  have "fold (read_copy_byte block i) (j # js) (buf, s) = fold (read_copy_byte block i) js (buf1, s1)"
    by (simp only: fold_simps comp_def read_copy_byte_step s1_def buf1_def)
  moreover have "printed_only s s1"
    by (simp add: printed_only_def s1_def)
  ultimately show ?case
    using Cons [where buf = buf1 and s = s1] by (simp add: printed_only_def)
qed

lemma read_loop_frame_aux:
  assumes "read_loop fh0 b0 i0 nb0 buf0 s0 = Some y0"
  shows "printed_only s0 (snd y0)"
proof (rule read_loop.raw_induct [where P = "\<lambda>fh b i nb buf s y. printed_only s (snd y)", OF _ assms], goal_cases)
  case (1 loop fh nxt i nb buf s y)
  define s2 where "s2 = fs_debug3 ''Done.\<newline>'' [blk_next (eeprom s) nxt] (fs_debug3 ''Reading from block %d...'' [nxt] s)"
  define nb1 where "nb1 = (if ((i + 1) * EEPROM_FS_BLOCK_DATA_SIZE) mod 65536 > fh_filesize fh
                        then fh_filesize fh mod EEPROM_FS_BLOCK_DATA_SIZE else nb)"
  define r where "r = fold (read_copy_byte (read_block (eeprom s) nxt) i) [0..<nb1] (buf, s2)"
  have p: "printed_only s (snd r)"
    using read_copy_fold_frame [of s2 "read_block (eeprom s) nxt" i "[0..<nb1]" buf]
    unfolding r_def by (simp add: printed_only_def s2_def)
  have eq: "(if blk_next (eeprom s) nxt \<noteq> NULL_PTR
         then loop fh (blk_next (eeprom s) nxt) ((i + 1) mod 65536) nb1 (fst r) (snd r)
         else Some r) = Some y"
    using 1(2) unfolding r_def nb1_def s2_def blk_next_def
    by (simp add: Let_def split_beta cong: if_cong)
  show ?case
  proof (cases "blk_next (eeprom s) nxt = NULL_PTR")
    case True
    with eq p show ?thesis by simp
  next
    case False
    with eq have "loop fh (blk_next (eeprom s) nxt) ((i + 1) mod 65536) nb1 (fst r) (snd r) = Some y"
      by simp
    from 1(1) [OF this] p show ?thesis by (rule printed_only_trans [rotated])
  qed
qed

lemma read_frame:
  assumes "read fh buf s = Some (buf', s')"
  shows "alloc_table s' = alloc_table s" and "eeprom s' = eeprom s"
    and "debug_level s' = debug_level s"
  using assms read_loop_frame_aux [of fh "fh_first_block fh" 0 EEPROM_FS_BLOCK_DATA_SIZE buf s "(buf', s')"]
  by (auto simp: read_def printed_only_def split: if_splits)

lemma read_copy_fold_data:
  "i * 30 + n \<le> 65536 \<Longrightarrow>
   fst (fold (read_copy_byte block i) [0..<n] (buf, s))
     = (\<lambda>k. if i * 30 \<le> k \<and> k < i * 30 + n then bdata block ! (k - i * 30) else buf k)"
proof (induction n)
  case 0
  then show ?case by (auto simp: fun_eq_iff)
next
  case (Suc n)
  obtain buf1 s1 where f: "fold (read_copy_byte block i) [0..<n] (buf, s) = (buf1, s1)"
    by (cases "fold (read_copy_byte block i) [0..<n] (buf, s)")
  with Suc have IH: "buf1 = (\<lambda>k. if i * 30 \<le> k \<and> k < i * 30 + n then bdata block ! (k - i * 30) else buf k)"
    by simp
  have step: "fold (read_copy_byte block i) [0..<Suc n] (buf, s) = read_copy_byte block i n (buf1, s1)"
    by (simp add: f)
  have m: "(i * 30 + n) mod 65536 = i * 30 + n" using Suc.prems by simp
  show ?case
    unfolding step read_copy_byte_step using m
    by (auto simp: IH fun_eq_iff cfg_defs)
qed

lemma read_loop_unfold:
  "read_loop fh nxt i nb buf s =
     (let nb1 = (if ((i + 1) * EEPROM_FS_BLOCK_DATA_SIZE) mod 65536 > fh_filesize fh
                 then fh_filesize fh mod EEPROM_FS_BLOCK_DATA_SIZE else nb);
          r = fold (read_copy_byte (read_block (eeprom s) nxt) i) [0..<nb1]
                (buf, fs_debug3 ''Done.\<newline>'' [blk_next (eeprom s) nxt]
                        (fs_debug3 ''Reading from block %d...'' [nxt] s))
      in if blk_next (eeprom s) nxt \<noteq> NULL_PTR
         then read_loop fh (blk_next (eeprom s) nxt) ((i + 1) mod 65536) nb1 (fst r) (snd r)
         else Some r)"
  by (subst read_loop.simps) (simp add: Let_def split_beta blk_next_def cong: if_cong)

lemma read_loop_chain:
  assumes "is_chain (eeprom s) b xs" "xs \<noteq> []" "i + length xs \<le> 2184" "nb \<le> 30"
  shows "\<exists>s'. read_loop fh b i nb buf s
                 = Some (copied (eeprom s) (fh_filesize fh) xs i nb buf, s')
          \<and> printed_only s s'"
  using assms unfolding is_chain_def
proof (induction xs arbitrary: b i nb buf s)
  case Nil
  then show ?case by simp
next
  case (Cons x xs)
  define nb1 where "nb1 = (if (i + 1) * 30 > fh_filesize fh then fh_filesize fh mod 30 else nb)"
  define s2 where "s2 = fs_debug3 ''Done.\<newline>'' [blk_next (eeprom s) x]
                        (fs_debug3 ''Reading from block %d...'' [x] s)"
  define r where "r = fold (read_copy_byte (read_block (eeprom s) x) i) [0..<nb1] (buf, s2)"
  from Cons.prems have x: "b = x" "in_pool x"
    and rest: "is_path (eeprom s) (blk_next (eeprom s) x) xs NULL_PTR" by simp_all
  have i: "(i + 1) * 30 < 65536" "(i + 1) mod 65536 = i + 1" using Cons.prems(3) by simp_all
  have i2: "Suc i mod 65536 = Suc i" using Cons.prems(3) by simp
  have nb1: "nb1 \<le> 30" using Cons.prems(4) by (simp add: nb1_def)
  have nb1': "nb1 = (if ((i + 1) * EEPROM_FS_BLOCK_DATA_SIZE) mod 65536 > fh_filesize fh
                 then fh_filesize fh mod EEPROM_FS_BLOCK_DATA_SIZE else nb)"
    using i(1) by (simp add: nb1_def cfg_defs)
  have p: "printed_only s (snd r)"
    using read_copy_fold_frame [of s2 "read_block (eeprom s) x" i "[0..<nb1]" buf]
    unfolding r_def by (simp add: printed_only_def s2_def)
  have "i * 30 + nb1 \<le> 65536" using nb1 i(1) by simp
  then have d: "fst r = (\<lambda>k. if i * 30 \<le> k \<and> k < i * 30 + nb1
                              then blk_data (eeprom s) x ! (k - i * 30) else buf k)"
    unfolding r_def blk_data_def by (rule read_copy_fold_data)
  have u: "read_loop fh b i nb buf s =
      (if blk_next (eeprom s) x \<noteq> NULL_PTR
       then read_loop fh (blk_next (eeprom s) x) (i + 1) nb1 (fst r) (snd r)
       else Some r)"
    unfolding r_def s2_def nb1' x(1)
    by (subst read_loop_unfold) (simp add: Let_def i2 cong: if_cong)
  have c: "copied (eeprom s) (fh_filesize fh) (x # xs) i nb buf
             = copied (eeprom s) (fh_filesize fh) xs (i + 1) nb1 (fst r)"
    by (simp add: nb1_def d Let_def)
  show ?case
  proof (cases xs)
    case Nil
    with rest have "blk_next (eeprom s) x = NULL_PTR" by simp
    then have "read_loop fh b i nb buf s = Some (fst r, snd r)" by (simp add: u)
    moreover have "copied (eeprom s) (fh_filesize fh) (x # xs) i nb buf = fst r"
      unfolding c by (simp add: Nil)
    ultimately show ?thesis using p by (intro exI [of _ "snd r"]) simp
  next
    case (Cons y ys)
    with rest have "in_pool (blk_next (eeprom s) x)" by simp
    then have ne: "blk_next (eeprom s) x \<noteq> NULL_PTR" by (auto simp: in_pool_NULL_PTR)
    have e: "eeprom (snd r) = eeprom s" using p by (simp add: printed_only_def)
    have "\<exists>s'. read_loop fh (blk_next (eeprom s) x) (i + 1) nb1 (fst r) (snd r)
                 = Some (copied (eeprom (snd r)) (fh_filesize fh) xs (i + 1) nb1 (fst r), s')
          \<and> printed_only (snd r) s'"
      using rest Cons.prems(3) nb1 Cons by (intro Cons.IH) (simp_all add: e)
    then obtain s' where s': "read_loop fh (blk_next (eeprom s) x) (i + 1) nb1 (fst r) (snd r)
                 = Some (copied (eeprom s) (fh_filesize fh) xs (i + 1) nb1 (fst r), s')"
       "printed_only (snd r) s'" by (auto simp: e)
    have "read_loop fh b i nb buf s
            = Some (copied (eeprom s) (fh_filesize fh) (x # xs) i nb buf, s')"
      unfolding u c using ne s'(1) by simp
    moreover have "printed_only s s'" using p s'(2) by (rule printed_only_trans)
    ultimately show ?thesis by blast
  qed
qed

lemma read_chain:
  assumes "is_chain (eeprom s) (fh_first_block fh) xs" "xs \<noteq> []" "length xs \<le> 2184"
  shows "\<exists>s'. read fh buf s = Some (copied (eeprom s) (fh_filesize fh) xs 0 30 buf, s')
          \<and> printed_only s s'"
proof -
  have "in_pool (fh_first_block fh)"
    using assms(1,2) by (cases xs) (simp_all add: is_chain_def)
  then show ?thesis
    using read_loop_chain [OF assms(1,2), of 0 30 fh buf] assms(3)
    by (simp add: read_def cfg_defs)
qed

section \<open>Appending\<close>

lemma open_for_append_small:
  assumes "f < EEPROM_FS_MAX_FILES"
  shows "fst (open_for_append f s) =
           \<lparr>fh_filename = f, fh_filesize = fa_filesize (alloc_table s f), fh_type = FH_APPEND,
            fh_first_block = NULL_PTR, fh_last_block = NULL_PTR\<rparr>"
  using assms by (simp add: open_for_append_def Let_def)

lemma open_for_append_frame [simp]:
  "alloc_table (snd (open_for_append n s)) = alloc_table s"
  "eeprom (snd (open_for_append n s)) = eeprom s"
  "debug_level (snd (open_for_append n s)) = debug_level s"
  "errors_of (snd (open_for_append n s)) = errors_of s"
  by (simp_all add: open_for_append_def wrap_filename_def Let_def)

lemma is_chain_last_alone:
  assumes "is_chain e b xs" "xs \<noteq> []"
  shows "is_chain e (last xs) [last xs]"
  using is_chain_last_in_pool [OF assms] is_chain_last_next [OF assms]
  by (simp add: is_chain_def)

lemma copied_single:
  "fsz < 30 \<Longrightarrow>
   copied e fsz [x] 0 30 buf = (\<lambda>k. if k < fsz then blk_data e x ! k else buf k)"
  by (auto simp: Let_def fun_eq_iff)

lemma append_merge_chain:
  assumes t: "fh_type fh = FH_APPEND"
    and ov: "0 < fh_filesize fh mod EEPROM_FS_BLOCK_DATA_SIZE"
    and chain: "is_chain (eeprom s) (fa_data_block (alloc_table s (fh_filename fh))) xs"
    and ne: "xs \<noteq> []"
  shows "\<exists>s'. append_merge fh data sz tw0 s
            = Some (\<lambda>k. if fh_filesize fh mod 30 \<le> k \<and> k < fh_filesize fh mod 30 + sz
                         then data (k - fh_filesize fh mod 30)
                         else if k < fh_filesize fh mod 30
                              then blk_data (eeprom s) (last xs) ! k else tw0 k,
                    (fh_filesize fh mod 30 + sz) mod 65536, s')
          \<and> printed_only s s'"
proof -
  from last_block_in_chain_chain [OF chain ne] obtain s1 where
    l: "last_block_in_chain (fa_data_block (alloc_table s (fh_filename fh))) s = Some (last xs, s1)"
    and p1: "printed_only s s1" by blast
  let ?fh1 = "fh\<lparr>fh_first_block := last xs, fh_filesize := fh_filesize fh mod 30\<rparr>"
  have "is_chain (eeprom s1) (fh_first_block ?fh1) [last xs]"
    using is_chain_last_alone [OF chain ne] p1 by (simp add: printed_onlyD)
  from read_chain [OF this, of tw0] obtain s2 where
    r: "read ?fh1 tw0 s1
          = Some (\<lambda>k. if k < fh_filesize fh mod 30 then blk_data (eeprom s1) (last xs) ! k else tw0 k, s2)"
    and p2: "printed_only s1 s2" by (auto simp: copied_single simp del: copied.simps)
  have e: "eeprom s1 = eeprom s" using p1 by (simp add: printed_onlyD)
  have "printed_only s s2" using p1 p2 by (rule printed_only_trans)
  moreover have "append_merge fh data sz tw0 s
            = Some (\<lambda>k. if fh_filesize fh mod 30 \<le> k \<and> k < fh_filesize fh mod 30 + sz
                         then data (k - fh_filesize fh mod 30)
                         else if k < fh_filesize fh mod 30
                              then blk_data (eeprom s) (last xs) ! k else tw0 k,
                    (fh_filesize fh mod 30 + sz) mod 65536, s2)"
    using t ov l r unfolding append_merge_def e [symmetric]
    by (simp add: Let_def cfg_defs)
  ultimately show ?thesis by blast
qed

lemma stored_alloc_table_bytes:
  assumes "\<forall>a<130. e' a = e a" "i \<le> EEPROM_FS_MAX_FILES"
  shows "stored_alloc e' i = stored_alloc e i"
proof -
  have "alloc_entry_addr i + 4 \<le> 130"
    using assms(2) by (simp add: alloc_entry_addr_val cfg_defs)
  then have "\<And>k. k < 4 \<Longrightarrow> e' (alloc_entry_addr i + k) = e (alloc_entry_addr i + k)"
    using assms(1) by simp
  then have m: "map (\<lambda>k. e' (alloc_entry_addr i + k)) [0..<4]
               = map (\<lambda>k. e (alloc_entry_addr i + k)) [0..<4]"
    by (intro map_cong refl) simp
  show ?thesis
    by (simp add: stored_alloc_def eeprom_read_block_def cfg_defs m)
qed

lemma close_append_chain:
  assumes t: "fh_type fh = FH_APPEND"
    and big: "EEPROM_FS_BLOCK_DATA_SIZE < fa_filesize (alloc_table s (fh_filename fh))"
    and chain: "is_chain (eeprom s) (fa_data_block (alloc_table s (fh_filename fh))) xs"
    and ne: "xs \<noteq> []"
    and first: "in_pool (fh_first_block fh)" and lst: "in_pool (fh_last_block fh)"
    and apart: "fh_last_block fh \<noteq> last xs"
  shows "\<exists>s'. close fh s
            = Some (fh\<lparr>fh_filesize :=
                      (fh_filesize fh + fa_filesize (alloc_table s (fh_filename fh))) mod 65536\<rparr>, s')
          \<and> alloc_table s' = alloc_table s
          \<and> debug_level s' = debug_level s
          \<and> errors_of s' = errors_of s
          \<and> (\<forall>i\<le>EEPROM_FS_MAX_FILES. stored_alloc (eeprom s') i = stored_alloc (eeprom s) i)
          \<and> blk_next (eeprom s') (last xs) = fh_first_block fh
          \<and> blk_next (eeprom s') (fh_last_block fh) = NULL_PTR
          \<and> (\<forall>b. in_pool b \<longrightarrow> b \<noteq> last xs \<longrightarrow> b \<noteq> fh_last_block fh
                 \<longrightarrow> blk_next (eeprom s') b = blk_next (eeprom s) b)
          \<and> (\<forall>b. in_pool b \<longrightarrow> blk_data (eeprom s') b = blk_data (eeprom s) b)"
proof -
  let ?s0 = "fs_debug1 ''Finalising file %d.\<newline>'' [int (fh_filename fh)] s"
  let ?fh' = "fh\<lparr>fh_filesize :=
                 (fh_filesize fh + fa_filesize (alloc_table s (fh_filename fh))) mod 65536\<rparr>"
  have "is_chain (eeprom ?s0) (fa_data_block (alloc_table s (fh_filename fh))) xs"
    using chain by simp
  from last_block_in_chain_chain [OF this ne] obtain s1 where
    l: "last_block_in_chain (fa_data_block (alloc_table s (fh_filename fh))) ?s0 = Some (last xs, s1)"
    and p: "printed_only ?s0 s1" by blast
  define s3 where "s3 = relink (last xs) (fh_first_block fh)
     (fs_debug2 ''Appending block %d to block %d...\<newline>'' [fh_first_block fh, last xs] s1)"
  define s5 where "s5 = relink (fh_last_block fh) NULL_PTR
     (fs_debug2 ''Marking end of file %d.\<newline>'' [int (fh_filename fh)] (fs_debug2 ''Done.\<newline>'' [] s3))"
  have c: "close fh s = Some (?fh', fs_debug1 ''File %d successfully finalised.\<newline>'' [int (fh_filename fh)] s5)"
    using t big l by (simp add: close_def close_link_def Let_def s3_def s5_def)
  have s1: "alloc_table s1 = alloc_table s" "eeprom s1 = eeprom s" "debug_level s1 = debug_level s"
    "errors_of s1 = errors_of s"
    using p by (simp_all add: printed_only_def)
  have lp: "in_pool (last xs)" using chain ne by (rule is_chain_last_in_pool)
  have tgt: "NULL_PTR \<le> fh_first_block fh" "fh_first_block fh < int EEPROM_FS_NUM_BLOCKS"
    using first by (simp_all add: in_pool_def NULL_PTR_def)
  have nul: "NULL_PTR \<le> NULL_PTR" "NULL_PTR < int EEPROM_FS_NUM_BLOCKS"
    by (simp_all add: cfg_defs)
  have n3: "blk_next (eeprom s3) (last xs) = fh_first_block fh"
    unfolding s3_def using lp tgt by (rule blk_next_relink_same)
  have n3o: "\<And>b. in_pool b \<Longrightarrow> b \<noteq> last xs \<Longrightarrow> blk_next (eeprom s3) b = blk_next (eeprom s) b"
    unfolding s3_def using lp by (simp add: blk_next_relink_other s1)
  have n5: "blk_next (eeprom s5) (fh_last_block fh) = NULL_PTR"
    unfolding s5_def using lst nul by (rule blk_next_relink_same)
  have n5o: "\<And>b. in_pool b \<Longrightarrow> b \<noteq> fh_last_block fh \<Longrightarrow> blk_next (eeprom s5) b = blk_next (eeprom s3) b"
    unfolding s5_def using lst by (simp add: blk_next_relink_other)
  have d: "\<And>b. in_pool b \<Longrightarrow> blk_data (eeprom s5) b = blk_data (eeprom s) b"
    unfolding s5_def s3_def by (simp add: blk_data_relink s1)
  have st: "\<And>i. i \<le> EEPROM_FS_MAX_FILES \<Longrightarrow> stored_alloc (eeprom s5) i = stored_alloc (eeprom s) i"
    unfolding s5_def s3_def by (simp add: relink_stored s1)
  have fr: "alloc_table s5 = alloc_table s" "debug_level s5 = debug_level s"
    unfolding s5_def s3_def by (simp_all add: s1)
  have er: "errors_of s5 = errors_of s"
    unfolding s5_def s3_def using lp tgt lst nul by (simp add: relink_errors s1)
  have "blk_next (eeprom s5) (last xs) = fh_first_block fh"
    using n5o [OF lp] apart n3 by simp
  then show ?thesis
    unfolding c using n5 n5o n3o d st fr er lp by simp
qed

lemma append_written:
  "\<exists>s1 s2. write_file 7 a 40 tw blk fresh = Some s1
     \<and> alloc_table s1 7 = \<lparr>fa_filesize = 40, fa_data_block = 58\<rparr>
     \<and> fs_write (fst (open_for_append 7 s1)) b 5 tw' blk' (snd (open_for_append 7 s1))
          = Some (\<lparr>fh_filename = 7, fh_filesize = 15, fh_type = FH_APPEND,
                   fh_first_block = 56, fh_last_block = 56\<rparr>, s2)
     \<and> alloc_table s2 7 = \<lparr>fa_filesize = 40, fa_data_block = 58\<rparr>
     \<and> stored_alloc (eeprom s2) 7 = \<lparr>fa_filesize = 40, fa_data_block = 58\<rparr>
     \<and> is_chain (eeprom s2) 58 [58, 57]
     \<and> errors_of s2 = []"
proof -
  have seven: "(7::nat) < EEPROM_FS_MAX_FILES" by (simp add: cfg_defs)
  have path: "is_path (eeprom fresh) (next_free_block fresh) [58, 57] 56"
    by (simp add: fresh_next in_pool_def cfg_defs)
  have fits: "fa_filesize (alloc_table fresh 7) div EEPROM_FS_BLOCK_DATA_SIZE
                + 40 div EEPROM_FS_BLOCK_DATA_SIZE \<le> EEPROM_FS_MAX_BLOCKS_PER_FILE"
    by (simp add: fresh_entry [OF seven] cfg_defs)
  have len: "length [58 :: int, 57] = 40 div EEPROM_FS_BLOCK_DATA_SIZE + 1"
    by (simp add: cfg_defs)
  from write_file_plain [OF seven fits path _ len, of a tw blk] obtain s1 where s1:
    "write_file 7 a 40 tw blk fresh = Some s1"
    "alloc_table s1 = (alloc_table fresh)
       (EEPROM_FS_MAX_FILES := (alloc_table fresh EEPROM_FS_MAX_FILES)\<lparr>fa_data_block := 56\<rparr>,
        7 := \<lparr>fa_filesize = 40, fa_data_block = 58\<rparr>)"
    "next_free_block s1 = 56" "errors_of s1 = []"
    "stored_alloc (eeprom s1) 7 = \<lparr>fa_filesize = 40, fa_data_block = 58\<rparr>"
    "is_chain (eeprom s1) 58 [58, 57]"
    "\<forall>b. in_pool b \<longrightarrow> b \<noteq> 57 \<longrightarrow> blk_next (eeprom s1) b = blk_next (eeprom fresh) b"
    by auto
  have e7: "alloc_table s1 7 = \<lparr>fa_filesize = 40, fa_data_block = 58\<rparr>"
    by (simp add: s1(2))
  define fh1 where "fh1 = \<lparr>fh_filename = 7, fh_filesize = 40, fh_type = FH_APPEND,
                            fh_first_block = NULL_PTR, fh_last_block = NULL_PTR\<rparr>"
  define t where "t = snd (open_for_append 7 s1)"
  have o: "fst (open_for_append 7 s1) = fh1"
    using open_for_append_small [OF seven, of s1] by (simp add: fh1_def e7)
  have t: "alloc_table t = alloc_table s1" "eeprom t = eeprom s1" "errors_of t = errors_of s1"
    "next_free_block t = next_free_block s1"
    by (simp_all add: t_def next_free_block_def)
  have ty: "fh_type fh1 = FH_APPEND" by (simp add: fh1_def)
  have ov: "0 < fh_filesize fh1 mod EEPROM_FS_BLOCK_DATA_SIZE" by (simp add: fh1_def cfg_defs)
  have chain_t: "is_chain (eeprom t) (fa_data_block (alloc_table t (fh_filename fh1))) [58, 57]"
    using s1(6) by (simp add: t fh1_def e7)
  define M where "M = (\<lambda>k. if fh_filesize fh1 mod 30 \<le> k \<and> k < fh_filesize fh1 mod 30 + 5
                         then b (k - fh_filesize fh1 mod 30)
                         else if k < fh_filesize fh1 mod 30
                              then blk_data (eeprom t) (last [58, 57]) ! k else tw' k)"
  from append_merge_chain [OF ty ov chain_t, of b 5 tw'] obtain u where
    u: "append_merge fh1 b 5 tw' t = Some (M, (fh_filesize fh1 mod 30 + 5) mod 65536, u)"
    and pu: "printed_only t u" unfolding M_def by auto
  have sz: "(fh_filesize fh1 mod 30 + 5) mod 65536 = 15" by (simp add: fh1_def)
  have us: "alloc_table u = alloc_table s1" "eeprom u = eeprom s1" "errors_of u = errors_of s1"
    "next_free_block u = 56"
    using pu by (simp_all add: printed_onlyD t s1(3))
  have p56: "in_pool 56" by (simp add: in_pool_def cfg_defs)
  have "blk_next (eeprom s1) 56 = 55"
    using s1(7) fresh_next [OF p56] p56 by simp
  then have path1: "is_path (eeprom u) (next_free_block u) [56] 55"
    using p56 by (simp add: us)
  have len1: "length [56 :: int]
      = (if (fa_filesize (alloc_table u (fh_filename fh1)) div EEPROM_FS_BLOCK_DATA_SIZE
                   + 15 div EEPROM_FS_BLOCK_DATA_SIZE) mod 65536 > EEPROM_FS_MAX_BLOCKS_PER_FILE
         then (EEPROM_FS_MAX_BLOCKS_PER_FILE + 65536
                 - fa_filesize (alloc_table u (fh_filename fh1)) div EEPROM_FS_BLOCK_DATA_SIZE) mod 65536
         else (15 div EEPROM_FS_BLOCK_DATA_SIZE + 1) mod 65536)"
    by (simp add: us fh1_def e7 cfg_defs)
  from write_blocks_ok [OF path1 len1, of M blk'] obtain s2 where s2:
    "write_blocks fh1 M 15 blk' u
       = (fh1\<lparr>fh_first_block := 56, fh_last_block := 56, fh_filesize := 15\<rparr>, s2)"
    "alloc_table s2 = (alloc_table u)(EEPROM_FS_MAX_FILES :=
        (alloc_table u EEPROM_FS_MAX_FILES)\<lparr>fa_data_block := 55\<rparr>)"
    "errors_of s2 = errors_of u"
    "\<forall>a<130. eeprom s2 a = eeprom u a"
    "\<forall>b. in_pool b \<longrightarrow> blk_next (eeprom s2) b = blk_next (eeprom u) b"
    unfolding len1 [symmetric] by (auto simp: us fh1_def e7 cfg_defs)
  have w: "fs_write fh1 b 5 tw' blk' t
             = Some (fh1\<lparr>fh_first_block := 56, fh_last_block := 56, fh_filesize := 15\<rparr>, s2)"
    using u s2(1) by (simp add: fs_write_def ty sz)
  have a7: "alloc_table s2 7 = \<lparr>fa_filesize = 40, fa_data_block = 58\<rparr>"
    by (simp add: s2(2) us e7 cfg_defs)
  have st: "stored_alloc (eeprom s2) 7 = \<lparr>fa_filesize = 40, fa_data_block = 58\<rparr>"
    using stored_alloc_table_bytes [OF s2(4), of 7] by (simp add: us s1(5) cfg_defs)
  have "is_path (eeprom s2) 58 [58, 57] NULL_PTR = is_path (eeprom s1) 58 [58, 57] NULL_PTR"
    by (rule is_path_cong) (auto simp: s2(5) us in_pool_def cfg_defs)
  then have ch: "is_chain (eeprom s2) 58 [58, 57]"
    using s1(6) by (simp add: is_chain_def)
  have er: "errors_of s2 = []" by (simp add: s2(3) us s1(4))
  show ?thesis
    using s1(1) e7 w a7 st ch er unfolding o [symmetric] t_def
    by (intro exI [of _ s1] exI [of _ s2]) (simp add: o fh1_def)
qed

text \<open>
  C3 (close of a handle opened for appending, the file being larger than one block). What
  \<open>close\<close> does in this branch, when the file's chain \<open>xs\<close> is null-terminated and the handle
  holds blocks of the pool: it returns, the handle's size becomes the sum of its size and
  the size in the table, the last block of the file's chain is linked to the handle's first
  block and the handle's last block ends the chain; the allocation entry is written neither
  in RAM nor on the medium, so the size of the file stays what it was before the append.
\<close>

theorem close_append_leaves_entry:
  assumes "fh_type fh = FH_APPEND"
    and "EEPROM_FS_BLOCK_DATA_SIZE < fa_filesize (alloc_table s (fh_filename fh))"
    and "is_chain (eeprom s) (fa_data_block (alloc_table s (fh_filename fh))) xs" and "xs \<noteq> []"
    and "in_pool (fh_first_block fh)" and "in_pool (fh_last_block fh)"
    and "fh_last_block fh \<noteq> last xs"
  shows "\<exists>s'. close fh s
            = Some (fh\<lparr>fh_filesize :=
                      (fh_filesize fh + fa_filesize (alloc_table s (fh_filename fh))) mod 65536\<rparr>, s')
          \<and> blk_next (eeprom s') (last xs) = fh_first_block fh
          \<and> blk_next (eeprom s') (fh_last_block fh) = NULL_PTR
          \<and> alloc_table s' = alloc_table s
          \<and> (\<forall>i\<le>EEPROM_FS_MAX_FILES. stored_alloc (eeprom s') i = stored_alloc (eeprom s) i)
          \<and> errors_of s' = errors_of s"
  using close_append_chain [OF assms] by blast

theorem close_append_leaves_entry_witness:
  "\<exists>s1 fh2 s2 s3.
      write_file 7 (\<lambda>_. 0) 40 (\<lambda>_. 0) (\<lambda>_. 0) fresh = Some s1
    \<and> fs_write (fst (open_for_append 7 s1)) (\<lambda>_. 1) 5 (\<lambda>_. 0) (\<lambda>_. 0) (snd (open_for_append 7 s1))
         = Some (fh2, s2)
    \<and> fh_type fh2 = FH_APPEND \<and> fh_filename fh2 = 7 \<and> fh_filesize fh2 = 15
    \<and> fh_first_block fh2 = 56 \<and> fh_last_block fh2 = 56
    \<and> alloc_table s2 7 = \<lparr>fa_filesize = 40, fa_data_block = 58\<rparr>
    \<and> is_chain (eeprom s2) 58 [58, 57]
    \<and> close fh2 s2 = Some (fh2\<lparr>fh_filesize := 55\<rparr>, s3)
    \<and> blk_next (eeprom s3) 57 = 56
    \<and> blk_next (eeprom s3) 56 = NULL_PTR
    \<and> alloc_table s3 7 = \<lparr>fa_filesize = 40, fa_data_block = 58\<rparr>
    \<and> stored_alloc (eeprom s3) 7 = \<lparr>fa_filesize = 40, fa_data_block = 58\<rparr>
    \<and> errors_of s3 = []"
proof -
  define fh2 where "fh2 = \<lparr>fh_filename = 7, fh_filesize = 15, fh_type = FH_APPEND,
                            fh_first_block = 56, fh_last_block = 56\<rparr>"
  from append_written [of "\<lambda>_. 0" "\<lambda>_. 0" "\<lambda>_. 0" "\<lambda>_. 1" "\<lambda>_. 0" "\<lambda>_. 0"]
  obtain s1 s2 where s:
    "write_file 7 (\<lambda>_. 0) 40 (\<lambda>_. 0) (\<lambda>_. 0) fresh = Some s1"
    "fs_write (fst (open_for_append 7 s1)) (\<lambda>_. 1) 5 (\<lambda>_. 0) (\<lambda>_. 0) (snd (open_for_append 7 s1))
       = Some (fh2, s2)"
    "alloc_table s2 7 = \<lparr>fa_filesize = 40, fa_data_block = 58\<rparr>"
    "stored_alloc (eeprom s2) 7 = \<lparr>fa_filesize = 40, fa_data_block = 58\<rparr>"
    "is_chain (eeprom s2) 58 [58, 57]"
    "errors_of s2 = []"
    unfolding fh2_def by blast
  have h: "fh_type fh2 = FH_APPEND"
    "EEPROM_FS_BLOCK_DATA_SIZE < fa_filesize (alloc_table s2 (fh_filename fh2))"
    "is_chain (eeprom s2) (fa_data_block (alloc_table s2 (fh_filename fh2))) [58, 57]"
    "[58, 57 :: int] \<noteq> []"
    "in_pool (fh_first_block fh2)" "in_pool (fh_last_block fh2)"
    "fh_last_block fh2 \<noteq> last [58, 57]"
    using s(5) by (simp_all add: fh2_def s(3) cfg_defs in_pool_def)
  from close_append_leaves_entry [OF h] obtain s3 where s3:
    "close fh2 s2 = Some (fh2\<lparr>fh_filesize := 55\<rparr>, s3)"
    "blk_next (eeprom s3) 57 = 56"
    "blk_next (eeprom s3) 56 = NULL_PTR"
    "alloc_table s3 = alloc_table s2"
    "\<forall>i\<le>EEPROM_FS_MAX_FILES. stored_alloc (eeprom s3) i = stored_alloc (eeprom s2) i"
    "errors_of s3 = errors_of s2"
    by (auto simp: fh2_def s(3))
  have "stored_alloc (eeprom s3) 7 = \<lparr>fa_filesize = 40, fa_data_block = 58\<rparr>"
    using s3(5) s(4) by (simp add: cfg_defs)
  then show ?thesis
    using s s3 by (intro exI [of _ s1] exI [of _ fh2] exI [of _ s2] exI [of _ s3]) (simp add: fh2_def)
qed

lemma append_40_5:
  "\<exists>s1 s3. write_file 7 a 40 tw blk fresh = Some s1
     \<and> append_file 7 b 5 tw' blk' s1 = Some s3
     \<and> alloc_table s3 7 = \<lparr>fa_filesize = 40, fa_data_block = 58\<rparr>
     \<and> is_chain (eeprom s3) 58 [58, 57, 56]
     \<and> errors_of s3 = []"
proof -
  define fh2 where "fh2 = \<lparr>fh_filename = 7, fh_filesize = 15, fh_type = FH_APPEND,
                            fh_first_block = 56, fh_last_block = 56\<rparr>"
  from append_written [of a tw blk b tw' blk']
  obtain s1 s2 where s:
    "write_file 7 a 40 tw blk fresh = Some s1"
    "fs_write (fst (open_for_append 7 s1)) b 5 tw' blk' (snd (open_for_append 7 s1)) = Some (fh2, s2)"
    "alloc_table s2 7 = \<lparr>fa_filesize = 40, fa_data_block = 58\<rparr>"
    "is_chain (eeprom s2) 58 [58, 57]"
    "errors_of s2 = []"
    unfolding fh2_def by blast
  have h: "fh_type fh2 = FH_APPEND"
    "EEPROM_FS_BLOCK_DATA_SIZE < fa_filesize (alloc_table s2 (fh_filename fh2))"
    "is_chain (eeprom s2) (fa_data_block (alloc_table s2 (fh_filename fh2))) [58, 57]"
    "[58, 57 :: int] \<noteq> []"
    "in_pool (fh_first_block fh2)" "in_pool (fh_last_block fh2)"
    "fh_last_block fh2 \<noteq> last [58, 57]"
    using s(4) by (simp_all add: fh2_def s(3) cfg_defs in_pool_def)
  from close_append_chain [OF h] obtain s3 where s3:
    "close fh2 s2 = Some (fh2\<lparr>fh_filesize := 55\<rparr>, s3)"
    "alloc_table s3 = alloc_table s2"
    "errors_of s3 = errors_of s2"
    "blk_next (eeprom s3) 57 = 56"
    "blk_next (eeprom s3) 56 = NULL_PTR"
    "\<forall>b. in_pool b \<longrightarrow> b \<noteq> 57 \<longrightarrow> b \<noteq> 56 \<longrightarrow> blk_next (eeprom s3) b = blk_next (eeprom s2) b"
    by (auto simp: fh2_def s(3))
  have "blk_next (eeprom s2) 58 = 57" using s(4) by (simp add: is_chain_def)
  then have "blk_next (eeprom s3) 58 = 57"
    using s3(6) by (simp add: in_pool_def cfg_defs)
  then have ch: "is_chain (eeprom s3) 58 [58, 57, 56]"
    using s3(4,5) by (simp add: is_chain_def in_pool_def cfg_defs)
  have "append_file 7 b 5 tw' blk' s1 = Some s3"
    using s(2) s3(1) by (simp add: append_file_def split_beta)
  then show ?thesis
    using s(1) ch s3(2,3) s(3,5) by (intro exI [of _ s1] exI [of _ s3]) simp
qed

text \<open>
  C2 (append concatenation). On the fresh file system, 40 bytes \<open>a\<close> are written to file 7
  and 5 bytes \<open>b\<close> are appended; both calls return and print no error. Reading the file
  then gives a handle of size 40, not 45, and the five bytes of the buffer behind the first
  40 are the ones the buffer held before the call: \<open>b\<close> is not delivered.
\<close>

theorem append_is_not_concatenation:
  "\<exists>s1 s2 fh buf' s3.
      write_file 7 a 40 tw blk fresh = Some s1
    \<and> append_file 7 b 5 tw' blk' s1 = Some s2
    \<and> errors_of s2 = []
    \<and> read_file 7 buf s2 = Some (fh, buf', s3)
    \<and> fh_filesize fh = 40
    \<and> map buf' [40..<45] = map buf [40..<45]"
proof -
  have seven: "(7::nat) < EEPROM_FS_MAX_FILES" by (simp add: cfg_defs)
  from append_40_5 [of a tw blk b tw' blk'] obtain s1 s2 where s:
    "write_file 7 a 40 tw blk fresh = Some s1"
    "append_file 7 b 5 tw' blk' s1 = Some s2"
    "alloc_table s2 7 = \<lparr>fa_filesize = 40, fa_data_block = 58\<rparr>"
    "is_chain (eeprom s2) 58 [58, 57, 56]"
    "errors_of s2 = []"
    by blast
  define fh where "fh = \<lparr>fh_filename = 7, fh_filesize = 40, fh_type = FH_READ,
                          fh_first_block = 58, fh_last_block = NULL_PTR\<rparr>"
  define t where "t = snd (open_for_read 7 s2)"
  have o: "open_for_read 7 s2 = (fh, t)"
    using open_for_read_small(1) [OF seven, of s2]
    by (simp add: fh_def t_def s(3) prod_eq_iff)
  have "is_chain (eeprom t) (fh_first_block fh) [58, 57, 56]"
    using s(4) by (simp add: t_def fh_def)
  from read_chain [OF this, of buf] obtain s3 where
    r: "read fh buf t = Some (copied (eeprom t) 40 [58, 57, 56] 0 30 buf, s3)"
    by (auto simp: fh_def simp del: copied.simps)
  have rf: "read_file 7 buf s2 = Some (fh, copied (eeprom t) 40 [58, 57, 56] 0 30 buf, s3)"
    by (simp add: read_file_def o r del: copied.simps)
  have "map (copied (eeprom t) 40 [58, 57, 56] 0 30 buf) [40..<45] = map buf [40..<45]"
    by (simp add: Let_def)
  then show ?thesis
    using s(1,2,5) rf
    by (intro exI [of _ s1] exI [of _ s2] exI [of _ fh] exI [of _ "copied (eeprom t) 40 [58, 57, 56] 0 30 buf"]
              exI [of _ s3])
       (simp add: fh_def del: copied.simps)
qed

section \<open>The debug level\<close>

lemma same_core_print [simp]:
  "same_core (fs_debug1 f a s) t = same_core s t"
  "same_core (fs_debug2 f a s) t = same_core s t"
  "same_core (fs_debug3 f a s) t = same_core s t"
  "same_core (fs_debug4 f a s) t = same_core s t"
  "same_core s (fs_debug1 f a t) = same_core s t"
  "same_core s (fs_debug2 f a t) = same_core s t"
  "same_core s (fs_debug3 f a t) = same_core s t"
  "same_core s (fs_debug4 f a t) = same_core s t"
  "same_core (fs_error f a s) (fs_error f a t) = same_core s t"
  by (auto simp: same_core_def)

lemma same_coreD:
  "same_core s t \<Longrightarrow> alloc_table s = alloc_table t"
  "same_core s t \<Longrightarrow> eeprom s = eeprom t"
  "same_core s t \<Longrightarrow> errors_of s = errors_of t"
  "same_core s t \<Longrightarrow> next_free_block s = next_free_block t"
  by (simp_all add: same_core_def next_free_block_def)

lemma same_core_printed:
  "same_core s t \<Longrightarrow> printed_only s s' \<Longrightarrow> printed_only t t' \<Longrightarrow> same_core s' t'"
  by (simp add: same_core_def printed_only_def)

lemma rel_option_both:
  assumes "\<And>x. f = Some x \<Longrightarrow> \<exists>y. g = Some y \<and> R x y"
    and "\<And>y. g = Some y \<Longrightarrow> \<exists>x. f = Some x"
  shows "rel_option R f g"
proof (cases f)
  case None
  show ?thesis
  proof (cases g)
    case None
    with \<open>f = None\<close> show ?thesis by simp
  next
    case (Some y)
    from assms(2) [OF this] None show ?thesis by simp
  qed
next
  case (Some x)
  from assms(1) [OF this] obtain y where "g = Some y" "R x y" by blast
  with Some show ?thesis by simp
qed

lemma last_block_loop_core_aux:
  assumes "last_block_loop b0 s0 = Some y0"
  shows "\<forall>t. eeprom t = eeprom s0 \<longrightarrow> (\<exists>t'. last_block_loop b0 t = Some (fst y0, t'))"
proof (rule last_block_loop.raw_induct
    [where P = "\<lambda>b s y. \<forall>t. eeprom t = eeprom s \<longrightarrow> (\<exists>t'. last_block_loop b t = Some (fst y, t'))",
     OF _ assms], goal_cases)
  case (1 loop nxt s y)
  show ?case
  proof (intro allI impI)
    fix t :: fs_state assume t: "eeprom t = eeprom s"
    show "\<exists>t'. last_block_loop nxt t = Some (fst y, t')"
    proof (cases "blk_next (eeprom s) nxt = NULL_PTR")
      case True
      with 1(2) have "fst y = nxt" by (auto simp: Let_def blk_next_def)
      then show ?thesis
        using True t by (subst last_block_loop.simps) (simp add: Let_def blk_next_def)
    next
      case False
      with 1(2) have "loop (blk_next (eeprom s) nxt) (fs_debug4 ''checking... %d\<newline>'' [nxt] s) = Some y"
        by (simp add: Let_def blk_next_def)
      note ih = 1(1) [OF this, rule_format, of "fs_debug4 ''checking... %d\<newline>'' [nxt] t"]
      have "\<exists>t'. last_block_loop (blk_next (eeprom s) nxt)
                    (fs_debug4 ''checking... %d\<newline>'' [nxt] t) = Some (fst y, t')"
        using t by (intro ih) simp
      then show ?thesis
        using False t by (subst last_block_loop.simps) (simp add: Let_def blk_next_def)
    qed
  qed
qed

lemma last_block_loop_core:
  assumes "same_core s t"
  shows "rel_option (rel_prod (=) same_core) (last_block_loop b s) (last_block_loop b t)"
proof (rule rel_option_both)
  have e: "eeprom t = eeprom s" "eeprom s = eeprom t" using assms by (simp_all add: same_core_def)
  fix x assume x: "last_block_loop b s = Some x"
  from last_block_loop_core_aux [OF this] e(1) obtain t' where
    t': "last_block_loop b t = Some (fst x, t')" by blast
  have "printed_only s (snd x)" using x by (rule last_block_loop_frame_aux)
  moreover have "printed_only t t'" using t' by (rule last_block_loop_frame)
  ultimately have "same_core (snd x) t'" by (rule same_core_printed [OF assms])
  then show "\<exists>y. last_block_loop b t = Some y \<and> rel_prod (=) same_core x y"
    using t' by (cases x) auto
next
  have e: "eeprom s = eeprom t" using assms by (simp add: same_core_def)
  fix y assume "last_block_loop b t = Some y"
  from last_block_loop_core_aux [OF this] e
  show "\<exists>x. last_block_loop b s = Some x" by blast
qed

lemma last_block_in_chain_core:
  assumes "same_core s t"
  shows "rel_option (rel_prod (=) same_core) (last_block_in_chain b s) (last_block_in_chain b t)"
proof -
  have "same_core (fs_debug3 ''Searching for last block in chain...\<newline>'' [] s)
                  (fs_debug3 ''Searching for last block in chain...\<newline>'' [] t)"
    using assms by simp
  from last_block_loop_core [OF this, of b] show ?thesis
    using assms
    by (cases "last_block_loop b (fs_debug3 ''Searching for last block in chain...\<newline>'' [] s)";
        cases "last_block_loop b (fs_debug3 ''Searching for last block in chain...\<newline>'' [] t)")
       (auto simp: last_block_in_chain_def)
qed

lemma read_copy_fold_core:
  "fst (fold (read_copy_byte block i) js (buf, s)) = fst (fold (read_copy_byte block i) js (buf, t))"
proof (induction js arbitrary: buf s t)
  case Nil
  show ?case by simp
next
  case (Cons j js)
  show ?case
    by (simp only: fold_simps comp_def read_copy_byte_step) (rule Cons.IH)
qed

lemma read_loop_core_aux:
  assumes "read_loop fh0 b0 i0 nb0 buf0 s0 = Some y0"
  shows "\<forall>t. eeprom t = eeprom s0 \<longrightarrow> (\<exists>t'. read_loop fh0 b0 i0 nb0 buf0 t = Some (fst y0, t'))"
proof (rule read_loop.raw_induct
    [where P = "\<lambda>fh b i nb buf s y. \<forall>t. eeprom t = eeprom s
                     \<longrightarrow> (\<exists>t'. read_loop fh b i nb buf t = Some (fst y, t'))",
     OF _ assms], goal_cases)
  case (1 loop fh nxt i nb buf s y)
  define nb1 where "nb1 = (if ((i + 1) * EEPROM_FS_BLOCK_DATA_SIZE) mod 65536 > fh_filesize fh
                        then fh_filesize fh mod EEPROM_FS_BLOCK_DATA_SIZE else nb)"
  define r where "r = (\<lambda>s. fold (read_copy_byte (read_block (eeprom s) nxt) i) [0..<nb1]
      (buf, fs_debug3 ''Done.\<newline>'' [blk_next (eeprom s) nxt]
              (fs_debug3 ''Reading from block %d...'' [nxt] s)))"
  have eq: "(if blk_next (eeprom s) nxt \<noteq> NULL_PTR
         then loop fh (blk_next (eeprom s) nxt) ((i + 1) mod 65536) nb1 (fst (r s)) (snd (r s))
         else Some (r s)) = Some y"
    using 1(2) unfolding r_def nb1_def blk_next_def
    by (simp add: Let_def split_beta cong: if_cong)
  have u: "\<And>t. read_loop fh nxt i nb buf t =
         (if blk_next (eeprom t) nxt \<noteq> NULL_PTR
          then read_loop fh (blk_next (eeprom t) nxt) ((i + 1) mod 65536) nb1 (fst (r t)) (snd (r t))
          else Some (r t))"
    unfolding r_def nb1_def by (subst read_loop_unfold) (simp add: Let_def cong: if_cong)
  show ?case
  proof (intro allI impI)
    fix t :: fs_state assume t: "eeprom t = eeprom s"
    have f: "fst (r t) = fst (r s)"
      unfolding r_def t by (rule read_copy_fold_core)
    have e: "eeprom (snd (r t)) = eeprom (snd (r s))"
      using read_copy_fold_frame [of "fs_debug3 ''Done.\<newline>'' [blk_next (eeprom s) nxt]
              (fs_debug3 ''Reading from block %d...'' [nxt] s)" "read_block (eeprom s) nxt" i "[0..<nb1]" buf]
        read_copy_fold_frame [of "fs_debug3 ''Done.\<newline>'' [blk_next (eeprom t) nxt]
              (fs_debug3 ''Reading from block %d...'' [nxt] t)" "read_block (eeprom t) nxt" i "[0..<nb1]" buf]
      unfolding r_def by (simp add: printed_only_def t)
    show "\<exists>t'. read_loop fh nxt i nb buf t = Some (fst y, t')"
    proof (cases "blk_next (eeprom s) nxt = NULL_PTR")
      case True
      with eq have "y = r s" by simp
      then show ?thesis using True t f by (simp add: u prod_eq_iff)
    next
      case False
      with eq have "loop fh (blk_next (eeprom s) nxt) ((i + 1) mod 65536) nb1 (fst (r s)) (snd (r s)) = Some y"
        by simp
      note ih = 1(1) [OF this, rule_format, of "snd (r t)"]
      have "\<exists>t'. read_loop fh (blk_next (eeprom s) nxt) ((i + 1) mod 65536) nb1 (fst (r s)) (snd (r t))
                   = Some (fst y, t')"
        using e by (intro ih)
      then show ?thesis using False t f by (simp add: u)
    qed
  qed
qed

lemma read_core:
  assumes "same_core s t"
  shows "rel_option (rel_prod (=) same_core) (read fh buf s) (read fh buf t)"
proof (cases "in_pool (fh_first_block fh)")
  case False
  then show ?thesis using assms by (simp add: read_def)
next
  case True
  have "rel_option (rel_prod (=) same_core)
          (read_loop fh (fh_first_block fh) 0 EEPROM_FS_BLOCK_DATA_SIZE buf s)
          (read_loop fh (fh_first_block fh) 0 EEPROM_FS_BLOCK_DATA_SIZE buf t)"
  proof (rule rel_option_both)
    have e: "eeprom t = eeprom s" using assms by (simp add: same_core_def)
    fix x assume x: "read_loop fh (fh_first_block fh) 0 EEPROM_FS_BLOCK_DATA_SIZE buf s = Some x"
    from read_loop_core_aux [OF this] e obtain t' where
      t': "read_loop fh (fh_first_block fh) 0 EEPROM_FS_BLOCK_DATA_SIZE buf t = Some (fst x, t')"
      by blast
    have "printed_only s (snd x)" using x by (rule read_loop_frame_aux)
    moreover have "printed_only t t'" using read_loop_frame_aux [OF t'] by simp
    ultimately have "same_core (snd x) t'" by (rule same_core_printed [OF assms])
    then show "\<exists>y. read_loop fh (fh_first_block fh) 0 EEPROM_FS_BLOCK_DATA_SIZE buf t = Some y
                  \<and> rel_prod (=) same_core x y"
      using t' by (cases x) auto
  next
    have e: "eeprom s = eeprom t" using assms by (simp add: same_core_def)
    fix y assume "read_loop fh (fh_first_block fh) 0 EEPROM_FS_BLOCK_DATA_SIZE buf t = Some y"
    from read_loop_core_aux [OF this] e
    show "\<exists>x. read_loop fh (fh_first_block fh) 0 EEPROM_FS_BLOCK_DATA_SIZE buf s = Some x"
      by blast
  qed
  then show ?thesis using True by (simp add: read_def)
qed

lemma set_debug_core:
  "same_core s t \<Longrightarrow> same_core (set_debug l s) (set_debug l' t)"
  by (simp add: same_core_def set_debug_def errors_of_def)

lemma relink_core:
  assumes "same_core s t"
  shows "same_core (relink b c s) (relink b c t)"
  using assms by (simp add: relink_def Let_def same_core_def)

lemma link_core:
  assumes "same_core s t"
  shows "same_core (link fh s) (link fh t)"
  using assms by (simp add: link_def Let_def same_core_def)

lemma write_block_data_core:
  assumes "same_core s t"
  shows "fst (write_block_data d s) = fst (write_block_data d t)"
    and "same_core (snd (write_block_data d s)) (snd (write_block_data d t))"
  using assms
  by (simp_all add: write_block_data_def Let_def same_core_def next_free_block_def
        set_next_free_block_def)

lemma rel_option_bind:
  assumes "rel_option R x y" and "\<And>a b. R a b \<Longrightarrow> rel_option Q (f a) (g b)"
  shows "rel_option Q (case x of None \<Rightarrow> None | Some a \<Rightarrow> f a)
                      (case y of None \<Rightarrow> None | Some b \<Rightarrow> g b)"
proof (cases x)
  case None
  with assms(1) have "y = None" by (cases y) simp_all
  with None show ?thesis by simp
next
  case (Some a)
  with assms(1) obtain b where "y = Some b" "R a b" by (cases y) simp_all
  with Some assms(2) show ?thesis by simp
qed

lemma unlink_core:
  assumes "same_core s t"
  shows "rel_option same_core (unlink b s) (unlink b t)"
proof (cases "in_pool b")
  case False
  then show ?thesis using assms by (simp add: unlink_def)
next
  case True
  define nf where "nf = next_free_block t"
  have nfs: "next_free_block s = nf" "next_free_block t = nf"
    using assms by (simp_all add: same_coreD nf_def)
  have "same_core (fs_debug1 ''Unlinking block %d.\<newline>'' [b] s)
                  (fs_debug1 ''Unlinking block %d.\<newline>'' [b] t)"
    using assms by simp
  then have R: "rel_option (rel_prod (=) same_core)
      (last_block_in_chain nf (fs_debug1 ''Unlinking block %d.\<newline>'' [b] s))
      (last_block_in_chain nf (fs_debug1 ''Unlinking block %d.\<newline>'' [b] t))"
    by (rule last_block_in_chain_core)
  show ?thesis
    unfolding unlink_def Let_def using True
    by (simp add: nfs) (rule rel_option_bind [OF R], auto simp: same_core_def)
qed

lemma wrap_filename_core:
  "fst (wrap_filename n s) = fst (wrap_filename n t)"
  "same_core (snd (wrap_filename n s)) (snd (wrap_filename n t)) = same_core s t"
  by (simp_all add: wrap_filename_def)

lemma open_for_write_core:
  assumes "same_core s t"
  shows "fst (open_for_write n s) = fst (open_for_write n t)"
    and "same_core (snd (open_for_write n s)) (snd (open_for_write n t))"
  using assms by (simp_all add: open_for_write_def wrap_filename_def Let_def)

lemma open_for_append_core:
  assumes "same_core s t"
  shows "fst (open_for_append n s) = fst (open_for_append n t)"
    and "same_core (snd (open_for_append n s)) (snd (open_for_append n t))"
  using assms by (simp_all add: open_for_append_def wrap_filename_def Let_def same_coreD(1))

lemma open_for_read_core:
  assumes "same_core s t"
  shows "fst (open_for_read n s) = fst (open_for_read n t)"
    and "same_core (snd (open_for_read n s)) (snd (open_for_read n t))"
  using assms by (simp_all add: open_for_read_def wrap_filename_def Let_def same_coreD(1))

lemma write_copy_fold_core:
  assumes "same_core s t"
  shows "fst (fold (write_copy_byte data i) [0..<n] (blk, s))
           = fst (fold (write_copy_byte data i) [0..<n] (blk, t))"
    and "same_core (snd (fold (write_copy_byte data i) [0..<n] (blk, s)))
                   (snd (fold (write_copy_byte data i) [0..<n] (blk, t)))"
proof -
  show "fst (fold (write_copy_byte data i) [0..<n] (blk, s))
           = fst (fold (write_copy_byte data i) [0..<n] (blk, t))"
    using write_copy_fold [of data i n blk s] write_copy_fold [of data i n blk t] by simp
  have "printed_only s (snd (fold (write_copy_byte data i) [0..<n] (blk, s)))"
    "printed_only t (snd (fold (write_copy_byte data i) [0..<n] (blk, t)))"
    using write_copy_fold [of data i n blk s] write_copy_fold [of data i n blk t] by simp_all
  then show "same_core (snd (fold (write_copy_byte data i) [0..<n] (blk, s)))
                   (snd (fold (write_copy_byte data i) [0..<n] (blk, t)))"
    by (rule same_core_printed [OF assms])
qed

lemma write_one_block_core:
  assumes "same_core s t"
  shows "\<exists>blk1 nb1 fh1 s1 t1.
            write_one_block data sz i (blk, nb, fh, s) = (blk1, nb1, fh1, s1)
          \<and> write_one_block data sz i (blk, nb, fh, t) = (blk1, nb1, fh1, t1)
          \<and> same_core s1 t1"
proof -
  define nb1 where "nb1 = (if ((i + 1) * EEPROM_FS_BLOCK_DATA_SIZE) mod 65536 > sz
                           then sz mod EEPROM_FS_BLOCK_DATA_SIZE else nb)"
  define cs where "cs = fold (write_copy_byte data i) [0..<nb1] (blk, s)"
  define ct where "ct = fold (write_copy_byte data i) [0..<nb1] (blk, t)"
  have c: "fst cs = fst ct" "same_core (snd cs) (snd ct)"
    unfolding cs_def ct_def using assms by (rule write_copy_fold_core)+
  have w: "fst (write_block_data (fst ct) (snd cs)) = fst (write_block_data (fst ct) (snd ct))"
    "same_core (snd (write_block_data (fst ct) (snd cs))) (snd (write_block_data (fst ct) (snd ct)))"
    using c(2) by (rule write_block_data_core)+
  have "write_one_block data sz i (blk, nb, fh, s)
          = (fst cs, nb1, fh\<lparr>fh_last_block := fst (write_block_data (fst cs) (snd cs))\<rparr>,
             snd (write_block_data (fst cs) (snd cs)))"
    unfolding write_one_block_def cs_def nb1_def by (simp add: Let_def split_beta)
  then have "write_one_block data sz i (blk, nb, fh, s)
          = (fst ct, nb1, fh\<lparr>fh_last_block := fst (write_block_data (fst ct) (snd ct))\<rparr>,
             snd (write_block_data (fst ct) (snd cs)))"
    by (simp only: c(1) w(1))
  moreover have "write_one_block data sz i (blk, nb, fh, t)
          = (fst ct, nb1, fh\<lparr>fh_last_block := fst (write_block_data (fst ct) (snd ct))\<rparr>,
             snd (write_block_data (fst ct) (snd ct)))"
    unfolding write_one_block_def ct_def nb1_def by (simp add: Let_def split_beta)
  ultimately show ?thesis using w(2) by blast
qed

lemma write_blocks_fold_core:
  "same_core s t \<Longrightarrow>
   \<exists>blk1 nb1 fh1 s1 t1.
      fold (write_one_block data sz) ks (blk, nb, fh, s) = (blk1, nb1, fh1, s1)
    \<and> fold (write_one_block data sz) ks (blk, nb, fh, t) = (blk1, nb1, fh1, t1)
    \<and> same_core s1 t1"
proof (induction ks arbitrary: blk nb fh s t)
  case Nil
  then show ?case by simp
next
  case (Cons k ks)
  from write_one_block_core [OF Cons.prems, of data sz k blk nb fh]
  obtain blk1 nb1 fh1 s1 t1 where o:
    "write_one_block data sz k (blk, nb, fh, s) = (blk1, nb1, fh1, s1)"
    "write_one_block data sz k (blk, nb, fh, t) = (blk1, nb1, fh1, t1)"
    "same_core s1 t1" by blast
  from Cons.IH [OF o(3), of blk1 nb1 fh1] show ?case
    by (simp add: o)
qed

lemma write_blocks_core:
  assumes "same_core s t"
  shows "fst (write_blocks fh data sz blk s) = fst (write_blocks fh data sz blk t)"
    and "same_core (snd (write_blocks fh data sz blk s)) (snd (write_blocks fh data sz blk t))"
proof -
  define used where "used = fa_filesize (alloc_table t (fh_filename fh)) div EEPROM_FS_BLOCK_DATA_SIZE"
  define too_large where "too_large = ((used + sz div EEPROM_FS_BLOCK_DATA_SIZE) mod 65536 > EEPROM_FS_MAX_BLOCKS_PER_FILE)"
  define n where "n = (if too_large then (EEPROM_FS_MAX_BLOCKS_PER_FILE + 65536 - used) mod 65536
                 else (sz div EEPROM_FS_BLOCK_DATA_SIZE + 1) mod 65536)"
  define pre where "pre = (\<lambda>s. if too_large
             then fs_error ''File too large - write truncated to %d bytes.\<newline>''
                    [int ((n * EEPROM_FS_BLOCK_DATA_SIZE) mod 65536)]
                    (fs_debug1 ''Writing %d bytes to file %d.\<newline>'' [int sz, int (fh_filename fh)] s)
             else fs_debug1 ''Writing %d bytes to file %d.\<newline>'' [int sz, int (fh_filename fh)] s)"
  define fh1 where "fh1 = fh\<lparr>fh_first_block := next_free_block (pre t)\<rparr>"
  have a: "alloc_table s = alloc_table t" using assms by (rule same_coreD)
  have p: "same_core (pre s) (pre t)" using assms by (simp add: pre_def)
  have nf: "next_free_block (pre s) = next_free_block (pre t)" using p by (rule same_coreD)
  have unfold: "\<And>u. alloc_table u = alloc_table t \<Longrightarrow> next_free_block (pre u) = next_free_block (pre t) \<Longrightarrow>
     write_blocks fh data sz blk u =
     (if n > 0 then
        (case fold (write_one_block data sz) [0..<n] (blk, EEPROM_FS_BLOCK_DATA_SIZE, fh1, pre u) of
           (blk', num_bytes, fh2, s3) \<Rightarrow>
             (fh2\<lparr>fh_filesize := (if sz > (n * EEPROM_FS_BLOCK_DATA_SIZE) mod 65536
                                  then (n * EEPROM_FS_BLOCK_DATA_SIZE) mod 65536 else sz)\<rparr>,
              fs_debug1 ''File %d successfully written.\<newline>'' [int (fh_filename fh)] s3))
      else (fh, fs_error ''No more space available for file %d.\<newline>'' [int (fh_filename fh)] (pre u)))"
    unfolding write_blocks_def Let_def fh1_def pre_def n_def too_large_def used_def
    by (simp only: fs_debug_frame if_distrib [of next_free_block] next_free_block_print)
  from write_blocks_fold_core [OF p, of data sz "[0..<n]" blk EEPROM_FS_BLOCK_DATA_SIZE fh1]
  obtain blk1 nb1 fh2 s1 t1 where f:
    "fold (write_one_block data sz) [0..<n] (blk, EEPROM_FS_BLOCK_DATA_SIZE, fh1, pre s) = (blk1, nb1, fh2, s1)"
    "fold (write_one_block data sz) [0..<n] (blk, EEPROM_FS_BLOCK_DATA_SIZE, fh1, pre t) = (blk1, nb1, fh2, t1)"
    "same_core s1 t1" by blast
  show "fst (write_blocks fh data sz blk s) = fst (write_blocks fh data sz blk t)"
    by (simp add: unfold [OF a nf] unfold [OF refl refl] f)
  show "same_core (snd (write_blocks fh data sz blk s)) (snd (write_blocks fh data sz blk t))"
    using f(3) p by (simp add: unfold [OF a nf] unfold [OF refl refl] f)
qed

lemma append_merge_core:
  assumes "same_core s t"
  shows "rel_option (rel_prod (=) (rel_prod (=) same_core))
           (append_merge fh d sz tw s) (append_merge fh d sz tw t)"
proof (cases "fh_type fh = FH_APPEND \<and> 0 < fh_filesize fh mod EEPROM_FS_BLOCK_DATA_SIZE")
  case False
  then show ?thesis using assms by (auto simp: append_merge_def)
next
  case True
  have a: "alloc_table s = alloc_table t" using assms by (rule same_coreD)
  have R: "rel_option (rel_prod (=) same_core)
             (last_block_in_chain (fa_data_block (alloc_table t (fh_filename fh))) s)
             (last_block_in_chain (fa_data_block (alloc_table t (fh_filename fh))) t)"
    using assms by (rule last_block_in_chain_core)
  have inner: "rel_option (rel_prod (=) (rel_prod (=) same_core))
      (case read fh' tw s1 of None \<Rightarrow> None | Some (to_write, s2) \<Rightarrow> Some (M to_write, n, s2))
      (case read fh' tw t1 of None \<Rightarrow> None | Some (to_write, s2) \<Rightarrow> Some (M to_write, n, s2))"
    if "same_core s1 t1" for fh' s1 t1 n and M :: "mem \<Rightarrow> mem"
    by (rule rel_option_bind [OF read_core [OF that]]) auto
  show ?thesis
    unfolding append_merge_def Let_def a using True
    by (simp only: if_True simp_thms) (rule rel_option_bind [OF R], auto intro: inner)
qed

lemma fs_write_core:
  assumes "same_core s t"
  shows "rel_option (rel_prod (=) same_core)
           (fs_write fh d sz tw blk s) (fs_write fh d sz tw blk t)"
proof (cases "fh_type fh = FH_WRITE \<or> fh_type fh = FH_APPEND")
  case False
  then show ?thesis using assms by (simp add: fs_write_def)
next
  case True
  have R: "rel_option (rel_prod (=) (rel_prod (=) same_core))
           (append_merge fh d sz tw s) (append_merge fh d sz tw t)"
    using assms by (rule append_merge_core)
  have inner: "rel_prod (=) same_core (write_blocks fh d' n blk s1) (write_blocks fh d' n blk t1)"
    if "same_core s1 t1" for d' n s1 t1
    using write_blocks_core [OF that, of fh d' n blk]
    by (cases "write_blocks fh d' n blk s1"; cases "write_blocks fh d' n blk t1") simp
  show ?thesis
    unfolding fs_write_def using True
    by (simp only: if_True simp_thms) (rule rel_option_bind [OF R], auto intro: inner)
qed

lemma close_link_core:
  assumes "same_core s t"
  shows "rel_option (rel_prod (=) same_core) (close_link fh s) (close_link fh t)"
proof (cases "fh_type fh = FH_APPEND")
  case False
  then show ?thesis using link_core [OF assms, of fh] by (simp add: close_link_def)
next
  case True
  have a: "alloc_table s = alloc_table t" using assms by (rule same_coreD)
  define fh' where "fh' = fh\<lparr>fh_filesize :=
                   (fh_filesize fh + fa_filesize (alloc_table t (fh_filename fh))) mod 65536\<rparr>"
  have n: "fh_filename fh' = fh_filename fh" by (simp add: fh'_def)
  show ?thesis
  proof (cases "fa_filesize (alloc_table t (fh_filename fh)) > EEPROM_FS_BLOCK_DATA_SIZE")
    case big: True
    have R: "rel_option (rel_prod (=) same_core)
             (last_block_in_chain (fa_data_block (alloc_table t (fh_filename fh))) s)
             (last_block_in_chain (fa_data_block (alloc_table t (fh_filename fh))) t)"
      using assms by (rule last_block_in_chain_core)
    show ?thesis
      unfolding close_link_def Let_def a fh'_def [symmetric] n using True big
      by (simp only: if_True simp_thms) (rule rel_option_bind [OF R], auto simp: relink_core)
  next
    case small: False
    have R: "rel_option same_core
               (if 0 < fa_filesize (alloc_table t (fh_filename fh))
                then unlink (fa_data_block (alloc_table t (fh_filename fh))) s else Some s)
               (if 0 < fa_filesize (alloc_table t (fh_filename fh))
                then unlink (fa_data_block (alloc_table t (fh_filename fh))) t else Some t)"
      using assms unlink_core [OF assms] by simp
    show ?thesis
      unfolding close_link_def Let_def a fh'_def [symmetric] n using True small
      by (simp only: if_True if_False simp_thms) (rule rel_option_bind [OF R], auto simp: link_core)
  qed
qed

lemma close_core:
  assumes "same_core s t"
  shows "rel_option (rel_prod (=) same_core) (close fh s) (close fh t)"
proof -
  have "same_core (fs_debug1 ''Finalising file %d.\<newline>'' [int (fh_filename fh)] s)
                  (fs_debug1 ''Finalising file %d.\<newline>'' [int (fh_filename fh)] t)"
    using assms by simp
  then have R: "rel_option (rel_prod (=) same_core)
      (close_link fh (fs_debug1 ''Finalising file %d.\<newline>'' [int (fh_filename fh)] s))
      (close_link fh (fs_debug1 ''Finalising file %d.\<newline>'' [int (fh_filename fh)] t))"
    by (rule close_link_core)
  show ?thesis
    unfolding close_def Let_def
    by (rule rel_option_bind [OF R]) (auto simp: relink_core)
qed

lemma delete_core:
  assumes "same_core s t"
  shows "rel_option same_core (delete n s) (delete n t)"
proof -
  define s2 where "s2 = snd (wrap_filename n (fs_debug1 ''Deleting file %d.\<newline>'' [int n] s))"
  define t2 where "t2 = snd (wrap_filename n (fs_debug1 ''Deleting file %d.\<newline>'' [int n] t))"
  define f where "f = fst (wrap_filename n (fs_debug1 ''Deleting file %d.\<newline>'' [int n] t)) mod EEPROM_FS_MAX_FILES"
  have f: "fst (wrap_filename n (fs_debug1 ''Deleting file %d.\<newline>'' [int n] s)) mod EEPROM_FS_MAX_FILES = f"
    unfolding f_def by (simp add: wrap_filename_def)
  have c: "same_core s2 t2"
    unfolding s2_def t2_def using assms by (simp add: wrap_filename_core)
  then have a: "alloc_table s2 = alloc_table t2" by (rule same_coreD)
  have R: "rel_option same_core (unlink (fa_data_block (alloc_table t2 f)) s2)
                                (unlink (fa_data_block (alloc_table t2 f)) t2)"
    using c by (rule unlink_core)
  show ?thesis
    unfolding delete_def Let_def split_beta s2_def [symmetric] t2_def [symmetric] f f_def [symmetric] a
    by (rule rel_option_bind [OF R]) (auto simp: same_core_def)
qed

lemma format_block_core:
  assumes "same_core s t"
  shows "same_core (format_block f d i s) (format_block f d i t)"
  using assms relink_core [OF assms, of i "i - 1"]
  by (simp add: format_block_def Let_def) (simp add: same_core_def)

lemma format_fold_core:
  "same_core s t \<Longrightarrow> same_core (fold (format_block f d) xs s) (fold (format_block f d) xs t)"
proof (induction xs arbitrary: s t)
  case Nil
  then show ?case by simp
next
  case (Cons x xs)
  from Cons.prems have "same_core (format_block f d x s) (format_block f d x t)"
    by (rule format_block_core)
  from Cons.IH [OF this] show ?case by simp
qed

lemma wipe_eeprom_core:
  assumes "same_core s t"
  shows "same_core (wipe_eeprom s) (wipe_eeprom t)"
  using assms by (simp add: same_core_def) (simp add: wipe_eeprom_def)

lemma format_eepromfs_core:
  assumes "same_core s t"
  shows "same_core (format_eepromfs f s) (format_eepromfs f t)"
proof -
  let ?pre = "\<lambda>u. if f = FORMAT_WIPE then wipe_eeprom (fs_debug1 ''Formatting filesystem.\<newline>'' [] u)
                   else fs_debug1 ''Formatting filesystem.\<newline>'' [] u"
  have "same_core (?pre s) (?pre t)"
    using assms by (simp add: wipe_eeprom_core)
  then have "same_core (fold (format_block f (replicate 30 0)) (map int [0..<59]) (?pre s))
                       (fold (format_block f (replicate 30 0)) (map int [0..<59]) (?pre t))"
    by (rule format_fold_core)
  then have "eeprom (fold (format_block f (replicate 30 0)) (map int [0..<59]) (?pre s))
           = eeprom (fold (format_block f (replicate 30 0)) (map int [0..<59]) (?pre t))"
    by (rule same_coreD)
  then show ?thesis
    using assms
    by (simp add: same_core_def format_eepromfs_table format_eepromfs_eeprom)
qed

lemma init_eepromfs_core:
  assumes "same_core s t"
  shows "same_core (init_eepromfs s) (init_eepromfs t)"
proof -
  let ?pre = "\<lambda>u. fs_debug2 ''Done.\<newline>'' [] (fs_debug2 ''Loading metadata...'' []
                    (fs_debug1 ''Initialising filesystem.\<newline>'' [] u))"
  have "same_core (?pre s) (?pre t)" using assms by simp
  then have "same_core (format_eepromfs FORMAT_QUICK (?pre s)) (format_eepromfs FORMAT_QUICK (?pre t))"
    by (rule format_eepromfs_core)
  then have F: "alloc_table (format_eepromfs FORMAT_QUICK (?pre s)) = alloc_table (format_eepromfs FORMAT_QUICK (?pre t))"
    "eeprom (format_eepromfs FORMAT_QUICK (?pre s)) = eeprom (format_eepromfs FORMAT_QUICK (?pre t))"
    by (simp_all add: same_core_def)
  have e: "eeprom s = eeprom t" "alloc_table s = alloc_table t" "errors_of s = errors_of t"
    using assms by (simp_all add: same_core_def)
  show ?thesis
    unfolding init_eepromfs_def Let_def same_core_def
    by (simp add: F e)
qed



section \<open>What a written block holds\<close>

lemma write_one_block_data:
  assumes "in_pool (next_free_block s)"
  shows "blk_data (eeprom (snd (snd (snd (write_one_block data sz i (blk, nb, fh, s))))))
           (next_free_block s)
         = map (\<lambda>j. if j < (if ((i + 1) * EEPROM_FS_BLOCK_DATA_SIZE) mod 65536 > sz
                                then sz mod EEPROM_FS_BLOCK_DATA_SIZE else nb)
                       then data ((i * EEPROM_FS_BLOCK_DATA_SIZE + j) mod 65536) else blk j) [0..<30]"
proof -
  define nb1 where "nb1 = (if ((i + 1) * EEPROM_FS_BLOCK_DATA_SIZE) mod 65536 > sz
                           then sz mod EEPROM_FS_BLOCK_DATA_SIZE else nb)"
  define cs where "cs = fold (write_copy_byte data i) [0..<nb1] (blk, s)"
  from write_copy_fold [of data i nb1 blk s]
  have b: "fst cs = (\<lambda>j. if j < nb1 then data ((i * EEPROM_FS_BLOCK_DATA_SIZE + j) mod 65536) else blk j)"
    and p: "printed_only s (snd cs)" by (simp_all add: cs_def)
  have n0: "next_free_block (snd cs) = next_free_block s" using p by (simp add: printed_onlyD)
  then have pool: "in_pool (next_free_block (snd cs))" using assms by simp
  have eq: "snd (snd (snd (write_one_block data sz i (blk, nb, fh, s))))
              = snd (write_block_data (fst cs) (snd cs))"
    unfolding write_one_block_def cs_def nb1_def by (simp add: Let_def split_beta)
  show ?thesis
    unfolding eq write_block_data_ok(4) [OF pool] n0 nb1_def [symmetric] b [symmetric]
    by (rule blk_data_write_same) simp
qed

lemma write_blocks_one:
  assumes "in_pool (next_free_block s)" "fa_filesize (alloc_table s (fh_filename fh)) < 30" "sz < 30"
  shows "write_blocks fh data sz blk s =
           (case write_one_block data sz 0
                   (blk, 30, fh\<lparr>fh_first_block := next_free_block s\<rparr>,
                    fs_debug1 ''Writing %d bytes to file %d.\<newline>'' [int sz, int (fh_filename fh)] s) of
              (b, nb, fh2, s3) \<Rightarrow>
                (fh2\<lparr>fh_filesize := sz\<rparr>,
                 fs_debug1 ''File %d successfully written.\<newline>'' [int (fh_filename fh)] s3))"
  using assms(2,3) by (simp add: write_blocks_def Let_def cfg_defs)

lemma write_blocks_one_data:
  assumes "in_pool (next_free_block s)" "fa_filesize (alloc_table s (fh_filename fh)) < 30" "sz < 30"
  shows "blk_data (eeprom (snd (write_blocks fh data sz blk s))) (next_free_block s)
           = map (\<lambda>j. if j < sz then data j else blk j) [0..<30]"
proof -
  let ?s2 = "fs_debug1 ''Writing %d bytes to file %d.\<newline>'' [int sz, int (fh_filename fh)] s"
  have pool: "in_pool (next_free_block ?s2)" using assms(1) by simp
  have "blk_data (eeprom (snd (write_blocks fh data sz blk s))) (next_free_block ?s2)
          = map (\<lambda>j. if j < sz then data j else blk j) [0..<30]"
    using write_one_block_data [OF pool, of data sz 0 blk 30 "fh\<lparr>fh_first_block := next_free_block s\<rparr>"] assms(3)
    unfolding write_blocks_one [OF assms]
    by (simp add: split_beta cfg_defs)
  then show ?thesis by simp
qed


section \<open>Deleting when the free chain is empty\<close>

lemma stored_alloc_size_write:
  "stored_alloc (eeprom_write_block (le16 x) (alloc_entry_addr i) e) i
     = \<lparr>fa_filesize = nat (x mod 65536), fa_data_block = fa_data_block (stored_alloc e i)\<rparr>"
proof -
  have "eeprom_read_block (eeprom_write_block (le16 x) (alloc_entry_addr i) e) (alloc_entry_addr i) 2
          = le16 x"
    using read_write_same [of "le16 x" "alloc_entry_addr i" e] by simp
  moreover have "eeprom_read_block (eeprom_write_block (le16 x) (alloc_entry_addr i) e)
                   (alloc_entry_addr i + 2) 2
                 = eeprom_read_block e (alloc_entry_addr i + 2) 2"
    by (rule read_write_disjoint) simp
  ultimately show ?thesis
    by (simp add: stored_alloc_read u16_of_le16)
qed

lemma delete_pool_exhausted:
  assumes "f < EEPROM_FS_MAX_FILES" "in_pool (fa_data_block (alloc_table s f))"
    "\<not> in_pool (next_free_block s)" "f \<noteq> 22"
  shows "\<exists>s'. delete f s = Some s'
           \<and> alloc_table s' = (alloc_table s)(f := \<lparr>fa_filesize = 0, fa_data_block = NULL_PTR\<rparr>)
           \<and> errors_of s' = errors_of s @
                [(0, ''Block %d is not part of a block chain.\<newline>'', [next_free_block s])]
           \<and> stored_alloc (eeprom s') f = \<lparr>fa_filesize = 0, fa_data_block = NULL_PTR\<rparr>
           \<and> stored_alloc (eeprom s') 22
                = \<lparr>fa_filesize = nat (fa_data_block (alloc_table s f)),
                   fa_data_block = fa_data_block (stored_alloc (eeprom s) 22)\<rparr>"
proof -
  let ?b = "fa_data_block (alloc_table s f)"
  let ?s2 = "fs_debug1 ''Deleting file %d.\<newline>'' [int f] s"
  let ?e1 = "eeprom_write_block (le16 ?b) (get_block_pointer NULL_PTR) (eeprom s)"
  have "\<exists>s3. unlink ?b ?s2 = Some s3 \<and> alloc_table s3 = alloc_table s
          \<and> errors_of s3 = errors_of s @
                [(0, ''Block %d is not part of a block chain.\<newline>'', [next_free_block s])]
          \<and> eeprom s3 = ?e1"
    using assms(2,3)
    by (simp add: unlink_def Let_def enc_block_def last_block_in_chain_invalid cfg_defs)
  then obtain s3 where s3: "unlink ?b ?s2 = Some s3" "alloc_table s3 = alloc_table s"
    "errors_of s3 = errors_of s @
                [(0, ''Block %d is not part of a block chain.\<newline>'', [next_free_block s])]"
    "eeprom s3 = ?e1" by blast
  have "\<exists>s'. delete f s = Some s'
           \<and> alloc_table s' = (alloc_table s)(f := \<lparr>fa_filesize = 0, fa_data_block = NULL_PTR\<rparr>)
           \<and> errors_of s' = errors_of s @
                [(0, ''Block %d is not part of a block chain.\<newline>'', [next_free_block s])]
           \<and> eeprom s' = eeprom_write_block (enc_file_alloc \<lparr>fa_filesize = 0, fa_data_block = NULL_PTR\<rparr>)
                            (alloc_entry_addr f) ?e1"
    using assms(1) s3 by (simp add: delete_def Let_def eeprom_update_block_eq_write)
  then obtain s' where s': "delete f s = Some s'"
    "alloc_table s' = (alloc_table s)(f := \<lparr>fa_filesize = 0, fa_data_block = NULL_PTR\<rparr>)"
    "errors_of s' = errors_of s @
                [(0, ''Block %d is not part of a block chain.\<newline>'', [next_free_block s])]"
    "eeprom s' = eeprom_write_block (enc_file_alloc \<lparr>fa_filesize = 0, fa_data_block = NULL_PTR\<rparr>)
                            (alloc_entry_addr f) ?e1" by blast
  have a22: "alloc_entry_addr 22 = get_block_pointer NULL_PTR"
    unfolding get_block_pointer_NULL_PTR by (simp add: alloc_entry_addr_val cfg_defs)
  have b: "0 \<le> ?b" "?b < 59" using in_poolD [OF assms(2)] by simp_all
  have "stored_alloc (eeprom s') 22 = stored_alloc ?e1 22"
    unfolding s'(4) using assms(1,4)
    by (intro stored_alloc_entry_write_other) (simp_all add: cfg_defs)
  also have "\<dots> = \<lparr>fa_filesize = nat (?b mod 65536),
                     fa_data_block = fa_data_block (stored_alloc (eeprom s) 22)\<rparr>"
    unfolding a22 [symmetric] by (rule stored_alloc_size_write)
  also have "nat (?b mod 65536) = nat ?b" using b by simp
  finally have e22: "stored_alloc (eeprom s') 22
                = \<lparr>fa_filesize = nat ?b, fa_data_block = fa_data_block (stored_alloc (eeprom s) 22)\<rparr>" .
  have ef: "stored_alloc (eeprom s') f = \<lparr>fa_filesize = 0, fa_data_block = NULL_PTR\<rparr>"
    unfolding s'(4) by (rule entry_write_effects(1) [OF assms(1)])
  show ?thesis using s'(1,2,3) e22 ef by blast
qed

lemma countdown_path_below:
  assumes "\<And>x. 0 \<le> x \<Longrightarrow> x \<le> c \<Longrightarrow> blk_next e x = x - 1" "c < 59"
  shows "b \<le> c \<Longrightarrow> int k \<le> b + 1 \<Longrightarrow>
         is_path e b (map (\<lambda>i. b - int i) [0..<k]) (b - int k)"
proof (induction k arbitrary: b)
  case 0
  then show ?case by simp
next
  case (Suc k)
  have b: "0 \<le> b" "b \<le> c" using Suc.prems by simp_all
  then have pool: "in_pool b" using assms(2) by (simp add: in_pool_def cfg_defs)
  have nb: "blk_next e b = b - 1" using b by (rule assms(1))
  have IH: "is_path e (b - 1) (map (\<lambda>i. b - 1 - int i) [0..<k]) (b - 1 - int k)"
    using Suc.prems by (intro Suc.IH) simp_all
  have m: "map (\<lambda>i. b - int i) [0..<Suc k] = b # map (\<lambda>i. b - 1 - int i) [0..<k]"
    by (simp add: upt_conv_Cons map_Suc_upt [symmetric] del: upt_Suc)
  have e: "b - int (Suc k) = b - 1 - int k" by simp
  show ?case
    unfolding m e using pool IH by (simp add: nb)
qed

lemma close_other_stored:
  assumes "fh_type fh \<noteq> FH_APPEND" "in_pool (fh_first_block fh)"
    "close fh s = Some (fh', s')"
    "i < EEPROM_FS_MAX_FILES" "i \<noteq> fh_filename fh mod EEPROM_FS_MAX_FILES"
  shows "stored_alloc (eeprom s') i = stored_alloc (eeprom s) i"
proof -
  let ?f = "fh_filename fh mod EEPROM_FS_MAX_FILES"
  have f: "?f \<le> EEPROM_FS_MAX_FILES"
    using mod_less_divisor [of EEPROM_FS_MAX_FILES "fh_filename fh"] by (simp add: cfg_defs)
  have l: "stored_alloc (eeprom (link fh t)) i = stored_alloc (eeprom t) i" for t
    unfolding link_ok(2) [OF assms(2)]
    using assms(4,5) f by (simp add: stored_alloc_entry_write_other)
  show ?thesis
    using assms(1,3,4) l
    by (auto simp: close_def close_link_def Let_def relink_stored)
qed

lemma write_file_other_stored:
  assumes name: "name < EEPROM_FS_MAX_FILES"
    and fits: "fa_filesize (alloc_table s name) div EEPROM_FS_BLOCK_DATA_SIZE
                 + sz div EEPROM_FS_BLOCK_DATA_SIZE \<le> EEPROM_FS_MAX_BLOCKS_PER_FILE"
    and path: "is_path (eeprom s) (next_free_block s) xs c"
    and len: "length xs = sz div EEPROM_FS_BLOCK_DATA_SIZE + 1"
    and wf: "write_file name data sz tw blk s = Some s'"
    and i: "i < EEPROM_FS_MAX_FILES" "i \<noteq> name"
  shows "stored_alloc (eeprom s') i = stored_alloc (eeprom s) i"
proof -
  define fh where "fh = fst (open_for_write name s)"
  define s1 where "s1 = snd (open_for_write name s)"
  have o: "open_for_write name s = (fh, s1)" by (simp add: fh_def s1_def)
  have fh: "fh = \<lparr>fh_filename = name, fh_filesize = 0, fh_type = FH_WRITE,
                  fh_first_block = NULL_PTR, fh_last_block = NULL_PTR\<rparr>"
    using open_for_write_handle [of name s] name by (simp add: fh_def)
  have s1: "alloc_table s1 = alloc_table s" "eeprom s1 = eeprom s"
    "next_free_block s1 = next_free_block s"
    by (simp_all add: s1_def next_free_block_def)
  have xs: "xs \<noteq> []" using len by auto
  have d: "sz div 30 \<le> 8" "fa_filesize (alloc_table s name) div 30 + sz div 30 \<le> 8"
    using fits by (simp_all add: cfg_defs)
  have path1: "is_path (eeprom s1) (next_free_block s1) xs c" using path by (simp add: s1)
  have len1: "length xs = (if (fa_filesize (alloc_table s1 (fh_filename fh)) div EEPROM_FS_BLOCK_DATA_SIZE
                   + sz div EEPROM_FS_BLOCK_DATA_SIZE) mod 65536 > EEPROM_FS_MAX_BLOCKS_PER_FILE
               then (EEPROM_FS_MAX_BLOCKS_PER_FILE + 65536
                      - fa_filesize (alloc_table s1 (fh_filename fh)) div EEPROM_FS_BLOCK_DATA_SIZE) mod 65536
               else (sz div EEPROM_FS_BLOCK_DATA_SIZE + 1) mod 65536)"
    using len d by (simp add: s1 fh cfg_defs)
  define fh2 where "fh2 = fst (write_blocks fh data sz blk s1)"
  define s2 where "s2 = snd (write_blocks fh data sz blk s1)"
  from write_blocks_ok [OF path1 len1, of data blk] xs
  have s2: "fh_type fh2 = FH_WRITE" "fh_filename fh2 = name" "fh_first_block fh2 = hd xs"
    "\<forall>a<130. eeprom s2 a = eeprom s1 a"
    unfolding len1 [symmetric] fh2_def s2_def by (auto simp: fh)
  have w: "fs_write fh data sz tw blk s1 = Some (fh2, s2)"
    by (simp add: fs_write_WRITE fh fh2_def s2_def)
  from wf obtain fh3 where c: "close fh2 s2 = Some (fh3, s')"
    by (auto simp: write_file_def o w split: option.splits)
  have p: "in_pool (fh_first_block fh2)"
    using is_path_hd [OF path xs] by (simp add: s2(3))
  have "stored_alloc (eeprom s') i = stored_alloc (eeprom s2) i"
    by (rule close_other_stored [OF _ p c i(1)]) (use i(2) name in \<open>simp_all add: s2\<close>)
  also have "\<dots> = stored_alloc (eeprom s1) i"
    using s2(4) by (rule stored_alloc_table_bytes) (use i(1) in simp)
  finally show ?thesis by (simp add: s1)
qed

lemma write_countdown:
  assumes name: "name < EEPROM_FS_MAX_FILES" and empty: "fa_filesize (alloc_table s name) = 0"
    and nf: "next_free_block s = c"
    and links: "\<And>x. 0 \<le> x \<Longrightarrow> x \<le> c \<Longrightarrow> blk_next (eeprom s) x = x - 1"
    and c: "c < 59" and n: "n = sz div 30 + 1" and room: "int n \<le> c + 1" and sz: "sz < 270"
  shows "\<exists>s'. write_file name data sz tw blk s = Some s'
           \<and> alloc_table s' name = \<lparr>fa_filesize = sz, fa_data_block = c\<rparr>
           \<and> (\<forall>i<EEPROM_FS_MAX_FILES. i \<noteq> name \<longrightarrow> alloc_table s' i = alloc_table s i)
           \<and> next_free_block s' = c - int n
           \<and> errors_of s' = errors_of s
           \<and> (\<forall>x. 0 \<le> x \<and> x \<le> c - int n \<longrightarrow> blk_next (eeprom s') x = x - 1)
           \<and> (\<forall>i<EEPROM_FS_MAX_FILES. i \<noteq> name \<longrightarrow>
                 stored_alloc (eeprom s') i = stored_alloc (eeprom s) i)"
proof -
  define xs where "xs = map (\<lambda>i. c - int i) [0..<n]"
  have npos: "0 < n" using n by simp
  have path: "is_path (eeprom s) (next_free_block s) xs (c - int n)"
    unfolding xs_def nf by (rule countdown_path_below [OF links c]) (use room in simp_all)
  have dist: "distinct xs" unfolding xs_def by (rule distinct_countdown)
  have len: "length xs = sz div EEPROM_FS_BLOCK_DATA_SIZE + 1" by (simp add: xs_def n cfg_defs)
  have fits: "fa_filesize (alloc_table s name) div EEPROM_FS_BLOCK_DATA_SIZE
                 + sz div EEPROM_FS_BLOCK_DATA_SIZE \<le> EEPROM_FS_MAX_BLOCKS_PER_FILE"
    using sz by (simp add: empty cfg_defs)
  have hd: "hd xs = c" using npos by (simp add: xs_def hd_map hd_upt)
  have lst: "last xs = c - int n + 1" using npos by (simp add: xs_def last_map)
  from write_file_plain [OF name fits path dist len, of data tw blk] obtain s' where s':
    "write_file name data sz tw blk s = Some s'"
    "alloc_table s' = (alloc_table s)
                (EEPROM_FS_MAX_FILES := (alloc_table s EEPROM_FS_MAX_FILES)\<lparr>fa_data_block := c - int n\<rparr>,
                 name := \<lparr>fa_filesize = sz, fa_data_block = hd xs\<rparr>)"
    "next_free_block s' = c - int n" "errors_of s' = errors_of s"
    "\<forall>b. in_pool b \<longrightarrow> b \<noteq> last xs \<longrightarrow> blk_next (eeprom s') b = blk_next (eeprom s) b"
    by blast
  have l: "blk_next (eeprom s') x = x - 1" if "0 \<le> x" "x \<le> c - int n" for x
  proof -
    have "in_pool x" using that c by (simp add: in_pool_def cfg_defs)
    moreover have "x \<noteq> last xs" using that by (simp add: lst)
    ultimately have "blk_next (eeprom s') x = blk_next (eeprom s) x" using s'(5) by simp
    also have "\<dots> = x - 1" using that by (intro links) simp_all
    finally show ?thesis .
  qed
  have st: "stored_alloc (eeprom s') i = stored_alloc (eeprom s) i"
    if "i < EEPROM_FS_MAX_FILES" "i \<noteq> name" for i
    using name fits path len s'(1) that by (rule write_file_other_stored)
  have t: "alloc_table s' i = alloc_table s i" if "i < EEPROM_FS_MAX_FILES" "i \<noteq> name" for i
    using that by (simp add: s'(2))
  have "alloc_table s' name = \<lparr>fa_filesize = sz, fa_data_block = c\<rparr>"
    by (simp add: s'(2) hd)
  then show ?thesis
    using s'(1,3,4) l st t by blast
qed

text \<open>
  C7 (delete isolates), when the pool is exhausted. On the fresh file system six files of
  240 bytes and one of 120 bytes are written to the names 0 to 6; every call returns
  without an error, and the 59 blocks of the pool are then all in use: the head of the free
  chain is the null sentinel. \<open>delete(0)\<close> returns and sets entry 0 to \<open>{0, null}\<close> in RAM and
  on the medium, but \<open>unlink\<close>, finding no last free block, writes the number of the file's
  first block through the block pointer of the null sentinel, which is the address of the
  stored entry 22: that entry, \<open>{0, null}\<close> before the call and still \<open>{0, null}\<close> in RAM, is
  \<open>{58, null}\<close> on the medium afterwards.
\<close>

theorem delete_damages_entry_22:
  "\<exists>s1 s2 s3 s4 s5 s6 s7 s'.
      write_file 0 d 240 tw blk fresh = Some s1
    \<and> write_file 1 d 240 tw blk s1 = Some s2
    \<and> write_file 2 d 240 tw blk s2 = Some s3
    \<and> write_file 3 d 240 tw blk s3 = Some s4
    \<and> write_file 4 d 240 tw blk s4 = Some s5
    \<and> write_file 5 d 240 tw blk s5 = Some s6
    \<and> write_file 6 d 120 tw blk s6 = Some s7
    \<and> errors_of s7 = []
    \<and> next_free_block s7 = NULL_PTR
    \<and> alloc_table s7 0 = \<lparr>fa_filesize = 240, fa_data_block = 58\<rparr>
    \<and> alloc_table s7 22 = \<lparr>fa_filesize = 0, fa_data_block = NULL_PTR\<rparr>
    \<and> stored_alloc (eeprom s7) 22 = \<lparr>fa_filesize = 0, fa_data_block = NULL_PTR\<rparr>
    \<and> delete 0 s7 = Some s'
    \<and> errors_of s' = [(0, ''Block %d is not part of a block chain.\<newline>'', [NULL_PTR])]
    \<and> alloc_table s' 0 = \<lparr>fa_filesize = 0, fa_data_block = NULL_PTR\<rparr>
    \<and> stored_alloc (eeprom s') 0 = \<lparr>fa_filesize = 0, fa_data_block = NULL_PTR\<rparr>
    \<and> alloc_table s' 22 = \<lparr>fa_filesize = 0, fa_data_block = NULL_PTR\<rparr>
    \<and> stored_alloc (eeprom s') 22 = \<lparr>fa_filesize = 58, fa_data_block = NULL_PTR\<rparr>"
proof -
  have null: "alloc_table fresh i = \<lparr>fa_filesize = 0, fa_data_block = NULL_PTR\<rparr>"
    if "i < EEPROM_FS_MAX_FILES" for i
    using that by (rule fresh_entry)
  have st0: "stored_alloc (eeprom fresh) 22 = \<lparr>fa_filesize = 0, fa_data_block = NULL_PTR\<rparr>"
    unfolding fresh_def
    by (simp add: format_eepromfs_stored_alloc format_null_entry cfg_defs)
  have l0: "blk_next (eeprom fresh) x = x - 1" if "0 \<le> x" "x \<le> 58" for x
    using that by (intro fresh_next) (simp add: in_pool_def cfg_defs)
  have n0: "(0::nat) < EEPROM_FS_MAX_FILES" by (simp add: cfg_defs)
  have e0: "fa_filesize (alloc_table fresh 0) = 0"
    by (simp add: null cfg_defs)
  have f0: "next_free_block fresh = 58" by (simp add: fresh_fields)
  from write_countdown [OF n0 e0 f0 l0, of 9 240 d tw blk]
  obtain s1 where s1: "write_file 0 d 240 tw blk fresh = Some s1"
    "alloc_table s1 0 = \<lparr>fa_filesize = 240, fa_data_block = 58\<rparr>"
    "\<forall>i<EEPROM_FS_MAX_FILES. i \<noteq> 0 \<longrightarrow> alloc_table s1 i = alloc_table fresh i"
    "next_free_block s1 = 49"
    "errors_of s1 = errors_of fresh"
    "\<forall>x. 0 \<le> x \<and> x \<le> 49 \<longrightarrow> blk_next (eeprom s1) x = x - 1"
    "\<forall>i<EEPROM_FS_MAX_FILES. i \<noteq> 0 \<longrightarrow> stored_alloc (eeprom s1) i = stored_alloc (eeprom fresh) i"
    by auto
  have l1: "blk_next (eeprom s1) x = x - 1" if "0 \<le> x" "x \<le> 49" for x
    using that s1(6) by simp
  have n1: "(1::nat) < EEPROM_FS_MAX_FILES" by (simp add: cfg_defs)
  have e1: "fa_filesize (alloc_table s1 1) = 0"
    by (simp add: s1(3) null cfg_defs)
  have f1: "next_free_block s1 = 49" by (simp add: s1(4))
  from write_countdown [OF n1 e1 f1 l1, of 9 240 d tw blk]
  obtain s2 where s2: "write_file 1 d 240 tw blk s1 = Some s2"
    "alloc_table s2 1 = \<lparr>fa_filesize = 240, fa_data_block = 49\<rparr>"
    "\<forall>i<EEPROM_FS_MAX_FILES. i \<noteq> 1 \<longrightarrow> alloc_table s2 i = alloc_table s1 i"
    "next_free_block s2 = 40"
    "errors_of s2 = errors_of s1"
    "\<forall>x. 0 \<le> x \<and> x \<le> 40 \<longrightarrow> blk_next (eeprom s2) x = x - 1"
    "\<forall>i<EEPROM_FS_MAX_FILES. i \<noteq> 1 \<longrightarrow> stored_alloc (eeprom s2) i = stored_alloc (eeprom s1) i"
    by auto
  have l2: "blk_next (eeprom s2) x = x - 1" if "0 \<le> x" "x \<le> 40" for x
    using that s2(6) by simp
  have n2: "(2::nat) < EEPROM_FS_MAX_FILES" by (simp add: cfg_defs)
  have e2: "fa_filesize (alloc_table s2 2) = 0"
    by (simp add: s2(3) s1(3) null cfg_defs)
  have f2: "next_free_block s2 = 40" by (simp add: s2(4))
  from write_countdown [OF n2 e2 f2 l2, of 9 240 d tw blk]
  obtain s3 where s3: "write_file 2 d 240 tw blk s2 = Some s3"
    "alloc_table s3 2 = \<lparr>fa_filesize = 240, fa_data_block = 40\<rparr>"
    "\<forall>i<EEPROM_FS_MAX_FILES. i \<noteq> 2 \<longrightarrow> alloc_table s3 i = alloc_table s2 i"
    "next_free_block s3 = 31"
    "errors_of s3 = errors_of s2"
    "\<forall>x. 0 \<le> x \<and> x \<le> 31 \<longrightarrow> blk_next (eeprom s3) x = x - 1"
    "\<forall>i<EEPROM_FS_MAX_FILES. i \<noteq> 2 \<longrightarrow> stored_alloc (eeprom s3) i = stored_alloc (eeprom s2) i"
    by auto
  have l3: "blk_next (eeprom s3) x = x - 1" if "0 \<le> x" "x \<le> 31" for x
    using that s3(6) by simp
  have n3: "(3::nat) < EEPROM_FS_MAX_FILES" by (simp add: cfg_defs)
  have e3: "fa_filesize (alloc_table s3 3) = 0"
    by (simp add: s3(3) s2(3) s1(3) null cfg_defs)
  have f3: "next_free_block s3 = 31" by (simp add: s3(4))
  from write_countdown [OF n3 e3 f3 l3, of 9 240 d tw blk]
  obtain s4 where s4: "write_file 3 d 240 tw blk s3 = Some s4"
    "alloc_table s4 3 = \<lparr>fa_filesize = 240, fa_data_block = 31\<rparr>"
    "\<forall>i<EEPROM_FS_MAX_FILES. i \<noteq> 3 \<longrightarrow> alloc_table s4 i = alloc_table s3 i"
    "next_free_block s4 = 22"
    "errors_of s4 = errors_of s3"
    "\<forall>x. 0 \<le> x \<and> x \<le> 22 \<longrightarrow> blk_next (eeprom s4) x = x - 1"
    "\<forall>i<EEPROM_FS_MAX_FILES. i \<noteq> 3 \<longrightarrow> stored_alloc (eeprom s4) i = stored_alloc (eeprom s3) i"
    by auto
  have l4: "blk_next (eeprom s4) x = x - 1" if "0 \<le> x" "x \<le> 22" for x
    using that s4(6) by simp
  have n4: "(4::nat) < EEPROM_FS_MAX_FILES" by (simp add: cfg_defs)
  have e4: "fa_filesize (alloc_table s4 4) = 0"
    by (simp add: s4(3) s3(3) s2(3) s1(3) null cfg_defs)
  have f4: "next_free_block s4 = 22" by (simp add: s4(4))
  from write_countdown [OF n4 e4 f4 l4, of 9 240 d tw blk]
  obtain s5 where s5: "write_file 4 d 240 tw blk s4 = Some s5"
    "alloc_table s5 4 = \<lparr>fa_filesize = 240, fa_data_block = 22\<rparr>"
    "\<forall>i<EEPROM_FS_MAX_FILES. i \<noteq> 4 \<longrightarrow> alloc_table s5 i = alloc_table s4 i"
    "next_free_block s5 = 13"
    "errors_of s5 = errors_of s4"
    "\<forall>x. 0 \<le> x \<and> x \<le> 13 \<longrightarrow> blk_next (eeprom s5) x = x - 1"
    "\<forall>i<EEPROM_FS_MAX_FILES. i \<noteq> 4 \<longrightarrow> stored_alloc (eeprom s5) i = stored_alloc (eeprom s4) i"
    by auto
  have l5: "blk_next (eeprom s5) x = x - 1" if "0 \<le> x" "x \<le> 13" for x
    using that s5(6) by simp
  have n5: "(5::nat) < EEPROM_FS_MAX_FILES" by (simp add: cfg_defs)
  have e5: "fa_filesize (alloc_table s5 5) = 0"
    by (simp add: s5(3) s4(3) s3(3) s2(3) s1(3) null cfg_defs)
  have f5: "next_free_block s5 = 13" by (simp add: s5(4))
  from write_countdown [OF n5 e5 f5 l5, of 9 240 d tw blk]
  obtain s6 where s6: "write_file 5 d 240 tw blk s5 = Some s6"
    "alloc_table s6 5 = \<lparr>fa_filesize = 240, fa_data_block = 13\<rparr>"
    "\<forall>i<EEPROM_FS_MAX_FILES. i \<noteq> 5 \<longrightarrow> alloc_table s6 i = alloc_table s5 i"
    "next_free_block s6 = 4"
    "errors_of s6 = errors_of s5"
    "\<forall>x. 0 \<le> x \<and> x \<le> 4 \<longrightarrow> blk_next (eeprom s6) x = x - 1"
    "\<forall>i<EEPROM_FS_MAX_FILES. i \<noteq> 5 \<longrightarrow> stored_alloc (eeprom s6) i = stored_alloc (eeprom s5) i"
    by auto
  have l6: "blk_next (eeprom s6) x = x - 1" if "0 \<le> x" "x \<le> 4" for x
    using that s6(6) by simp
  have n6: "(6::nat) < EEPROM_FS_MAX_FILES" by (simp add: cfg_defs)
  have e6: "fa_filesize (alloc_table s6 6) = 0"
    by (simp add: s6(3) s5(3) s4(3) s3(3) s2(3) s1(3) null cfg_defs)
  have f6: "next_free_block s6 = 4" by (simp add: s6(4))
  from write_countdown [OF n6 e6 f6 l6, of 5 120 d tw blk]
  obtain s7 where s7: "write_file 6 d 120 tw blk s6 = Some s7"
    "alloc_table s7 6 = \<lparr>fa_filesize = 120, fa_data_block = 4\<rparr>"
    "\<forall>i<EEPROM_FS_MAX_FILES. i \<noteq> 6 \<longrightarrow> alloc_table s7 i = alloc_table s6 i"
    "next_free_block s7 = - 1"
    "errors_of s7 = errors_of s6"
    "\<forall>x. 0 \<le> x \<and> x \<le> - 1 \<longrightarrow> blk_next (eeprom s7) x = x - 1"
    "\<forall>i<EEPROM_FS_MAX_FILES. i \<noteq> 6 \<longrightarrow> stored_alloc (eeprom s7) i = stored_alloc (eeprom s6) i"
    by auto
  have l7: "blk_next (eeprom s7) x = x - 1" if "0 \<le> x" "x \<le> - 1" for x
    using that s7(6) by simp
  have a0: "alloc_table s7 0 = \<lparr>fa_filesize = 240, fa_data_block = 58\<rparr>"
    by (simp add: s7(3) s6(3) s5(3) s4(3) s3(3) s2(3) s1(2) cfg_defs)
  have a22: "alloc_table s7 22 = \<lparr>fa_filesize = 0, fa_data_block = NULL_PTR\<rparr>"
    by (simp add: s7(3) s6(3) s5(3) s4(3) s3(3) s2(3) s1(3) null cfg_defs)
  have st7: "stored_alloc (eeprom s7) 22 = \<lparr>fa_filesize = 0, fa_data_block = NULL_PTR\<rparr>"
    by (simp add: s7(7) s6(7) s5(7) s4(7) s3(7) s2(7) s1(7) st0 cfg_defs)
  have er7: "errors_of s7 = []" by (simp add: s7(5) s6(5) s5(5) s4(5) s3(5) s2(5) s1(5))
  have nf7: "next_free_block s7 = NULL_PTR" by (simp add: s7(4) NULL_PTR_def)
  have p: "in_pool (fa_data_block (alloc_table s7 0))" by (simp add: a0 in_pool_def cfg_defs)
  have q: "\<not> in_pool (next_free_block s7)" by (simp add: nf7)
  from delete_pool_exhausted [OF n0 p q] obtain s' where s':
    "delete 0 s7 = Some s'"
    "alloc_table s' = (alloc_table s7)(0 := \<lparr>fa_filesize = 0, fa_data_block = NULL_PTR\<rparr>)"
    "errors_of s' = errors_of s7 @
                [(0, ''Block %d is not part of a block chain.\<newline>'', [next_free_block s7])]"
    "stored_alloc (eeprom s') 0 = \<lparr>fa_filesize = 0, fa_data_block = NULL_PTR\<rparr>"
    "stored_alloc (eeprom s') 22
       = \<lparr>fa_filesize = nat (fa_data_block (alloc_table s7 0)),
          fa_data_block = fa_data_block (stored_alloc (eeprom s7) 22)\<rparr>"
    by auto
  have r1: "errors_of s' = [(0, ''Block %d is not part of a block chain.\<newline>'', [NULL_PTR])]"
    by (simp add: s'(3) er7 nf7)
  have r2: "alloc_table s' 0 = \<lparr>fa_filesize = 0, fa_data_block = NULL_PTR\<rparr>"
    "alloc_table s' 22 = \<lparr>fa_filesize = 0, fa_data_block = NULL_PTR\<rparr>"
    by (simp_all add: s'(2) a22)
  have r3: "stored_alloc (eeprom s') 22 = \<lparr>fa_filesize = 58, fa_data_block = NULL_PTR\<rparr>"
    by (simp add: s'(5) a0 st7)
  show ?thesis
    using s1(1) s2(1) s3(1) s4(1) s5(1) s6(1) s7(1) er7 nf7 a0 a22 st7 s'(1) r1 r2 s'(4) r3
    by blast
qed

section \<open>The chains at every quiescent point\<close>

lemma is_path_end_unique: "is_path e b xs c \<Longrightarrow> is_path e b xs d \<Longrightarrow> c = d"
  by (induction xs arbitrary: b) auto

lemma is_chain_NULL [simp]: "is_chain e NULL_PTR xs = (xs = [])"
  by (cases xs) (auto simp: is_chain_def dest: in_pool_not_NULL)

lemma is_path_redirect:
  "is_path e b xs c \<Longrightarrow> xs \<noteq> [] \<Longrightarrow> distinct xs \<Longrightarrow>
   (\<And>x. x \<in> set (butlast xs) \<Longrightarrow> blk_next e' x = blk_next e x) \<Longrightarrow>
   blk_next e' (last xs) = d \<Longrightarrow> is_path e' b xs d"
proof (induction xs arbitrary: b)
  case Nil
  then show ?case by simp
next
  case (Cons x xs)
  show ?case
  proof (cases "xs = []")
    case True
    with Cons.prems show ?thesis by auto
  next
    case False
    with Cons.prems have "blk_next e' x = blk_next e x" by simp
    moreover have "is_path e' (blk_next e x) xs d"
      using Cons.prems False by (intro Cons.IH) auto
    ultimately show ?thesis using Cons.prems by simp
  qed
qed

lemma well_formed_frame:
  "alloc_table s' = alloc_table s \<Longrightarrow> eeprom s' = eeprom s \<Longrightarrow> well_formed s' = well_formed s"
  by (simp add: well_formed_def file_ok_def next_free_block_def)

lemma well_formed_format: "well_formed (format_eepromfs fm s)"
proof -
  have "is_chain (eeprom (format_eepromfs fm s)) (next_free_block (format_eepromfs fm s))
          (map (\<lambda>i. 58 - int i) [0..<59])"
    using formatted_path [of 59 fm s] by (simp add: is_chain_def NULL_PTR_def del: upt_Suc)
  moreover have "\<forall>f<EEPROM_FS_MAX_FILES.
      file_ok (format_eepromfs fm s) (\<lambda>_. []) (map (\<lambda>i. 58 - int i) [0..<59]) f"
    by (simp add: file_ok_def format_null_entry del: upt_Suc)
  ultimately show ?thesis unfolding well_formed_def by blast
qed

lemma well_formed_allocate:
  assumes fr: "is_chain (eeprom s) (next_free_block s) free"
    and files: "\<And>f. f < EEPROM_FS_MAX_FILES \<Longrightarrow> file_ok s ch free f"
    and name: "name < EEPROM_FS_MAX_FILES"
    and n: "0 < n" "n \<le> length free"
    and path: "is_path (eeprom s) (next_free_block s) (take n free) c"
    and tab: "alloc_table s' = (alloc_table s)
                (EEPROM_FS_MAX_FILES := (alloc_table s EEPROM_FS_MAX_FILES)\<lparr>fa_data_block := c\<rparr>,
                 name := \<lparr>fa_filesize = fsz, fa_data_block = hd (take n free)\<rparr>)"
    and chain: "is_chain (eeprom s') (hd (take n free)) (take n free)"
    and links: "\<forall>b. in_pool b \<longrightarrow> b \<noteq> last (take n free) \<longrightarrow> blk_next (eeprom s') b = blk_next (eeprom s) b"
    and fsz: "fsz \<le> EEPROM_FS_MAX_BLOCKS_PER_FILE * EEPROM_FS_BLOCK_DATA_SIZE" "n = chain_blocks fsz"
  shows "well_formed s' \<and> is_chain (eeprom s') (next_free_block s') (drop n free)"
proof -
  let ?xs = "take n free" and ?rest = "drop n free"
  have dist: "distinct free" using fr by (rule is_chain_distinct)
  have ne: "?xs \<noteq> []" using n by auto
  have apart: "set ?xs \<inter> set ?rest = {}"
    using dist by (simp add: set_take_disj_set_drop_if_distinct)
  have lastxs: "last ?xs \<in> set ?xs" using ne by (rule last_in_set)
  have pool: "in_pool b" if "b \<in> set free" for b
    using fr that by (auto simp: is_chain_def dest: is_path_in_pool)
  have "is_path (eeprom s) (next_free_block s) (?xs @ ?rest) NULL_PTR"
    using fr by (simp add: is_chain_def)
  then obtain m where m: "is_path (eeprom s) (next_free_block s) ?xs m"
      "is_path (eeprom s) m ?rest NULL_PTR"
    unfolding is_path_append by blast
  have mc: "m = c" using is_path_end_unique [OF m(1) path] .
  have nf: "next_free_block s' = c" using name by (simp add: next_free_block_def tab)
  have rest_same: "blk_next (eeprom s') b = blk_next (eeprom s) b" if b: "b \<in> set ?rest" for b
  proof -
    from b have "b \<in> set free" by (rule in_set_dropD)
    then have "in_pool b" by (rule pool)
    moreover have "b \<noteq> last ?xs" using apart lastxs b by auto
    ultimately show ?thesis using links by simp
  qed
  have "is_path (eeprom s') c ?rest NULL_PTR = is_path (eeprom s) c ?rest NULL_PTR"
    by (rule is_path_cong) (rule rest_same)
  then have free': "is_chain (eeprom s') (next_free_block s') ?rest"
    using m(2) mc by (simp add: is_chain_def nf)
  define ch' where "ch' = ch(name := ?xs)"
  have "file_ok s' ch' ?rest f" if f: "f < EEPROM_FS_MAX_FILES" for f
  proof (cases "f = name")
    case True
    have "in_pool (hd ?xs)" using is_path_hd [OF path ne] by simp
    then have hd: "hd ?xs \<noteq> NULL_PTR" by (auto dest: in_pool_not_NULL)
    have others: "\<forall>g<EEPROM_FS_MAX_FILES. g \<noteq> name \<longrightarrow> set ?xs \<inter> set (ch g) = {}"
    proof (intro allI impI)
      fix g assume g: "g < EEPROM_FS_MAX_FILES" "g \<noteq> name"
      from files [OF g(1)] have "set (ch g) \<inter> set free = {}" by (simp add: file_ok_def)
      then show "set ?xs \<inter> set (ch g) = {}" using set_take_subset [of n free] by auto
    qed
    have len: "length ?xs = chain_blocks fsz" using n fsz by simp
    show ?thesis
      unfolding file_ok_def True
      using chain fsz(1) hd others len apart by (simp add: ch'_def tab)
  next
    case False
    from files [OF f] have ok: "file_ok s ch free f" .
    have tabf: "alloc_table s' f = alloc_table s f" using False f by (simp add: tab)
    have same: "blk_next (eeprom s') b = blk_next (eeprom s) b" if b: "b \<in> set (ch f)" for b
    proof -
      have "in_pool b" using ok b by (auto simp: file_ok_def is_chain_def dest: is_path_in_pool)
      moreover have "b \<notin> set free" using ok b by (auto simp: file_ok_def)
      then have "b \<noteq> last ?xs" using lastxs set_take_subset [of n free] by auto
      ultimately show ?thesis using links by simp
    qed
    have "is_path (eeprom s') (fa_data_block (alloc_table s f)) (ch f) NULL_PTR
            = is_path (eeprom s) (fa_data_block (alloc_table s f)) (ch f) NULL_PTR"
      by (rule is_path_cong) (rule same)
    then have c1: "is_chain (eeprom s') (fa_data_block (alloc_table s f)) (ch f)"
      using ok by (simp add: file_ok_def is_chain_def)
    have c2: "set (ch f) \<inter> set ?rest = {}"
      using ok set_drop_subset [of n free] by (auto simp: file_ok_def)
    have c3: "\<forall>g<EEPROM_FS_MAX_FILES. g \<noteq> f \<longrightarrow> set (ch f) \<inter> set (ch' g) = {}"
    proof (intro allI impI)
      fix g assume g: "g < EEPROM_FS_MAX_FILES" "g \<noteq> f"
      show "set (ch f) \<inter> set (ch' g) = {}"
      proof (cases "g = name")
        case True
        then show ?thesis using ok set_take_subset [of n free] by (auto simp: ch'_def file_ok_def)
      next
        case False
        then show ?thesis using ok g by (simp add: ch'_def file_ok_def)
      qed
    qed
    have c4: "fa_filesize (alloc_table s f) \<le> EEPROM_FS_MAX_BLOCKS_PER_FILE * EEPROM_FS_BLOCK_DATA_SIZE"
      "fa_data_block (alloc_table s f) = NULL_PTR \<longrightarrow> fa_filesize (alloc_table s f) = 0"
      "fa_data_block (alloc_table s f) \<noteq> NULL_PTR \<longrightarrow>
           length (ch f) = chain_blocks (fa_filesize (alloc_table s f))"
      using ok by (simp_all add: file_ok_def)
    show ?thesis
      unfolding file_ok_def tabf using c1 c2 c3 c4 False by (simp add: ch'_def)
  qed
  with free' have "well_formed s'" unfolding well_formed_def by blast
  with free' show ?thesis by simp
qed

lemma chain_blocks_small:
  "sz < EEPROM_FS_MAX_BLOCKS_PER_FILE * EEPROM_FS_BLOCK_DATA_SIZE \<Longrightarrow>
   chain_blocks sz = sz div EEPROM_FS_BLOCK_DATA_SIZE + 1"
  by (simp add: chain_blocks_def cfg_defs)

lemma chain_blocks_large:
  "EEPROM_FS_MAX_BLOCKS_PER_FILE * EEPROM_FS_BLOCK_DATA_SIZE \<le> sz \<Longrightarrow>
   chain_blocks sz = EEPROM_FS_MAX_BLOCKS_PER_FILE"
  by (simp add: chain_blocks_def cfg_defs)

lemma well_formed_write:
  assumes wf: "well_formed s" and name: "name < EEPROM_FS_MAX_FILES"
    and absent: "fa_data_block (alloc_table s name) = NULL_PTR"
    and sz: "sz < EEPROM_FS_MAX_BLOCKS_PER_FILE * EEPROM_FS_BLOCK_DATA_SIZE
       \<or> (EEPROM_FS_MAX_BLOCKS_PER_FILE + 1) * EEPROM_FS_BLOCK_DATA_SIZE \<le> sz \<and> sz < 65536"
    and fr: "is_chain (eeprom s) (next_free_block s) free"
    and enough: "chain_blocks sz \<le> length free"
  shows "\<exists>s'. write_file name data sz tw blk s = Some s' \<and> well_formed s'
           \<and> fa_filesize (alloc_table s' name)
               = min sz (EEPROM_FS_MAX_BLOCKS_PER_FILE * EEPROM_FS_BLOCK_DATA_SIZE)
           \<and> fa_data_block (alloc_table s' name) = next_free_block s
           \<and> next_free_block s \<noteq> NULL_PTR
           \<and> (\<forall>g<EEPROM_FS_MAX_FILES. g \<noteq> name \<longrightarrow> alloc_table s' g = alloc_table s g)
           \<and> is_chain (eeprom s') (next_free_block s') (drop (chain_blocks sz) free)"
proof -
  from wf obtain free0 ch where w: "is_chain (eeprom s) (next_free_block s) free0"
      "\<forall>f<EEPROM_FS_MAX_FILES. file_ok s ch free0 f"
    unfolding well_formed_def by blast
  have "free0 = free" using w(1) fr by (rule is_chain_deterministic)
  with w(2) have files: "\<And>f. f < EEPROM_FS_MAX_FILES \<Longrightarrow> file_ok s ch free f" by simp
  have empty: "fa_filesize (alloc_table s name) = 0"
    using files [OF name] absent by (simp add: file_ok_def)
  let ?n = "chain_blocks sz"
  let ?xs = "take ?n free"
  have pos: "0 < ?n" by (simp add: chain_blocks_def cfg_defs)
  from is_chain_take [OF fr enough] obtain c where
    c: "is_path (eeprom s) (next_free_block s) ?xs c" "distinct ?xs" by blast
  have ne: "?xs \<noteq> []" using pos enough by auto
  have hd: "next_free_block s = hd ?xs" "in_pool (hd ?xs)" using is_path_hd [OF c(1) ne] by simp_all
  then have nn: "next_free_block s \<noteq> NULL_PTR" by (auto dest: in_pool_not_NULL)
  from sz show ?thesis
  proof
    assume small: "sz < EEPROM_FS_MAX_BLOCKS_PER_FILE * EEPROM_FS_BLOCK_DATA_SIZE"
    have fits: "fa_filesize (alloc_table s name) div EEPROM_FS_BLOCK_DATA_SIZE
                 + sz div EEPROM_FS_BLOCK_DATA_SIZE \<le> EEPROM_FS_MAX_BLOCKS_PER_FILE"
      using small by (simp add: empty cfg_defs)
    have len: "length ?xs = sz div EEPROM_FS_BLOCK_DATA_SIZE + 1"
      using enough chain_blocks_small [OF small] by simp
    from write_file_plain [OF name fits c len, of data tw blk] obtain s' where s':
      "write_file name data sz tw blk s = Some s'"
      "alloc_table s' = (alloc_table s)
         (EEPROM_FS_MAX_FILES := (alloc_table s EEPROM_FS_MAX_FILES)\<lparr>fa_data_block := c\<rparr>,
          name := \<lparr>fa_filesize = sz, fa_data_block = hd ?xs\<rparr>)"
      "is_chain (eeprom s') (hd ?xs) ?xs"
      "\<forall>b. in_pool b \<longrightarrow> b \<noteq> last ?xs \<longrightarrow> blk_next (eeprom s') b = blk_next (eeprom s) b"
      by blast
    have le: "sz \<le> EEPROM_FS_MAX_BLOCKS_PER_FILE * EEPROM_FS_BLOCK_DATA_SIZE" using small by simp
    have "well_formed s' \<and> is_chain (eeprom s') (next_free_block s') (drop ?n free)"
      by (rule well_formed_allocate [OF fr files name pos enough c(1) s'(2,3,4) le refl])
    then show ?thesis
      using s'(1,2) hd(1) nn small by (intro exI [of _ s']) simp
  next
    assume large: "(EEPROM_FS_MAX_BLOCKS_PER_FILE + 1) * EEPROM_FS_BLOCK_DATA_SIZE \<le> sz \<and> sz < 65536"
    let ?used = "fa_filesize (alloc_table s name) div EEPROM_FS_BLOCK_DATA_SIZE"
    have used: "?used = 0" by (simp add: empty)
    have "9 * 30 \<le> sz" using large by (simp add: cfg_defs)
    then have "9 \<le> sz div 30" by (simp add: less_eq_div_iff_mult_less_eq)
    then have over: "EEPROM_FS_MAX_BLOCKS_PER_FILE < ?used + sz div EEPROM_FS_BLOCK_DATA_SIZE"
      by (simp add: empty cfg_defs)
    have room: "?used < EEPROM_FS_MAX_BLOCKS_PER_FILE" by (simp add: empty cfg_defs)
    have small: "sz < 65536" using large by simp
    have big: "EEPROM_FS_MAX_BLOCKS_PER_FILE * EEPROM_FS_BLOCK_DATA_SIZE \<le> sz"
      using large by (simp add: cfg_defs)
    have n8: "?n = EEPROM_FS_MAX_BLOCKS_PER_FILE" using chain_blocks_large [OF big] .
    have len: "length ?xs = EEPROM_FS_MAX_BLOCKS_PER_FILE - ?used"
      using enough n8 by (simp add: empty)
    from write_file_truncated [OF name refl over room small c len, of data tw blk] obtain s' where s':
      "write_file name data sz tw blk s = Some s'"
      "alloc_table s' = (alloc_table s)
         (EEPROM_FS_MAX_FILES := (alloc_table s EEPROM_FS_MAX_FILES)\<lparr>fa_data_block := c\<rparr>,
          name := \<lparr>fa_filesize = (EEPROM_FS_MAX_BLOCKS_PER_FILE - ?used) * EEPROM_FS_BLOCK_DATA_SIZE,
                   fa_data_block = hd ?xs\<rparr>)"
      "is_chain (eeprom s') (hd ?xs) ?xs"
      "\<forall>b. in_pool b \<longrightarrow> b \<noteq> last ?xs \<longrightarrow> blk_next (eeprom s') b = blk_next (eeprom s) b"
      by blast
    let ?fsz = "(EEPROM_FS_MAX_BLOCKS_PER_FILE - ?used) * EEPROM_FS_BLOCK_DATA_SIZE"
    have le: "?fsz \<le> EEPROM_FS_MAX_BLOCKS_PER_FILE * EEPROM_FS_BLOCK_DATA_SIZE" by simp
    have eq: "?n = chain_blocks ?fsz"
      unfolding n8 by (simp add: empty chain_blocks_def cfg_defs)
    have "well_formed s' \<and> is_chain (eeprom s') (next_free_block s') (drop ?n free)"
      by (rule well_formed_allocate [OF fr files name pos enough c(1) s'(2,3,4) le eq])
    moreover have "fa_filesize (alloc_table s' name)
               = min sz (EEPROM_FS_MAX_BLOCKS_PER_FILE * EEPROM_FS_BLOCK_DATA_SIZE)"
      using big by (simp add: s'(2) empty)
    ultimately show ?thesis
      using s'(1,2) hd(1) nn by (intro exI [of _ s']) simp
  qed
qed

lemma well_formed_delete:
  assumes wf: "well_formed s" and f: "f < EEPROM_FS_MAX_FILES"
    and ok: "fa_data_block (alloc_table s f) = NULL_PTR \<or> next_free_block s \<noteq> NULL_PTR"
  shows "\<exists>s'. delete f s = Some s' \<and> well_formed s'
           \<and> alloc_table s' = (alloc_table s)(f := \<lparr>fa_filesize = 0, fa_data_block = NULL_PTR\<rparr>)
           \<and> (\<forall>fs xs. is_chain (eeprom s) (next_free_block s) fs
                  \<longrightarrow> is_chain (eeprom s) (fa_data_block (alloc_table s f)) xs
                  \<longrightarrow> is_chain (eeprom s') (next_free_block s') (fs @ xs))"
proof -
  from wf obtain free ch where fr: "is_chain (eeprom s) (next_free_block s) free"
      and files: "\<And>g. g < EEPROM_FS_MAX_FILES \<Longrightarrow> file_ok s ch free g"
    unfolding well_formed_def by blast
  have pool_free: "in_pool b" if "b \<in> set free" for b
    using fr that by (auto simp: is_chain_def dest: is_path_in_pool)
  have pool_ch: "in_pool b" if "g < EEPROM_FS_MAX_FILES" "b \<in> set (ch g)" for g b
    using files [OF that(1)] that(2) by (auto simp: file_ok_def is_chain_def dest: is_path_in_pool)
  show ?thesis
  proof (cases "fa_data_block (alloc_table s f) = NULL_PTR")
    case True
    then have np: "\<not> in_pool (fa_data_block (alloc_table s f))" by (auto dest: in_pool_not_NULL)
    from delete_absent [OF f np] obtain s' where s':
      "delete f s = Some s'"
      "alloc_table s' = (alloc_table s)(f := \<lparr>fa_filesize = 0, fa_data_block = NULL_PTR\<rparr>)"
      "eeprom s' = eeprom_write_block (enc_file_alloc \<lparr>fa_filesize = 0, fa_data_block = NULL_PTR\<rparr>)
                     (alloc_entry_addr f) (eeprom s)"
      by blast
    have links: "blk_next (eeprom s') b = blk_next (eeprom s) b" if "in_pool b" for b
      using entry_write_effects(4) [OF f that, of "eeprom s"] by (simp add: s'(3))
    have nf: "next_free_block s' = next_free_block s"
      using f by (simp add: next_free_block_def s'(2))
    have "is_path (eeprom s') (next_free_block s) free NULL_PTR
            = is_path (eeprom s) (next_free_block s) free NULL_PTR"
      by (rule is_path_cong) (rule links, rule pool_free)
    then have free': "is_chain (eeprom s') (next_free_block s') free"
      using fr by (simp add: is_chain_def nf)
    have chf: "ch f = []" using files [OF f] True by (simp add: file_ok_def)
    have "file_ok s' ch free g" if g: "g < EEPROM_FS_MAX_FILES" for g
    proof (cases "g = f")
      case True
      then show ?thesis using files [OF f] chf by (simp add: file_ok_def s'(2))
    next
      case False
      have "is_path (eeprom s') (fa_data_block (alloc_table s g)) (ch g) NULL_PTR
              = is_path (eeprom s) (fa_data_block (alloc_table s g)) (ch g) NULL_PTR"
        by (rule is_path_cong) (rule links, rule pool_ch [OF g])
      then show ?thesis using files [OF g] False by (simp add: file_ok_def s'(2) is_chain_def)
    qed
    with free' have "well_formed s'" unfolding well_formed_def by blast
    moreover have "is_chain (eeprom s') (next_free_block s') (fs @ xs)"
      if "is_chain (eeprom s) (next_free_block s) fs"
         "is_chain (eeprom s) (fa_data_block (alloc_table s f)) xs" for fs xs
      using that free' is_chain_deterministic [OF fr that(1)] True by simp
    ultimately show ?thesis using s'(1,2) by (intro exI [of _ s']) simp
  next
    case False
    let ?first = "fa_data_block (alloc_table s f)"
    have okf: "file_ok s ch free f" by (rule files [OF f])
    then have chain_f: "is_chain (eeprom s) ?first (ch f)" by (simp add: file_ok_def)
    have chne: "ch f \<noteq> []" using chain_f False by (auto simp: is_chain_def)
    have first: "in_pool ?first" using is_path_hd [of "eeprom s" ?first "ch f" NULL_PTR] chain_f chne
      by (simp add: is_chain_def)
    from ok False have "next_free_block s \<noteq> NULL_PTR" by simp
    then have frne: "free \<noteq> []" using fr by (auto simp: is_chain_def)
    let ?e1 = "eeprom_write_block (le16 ?first) (get_block_pointer (last free)) (eeprom s)"
    from delete_present [OF f first fr frne] obtain s' where s':
      "delete f s = Some s'"
      "alloc_table s' = (alloc_table s)(f := \<lparr>fa_filesize = 0, fa_data_block = NULL_PTR\<rparr>)"
      "eeprom s' = eeprom_write_block (enc_file_alloc \<lparr>fa_filesize = 0, fa_data_block = NULL_PTR\<rparr>)
                     (alloc_entry_addr f) ?e1"
      by blast
    have lastp: "in_pool (last free)" by (rule is_chain_last_in_pool [OF fr frne])
    have l1: "blk_next (eeprom s') b = blk_next ?e1 b" if "in_pool b" for b
      using entry_write_effects(4) [OF f that, of ?e1] by (simp add: s'(3))
    have last_link: "blk_next (eeprom s') (last free) = ?first"
      using first by (simp add: l1 [OF lastp] blk_next_write_same in_pool_def cfg_defs)
    have links: "blk_next (eeprom s') b = blk_next (eeprom s) b" if b: "in_pool b" "b \<noteq> last free" for b
    proof -
      have "get_block_pointer b + 2 \<le> get_block_pointer (last free)
            \<or> get_block_pointer (last free) + length (le16 ?first) \<le> get_block_pointer b"
        using block_pointers_apart [OF b(1) lastp b(2)] by auto
      then have "blk_next ?e1 b = blk_next (eeprom s) b" by (rule blk_next_write_other)
      then show ?thesis by (simp add: l1 [OF b(1)])
    qed
    have dist: "distinct free" using fr by (rule is_chain_distinct)
    have lastin: "last free \<in> set free" using frne by (rule last_in_set)
    have apart: "set (ch f) \<inter> set free = {}" using okf by (simp add: file_ok_def)
    have nf: "next_free_block s' = next_free_block s"
      using f by (simp add: next_free_block_def s'(2))
    have p1: "is_path (eeprom s') (next_free_block s) free ?first"
    proof (rule is_path_redirect [where e = "eeprom s" and c = NULL_PTR])
      show "is_path (eeprom s) (next_free_block s) free NULL_PTR" using fr by (simp add: is_chain_def)
      show "free \<noteq> []" by (rule frne)
      show "distinct free" by (rule dist)
      show "blk_next (eeprom s') (last free) = ?first" by (rule last_link)
    next
      fix x assume x: "x \<in> set (butlast free)"
      then have "x \<in> set free" by (rule in_set_butlastD)
      then have "in_pool x" by (rule pool_free)
      moreover have "x \<noteq> last free"
        using dist x frne by (metis append_butlast_last_id distinct_butlast not_distinct_conv_prefix distinct_append Int_iff empty_iff list.set_intros(1) distinct.simps(2))
      ultimately show "blk_next (eeprom s') x = blk_next (eeprom s) x" by (rule links)
    qed
    have same_other: "blk_next (eeprom s') b = blk_next (eeprom s) b"
      if "g < EEPROM_FS_MAX_FILES" "b \<in> set (ch g)" for g b
    proof -
      have "b \<notin> set free" using files [OF that(1)] that(2) by (auto simp: file_ok_def)
      then have "b \<noteq> last free" using lastin by auto
      with pool_ch [OF that] show ?thesis by (rule links)
    qed
    have "is_path (eeprom s') ?first (ch f) NULL_PTR = is_path (eeprom s) ?first (ch f) NULL_PTR"
      by (rule is_path_cong) (rule same_other [OF f])
    then have p2: "is_path (eeprom s') ?first (ch f) NULL_PTR" using chain_f by (simp add: is_chain_def)
    have free': "is_chain (eeprom s') (next_free_block s') (free @ ch f)"
      unfolding is_chain_def nf is_path_append using p1 p2 by blast
    define ch' where "ch' = ch(f := [])"
    have "file_ok s' ch' (free @ ch f) g" if g: "g < EEPROM_FS_MAX_FILES" for g
    proof (cases "g = f")
      case True
      then show ?thesis by (simp add: file_ok_def s'(2) ch'_def)
    next
      case False
      from files [OF g] have okg: "file_ok s ch free g" .
      have "is_path (eeprom s') (fa_data_block (alloc_table s g)) (ch g) NULL_PTR
              = is_path (eeprom s) (fa_data_block (alloc_table s g)) (ch g) NULL_PTR"
        by (rule is_path_cong) (rule same_other [OF g])
      then have c1: "is_chain (eeprom s') (fa_data_block (alloc_table s g)) (ch g)"
        using okg by (simp add: file_ok_def is_chain_def)
      have c2: "set (ch g) \<inter> set (free @ ch f) = {}"
        using okg False f by (auto simp: file_ok_def)
      have c3: "\<forall>h<EEPROM_FS_MAX_FILES. h \<noteq> g \<longrightarrow> set (ch g) \<inter> set (ch' h) = {}"
        using okg by (simp add: file_ok_def ch'_def)
      have c4: "fa_filesize (alloc_table s g) \<le> EEPROM_FS_MAX_BLOCKS_PER_FILE * EEPROM_FS_BLOCK_DATA_SIZE"
        "fa_data_block (alloc_table s g) = NULL_PTR \<longrightarrow> fa_filesize (alloc_table s g) = 0"
        "fa_data_block (alloc_table s g) \<noteq> NULL_PTR \<longrightarrow>
             length (ch g) = chain_blocks (fa_filesize (alloc_table s g))"
        using okg by (simp_all add: file_ok_def)
      have tabg: "alloc_table s' g = alloc_table s g" using False by (simp add: s'(2))
      show ?thesis
        unfolding file_ok_def tabg using c1 c2 c3 c4 False by (simp add: ch'_def)
    qed
    with free' have "well_formed s'" unfolding well_formed_def by blast
    moreover have "is_chain (eeprom s') (next_free_block s') (fs @ xs)"
      if "is_chain (eeprom s) (next_free_block s) fs"
         "is_chain (eeprom s) (fa_data_block (alloc_table s f)) xs" for fs xs
      using free' is_chain_deterministic [OF fr that(1)] is_chain_deterministic [OF chain_f that(2)]
      by simp
    ultimately show ?thesis using s'(1,2) by (intro exI [of _ s']) simp
  qed
qed

lemma quiescent_well_formed: "quiescent s \<Longrightarrow> well_formed s"
proof (induction rule: quiescent.induct)
  case (formatted fm s)
  show ?case by (rule well_formed_format)
next
  case (level s l)
  then show ?case using well_formed_frame [of "set_debug l s" s] by (simp add: set_debug_def)
next
  case (opened_read s name)
  then show ?case by (simp add: well_formed_frame [of "snd (open_for_read name s)" s])
next
  case (opened_write s name)
  then show ?case by (simp add: well_formed_frame [of "snd (open_for_write name s)" s])
next
  case (opened_append s name)
  then show ?case by (simp add: well_formed_frame [of "snd (open_for_append name s)" s])
next
  case (was_read s fh buf buf' s')
  from read_frame(1,2) [OF was_read(2)] was_read(3) show ?case
    by (simp add: well_formed_frame [of s' s])
next
  case (written s name sz free data tw blk s')
  from well_formed_write [OF written(8,2,3,4,5,6), of data tw blk] written(7)
  show ?case by auto
next
  case (deleted s f s')
  from well_formed_delete [OF deleted(5,2,3)] deleted(4) show ?case by auto
qed

lemma ceil_not_multiple:
  assumes "(n::nat) mod 30 \<noteq> 0"
  shows "(n + 30 - 1) div 30 = n div 30 + 1"
proof -
  let ?r = "n mod 30"
  have r: "1 \<le> ?r" "?r < 30" using assms by simp_all
  have "n + 30 - 1 = (?r - 1) + 30 * (n div 30 + 1)" using r by simp
  also have "\<dots> div 30 = (?r - 1) div 30 + (n div 30 + 1)" by simp
  also have "(?r - 1) div 30 = 0" using r by simp
  finally show ?thesis by simp
qed

lemma below_cap:
  assumes "(n::nat) \<le> 240" "n mod 30 \<noteq> 0"
  shows "n div 30 + 1 \<le> 8"
proof -
  have "n \<noteq> 240" using assms(2) by auto
  with assms(1) have "n < 8 * 30" by simp
  then have "n div 30 < 8" by (simp add: div_less_iff_less_mult)
  then show ?thesis by simp
qed



end
